(* ===== verification/Prelude.thy ===== *)
theory Prelude
  imports Main
begin

text \<open>
  Shared vocabulary of the development: the JavaScript string builtins the resolver
  calls (\<open>startsWith\<close>, \<open>slice\<close>, \<open>trim\<close>, \<open>split\<close>), decimal printing of
  numbers as in template literals, and the generic lemmas on strings the component
  theories share. The collection \<open>js_simps\<close> gathers the evaluation rules of the
  JavaScript runtime model; component proofs add it to \<open>simp\<close>.
\<close>

named_theorems js_simps "evaluation rules of the JavaScript runtime model"
named_theorems wt_intros "introduction rules for well-typed JavaScript objects"

type_synonym jsstring = string

subsection \<open>String builtins\<close>

definition startsWith :: "string \<Rightarrow> string \<Rightarrow> bool" where
  "startsWith s p \<longleftrightarrow> take (length p) s = p"

definition slice :: "string \<Rightarrow> nat \<Rightarrow> string" where
  "slice s n = drop n s"

text \<open>\<open>String.prototype.trim\<close>: the ASCII whitespace and line terminators
  (space, tab, LF, VT, FF, CR) are removed at both ends.\<close>

definition is_js_space :: "char \<Rightarrow> bool" where
  "is_js_space c \<longleftrightarrow> c \<in> set [CHR '' '', CHR 0x09, CHR 0x0A, CHR 0x0B, CHR 0x0C, CHR 0x0D]"

definition trim :: "string \<Rightarrow> string" where
  "trim s = rev (dropWhile is_js_space (rev (dropWhile is_js_space s)))"

text \<open>\<open>String.prototype.split\<close> with a one-character separator: the pieces between
  separators, empty ones included; splitting \<open>''''\<close> gives \<open>['''']\<close>.\<close>

fun split_on :: "char \<Rightarrow> string \<Rightarrow> string list" where
  "split_on d [] = [[]]"
| "split_on d (c # cs) =
     (if c = d then [] # split_on d cs
      else (case split_on d cs of w # ws \<Rightarrow> (c # w) # ws | [] \<Rightarrow> [[c]]))"

text \<open>\<open>Array.prototype.join\<close>.\<close>

fun join :: "string \<Rightarrow> string list \<Rightarrow> string" where
  "join sep [] = []"
| "join sep [s] = s"
| "join sep (s # ss) = s @ sep @ join sep ss"

subsection \<open>Decimal printing of numbers\<close>

definition digit_char :: "nat \<Rightarrow> char" where
  "digit_char d = char_of (48 + d)"

fun show_nat :: "nat \<Rightarrow> string" where
  "show_nat n = (if n < 10 then [digit_char n] else show_nat (n div 10) @ [digit_char (n mod 10)])"

declare show_nat.simps [simp del]

subsection \<open>Lemmas on the string builtins\<close>

lemma startsWith_append [simp, js_simps]: "startsWith (p @ s) p"
  by (simp add: startsWith_def)

lemma startsWith_iff: "startsWith s p \<longleftrightarrow> (\<exists>r. s = p @ r)"
  unfolding startsWith_def by (metis append_eq_conv_conj append_take_drop_id)

lemma slice_append [simp, js_simps]: "slice (p @ s) (length p) = s"
  by (simp add: slice_def)

lemma length_heads_tags: "length ''refs/heads/'' = 11" "length ''refs/tags/'' = 10"
  by simp_all

lemma startsWith_slice: "startsWith s p \<Longrightarrow> s = p @ slice s (length p)"
  by (simp add: startsWith_def slice_def) (metis append_take_drop_id)

lemma startsWith_both:
  assumes "startsWith r p" and "startsWith r q" and "length q \<le> length p"
  shows "startsWith p q"
proof -
  have "take (length q) p = take (length q) (take (length p) r)"
    using assms(1) by (simp add: startsWith_def)
  also have "\<dots> = take (length q) r"
    using assms(3) by (simp add: min_def)
  finally show ?thesis
    using assms(2) by (simp add: startsWith_def)
qed

lemma split_on_nonempty [simp]: "split_on d s \<noteq> []"
  by (induction s) (auto split: list.splits)

lemma split_on_no_sep: "d \<notin> set w \<Longrightarrow> split_on d w = [w]"
  by (induction w) auto

subsection \<open>Trimming\<close>

lemma dropWhile_rev_prefix:
  "\<exists>w. xs = rev (dropWhile P (rev xs)) @ w"
proof -
  have "rev xs = takeWhile P (rev xs) @ dropWhile P (rev xs)" by simp
  then have "xs = rev (dropWhile P (rev xs)) @ rev (takeWhile P (rev xs))"
    by (metis rev_append rev_rev_ident)
  then show ?thesis by blast
qed

lemma trim_idem [simp]: "trim (trim s) = trim s"
proof -
  let ?t = "dropWhile is_js_space s"
  let ?u = "rev (dropWhile is_js_space (rev ?t))"
  have hd_t: "?t = [] \<or> \<not> is_js_space (hd ?t)"
    by (metis dropWhile_eq_Nil_conv hd_dropWhile)
  obtain w where tw: "?t = ?u @ w" using dropWhile_rev_prefix by blast
  have u1: "dropWhile is_js_space ?u = ?u"
  proof (cases ?u)
    case Nil
    show ?thesis unfolding Nil by simp
  next
    case (Cons a as)
    with tw have ne: "?t \<noteq> []" and ha: "hd ?t = a" by auto
    from hd_t ne have "\<not> is_js_space (hd ?t)" by blast
    with ha have "\<not> is_js_space a" by simp
    then show ?thesis unfolding Cons by simp
  qed
  have u2: "dropWhile is_js_space (rev ?u) = rev ?u"
    by (simp add: dropWhile_eq_self_iff)
  show ?thesis
    unfolding trim_def using u1 u2 by simp
qed

end
