(* ===== verification/Types.thy ===== *)
theory Types
  imports Prelude
begin

text \<open>
  The data the resolver manipulates. \<open>src/bitrise/types.ts\<close> is not part of the
  sources; its records \<open>CommitPathsFilter\<close>, \<open>BitriseEnvironment\<close> and
  \<open>BitriseAppDetails\<close> are modelled from their use in \<open>options.ts\<close> and the spec.

  The resolver builds its result as a dynamic JavaScript object
  (\<open>Record<string, any>\<close>) by object literals and spread. The model keeps that
  shape: an object is a finite map from the keys the code writes (\<open>okey\<close>) to
  JavaScript values (\<open>jsval\<close>). A key present with value \<open>undefined\<close> is
  \<open>Some Undef\<close>, an absent key is \<open>None\<close>; reading either gives \<open>Undef\<close>
  (\<open>get\<close>), as property access does. Spread \<open>{...a, ...b}\<close> is \<open>a ++ b\<close>:
  every key of \<open>b\<close>, an \<open>undefined\<close> one included, overrides \<open>a\<close>.
\<close>

record CommitPathsFilter =
  added :: "string list"
  removed :: "string list"
  modified :: "string list"

record BitriseEnvironment =
  mapped_to :: string
  env_value :: string
  is_expand :: bool

record BitriseAppDetails =
  repo_url :: "string option"

datatype jsval =
    Undef
  | JStr string
  | JNum nat
  | JBool bool
  | JStrs "string list"
  | JPaths "CommitPathsFilter list"
  | JEnvs "BitriseEnvironment list"

text \<open>The keys of \<open>BitriseBuildOptions\<close> the resolver writes.\<close>

datatype okey =
    K_branch | K_tag | K_commit_hash | K_commit_message | K_commit_messages | K_commit_paths
  | K_base_repository_url | K_head_repository_url | K_pull_request_repository_url
  | K_pull_request_unverified_merge_branch | K_pull_request_merge_branch
  | K_pull_request_head_branch | K_branch_repo_owner | K_branch_dest | K_branch_dest_repo_owner
  | K_pull_request_id | K_pull_request_author | K_diff_url | K_pull_request_ready_state
  | K_workflow_id | K_pipeline_id | K_skip_git_status_report | K_environments

text \<open>The keys form a finite enumeration, so a property of every key is decided by
  looking at each in turn.\<close>

instantiation okey :: enum
begin

definition enum_okey :: "okey list" where
  "enum_okey =
    [K_branch, K_tag, K_commit_hash, K_commit_message, K_commit_messages, K_commit_paths,
     K_base_repository_url, K_head_repository_url, K_pull_request_repository_url,
     K_pull_request_unverified_merge_branch, K_pull_request_merge_branch,
     K_pull_request_head_branch, K_branch_repo_owner, K_branch_dest, K_branch_dest_repo_owner,
     K_pull_request_id, K_pull_request_author, K_diff_url, K_pull_request_ready_state,
     K_workflow_id, K_pipeline_id, K_skip_git_status_report, K_environments]"

definition enum_all_okey :: "(okey \<Rightarrow> bool) \<Rightarrow> bool" where
  "enum_all_okey P \<longleftrightarrow> list_all P (enum_class.enum :: okey list)"

definition enum_ex_okey :: "(okey \<Rightarrow> bool) \<Rightarrow> bool" where
  "enum_ex_okey P \<longleftrightarrow> list_ex P (enum_class.enum :: okey list)"

instance
proof
  have univ: "UNIV = set (enum_class.enum :: okey list)"
  proof -
    have "k \<in> set (enum_class.enum :: okey list)" for k :: okey
      by (cases k) (simp_all add: enum_okey_def)
    then show ?thesis by blast
  qed
  show "(UNIV :: okey set) = set enum_class.enum" by (rule univ)
  show "distinct (enum_class.enum :: okey list)" by (simp add: enum_okey_def)
  fix P :: "okey \<Rightarrow> bool"
  show "enum_class.enum_all P = Ball UNIV P" by (simp add: enum_all_okey_def univ list_all_iff)
  show "enum_class.enum_ex P = Bex UNIV P" by (simp add: enum_ex_okey_def univ list_ex_iff)
qed

end

type_synonym obj = "okey \<rightharpoonup> jsval"

definition get :: "obj \<Rightarrow> okey \<Rightarrow> jsval" where
  "get ob k = (case ob k of None \<Rightarrow> Undef | Some v \<Rightarrow> v)"

text \<open>Optional chaining \<open>x?.k\<close> on a value that may be \<open>null\<close>.\<close>

definition oget :: "obj option \<Rightarrow> okey \<Rightarrow> jsval" where
  "oget ob k = (case ob of None \<Rightarrow> Undef | Some b \<Rightarrow> get b k)"

text \<open>A \<open>string | undefined\<close> stored into an object.\<close>

definition js_of_opt :: "string option \<Rightarrow> jsval" where
  "js_of_opt s = (case s of None \<Rightarrow> Undef | Some x \<Rightarrow> JStr x)"

text \<open>JavaScript truthiness, as \<open>if (x)\<close> and \<open>&&\<close> test it: \<open>undefined\<close>, the
  empty string, \<open>0\<close> and \<open>false\<close> are falsy; arrays are truthy.\<close>

fun truthy :: "jsval \<Rightarrow> bool" where
  "truthy Undef = False"
| "truthy (JStr s) = (s \<noteq> [])"
| "truthy (JNum n) = (n \<noteq> 0)"
| "truthy (JBool b) = b"
| "truthy (JStrs _) = True"
| "truthy (JPaths _) = True"
| "truthy (JEnvs _) = True"

text \<open>Conversion in a template literal \<open>`${x}`\<close>.\<close>

fun js_str :: "jsval \<Rightarrow> string" where
  "js_str Undef = ''undefined''"
| "js_str (JStr s) = s"
| "js_str (JNum n) = show_nat n"
| "js_str (JBool b) = (if b then ''true'' else ''false'')"
| "js_str (JStrs ss) = join '','' ss"
| "js_str (JPaths ps) = join '','' (map (\<lambda>_. ''[object Object]'') ps)"
| "js_str (JEnvs es) = join '','' (map (\<lambda>_. ''[object Object]'') es)"

text \<open>A property is set in the JSON the client sends when it is not \<open>undefined\<close>
  (\<open>JSON.stringify\<close> drops \<open>undefined\<close> properties).\<close>

definition is_set :: "obj \<Rightarrow> okey \<Rightarrow> bool" where
  "is_set ob k \<longleftrightarrow> get ob k \<noteq> Undef"

text \<open>Spec \<section>3: branch and tag are never both set.\<close>

definition branch_tag_exclusive :: "obj \<Rightarrow> bool" where
  "branch_tag_exclusive ob \<longleftrightarrow> \<not> (is_set ob K_branch \<and> is_set ob K_tag)"

text \<open>The declared types of the properties of \<open>BitriseBuildOptions\<close> (spec \<section>3):
  lists for the commit messages and paths, a number for the pull-request id, a
  boolean for the status-report flag, the environment entries, and strings for the
  rest. Every property is optional, so \<open>undefined\<close> has each of these types.\<close>

datatype jstype = TStr | TNum | TBool | TStrs | TPaths | TEnvs

fun key_type :: "okey \<Rightarrow> jstype" where
  "key_type K_commit_messages = TStrs"
| "key_type K_commit_paths = TPaths"
| "key_type K_pull_request_id = TNum"
| "key_type K_skip_git_status_report = TBool"
| "key_type K_environments = TEnvs"
| "key_type _ = TStr"

fun has_type :: "jsval \<Rightarrow> jstype \<Rightarrow> bool" where
  "has_type Undef _ = True"
| "has_type (JStr _) t = (t = TStr)"
| "has_type (JNum _) t = (t = TNum)"
| "has_type (JBool _) t = (t = TBool)"
| "has_type (JStrs _) t = (t = TStrs)"
| "has_type (JPaths _) t = (t = TPaths)"
| "has_type (JEnvs _) t = (t = TEnvs)"

text \<open>An object conforms to \<open>BitriseBuildOptions\<close> when every property has its
  declared type.\<close>

definition well_typed :: "obj \<Rightarrow> bool" where
  "well_typed ob \<longleftrightarrow> (\<forall>k. has_type (get ob k) (key_type k))"

lemma get_empty [simp, js_simps]: "get Map.empty k = Undef"
  by (simp add: get_def)

lemma get_upd [simp, js_simps]: "get (ob(k \<mapsto> v)) k' = (if k' = k then v else get ob k')"
  by (simp add: get_def)

lemma get_add [js_simps]: "get (a ++ b) k = (case b k of None \<Rightarrow> get a k | Some v \<Rightarrow> v)"
  by (simp add: get_def map_add_def split: option.splits)

lemma get_add_if: "get (a ++ b) k = (if k \<in> dom b then get b k else get a k)"
  by (auto simp: get_def map_add_def split: option.splits)

lemma get_add_dom [simp, js_simps]:
  "k \<in> dom b \<Longrightarrow> get (a ++ b) k = get b k"
  "k \<notin> dom b \<Longrightarrow> get (a ++ b) k = get a k"
  by (auto simp: get_def map_add_def split: option.splits)

lemma oget_simps [simp, js_simps]: "oget None k = Undef" "oget (Some b) k = get b k"
  by (simp_all add: oget_def)

lemma js_of_opt_simps [simp, js_simps]: "js_of_opt None = Undef" "js_of_opt (Some s) = JStr s"
  by (simp_all add: js_of_opt_def)

lemma truthy_js_of_opt [simp]: "truthy (js_of_opt s) \<longleftrightarrow> (\<exists>x. s = Some x \<and> x \<noteq> [])"
  by (cases s) auto

lemma is_set_iff [js_simps]: "is_set ob k \<longleftrightarrow> get ob k \<noteq> Undef"
  by (simp add: is_set_def)

lemma branch_tag_exclusive_upd [simp]:
  "k \<noteq> K_branch \<Longrightarrow> k \<noteq> K_tag \<Longrightarrow> branch_tag_exclusive (ob(k \<mapsto> v)) = branch_tag_exclusive ob"
  by (simp add: branch_tag_exclusive_def is_set_def)

lemma truthy_is_defined: "truthy v \<Longrightarrow> v \<noteq> Undef"
  by auto


lemma map_add_subsumed_dom: "dom a \<subseteq> dom b \<Longrightarrow> a ++ b = b"
  by (auto simp: map_add_def fun_eq_iff split: option.splits)

lemma is_set_add: "is_set (a ++ b) k \<Longrightarrow> is_set a k \<or> is_set b k"
  by (auto simp: is_set_def get_add_if split: if_splits)

subsection \<open>Well-typed objects\<close>

lemma well_typed_get: "well_typed ob \<Longrightarrow> has_type (get ob k) (key_type k)"
  by (simp add: well_typed_def)

lemma well_typed_empty [simp, wt_intros]: "well_typed Map.empty"
  by (simp add: well_typed_def)

lemma well_typed_add [wt_intros]: "well_typed a \<Longrightarrow> well_typed b \<Longrightarrow> well_typed (a ++ b)"
  by (simp add: well_typed_def get_add_if)

lemma well_typed_upd [wt_intros]:
  "well_typed ob \<Longrightarrow> has_type v (key_type k) \<Longrightarrow> well_typed (ob(k \<mapsto> v))"
  by (simp add: well_typed_def)

lemma has_type_js_of_opt [simp]: "has_type (js_of_opt s) TStr"
  by (cases s) simp_all

end
