(* ===== verification/Runtime.thy ===== *)
theory Runtime
  imports Types
begin

text \<open>
  The collaborators the resolver reads and writes through \<open>@actions/core\<close> and
  \<open>@actions/github\<close>: the action's inputs, the process environment, the event
  context and payload, and the log of \<open>core.setFailed\<close> and \<open>core.warning\<close>.
  \<open>core.setFailed\<close> does not throw: it records the failure (and sets the process's
  exit code) and the code goes on, so a failure is an entry of the log, not an
  early exit of the model. \<open>core.info\<close> output is not modelled.
\<close>

datatype message = Failed string | Warning string

type_synonym core_log = "message list"

definition setFailed :: "string \<Rightarrow> core_log \<Rightarrow> core_log" where
  "setFailed m l = l @ [Failed m]"

definition warning :: "string \<Rightarrow> core_log \<Rightarrow> core_log" where
  "warning m l = l @ [Warning m]"

fun is_failure :: "message \<Rightarrow> bool" where
  "is_failure (Failed _) = True"
| "is_failure (Warning _) = False"

definition has_failed :: "core_log \<Rightarrow> bool" where
  "has_failed l \<longleftrightarrow> list_ex is_failure l"

text \<open>The inputs, as \<open>core.getInput\<close> and \<open>core.getBooleanInput\<close> return them
  (an input that is not given reads as the empty string).\<close>

record Inputs =
  bitrise_workflow :: string
  bitrise_pipeline :: string
  listen :: bool
  branch_override :: string
  commit_override :: string
  skip_git_status_report :: bool
  env_vars_for_bitrise :: string

text \<open>\<open>Object.entries(process.env)\<close>: the entries in their order; a value may be
  \<open>undefined\<close>.\<close>

type_synonym process_env = "(string \<times> string option) list"

subsection \<open>The event payload\<close>

text \<open>The fields of the webhook payload the resolver reads. A commit carries its
  added, removed and modified paths, so it extends \<open>CommitPathsFilter\<close>.\<close>

record Commit = CommitPathsFilter +
  message :: string

record Repository =
  repo_private :: bool
  ssh_url :: "string option"
  clone_url :: "string option"
  owner_login :: "string option"

record PrBranch =
  pr_ref :: "string option"
  pr_sha :: "string option"
  pr_repo :: "Repository option"

record PullRequest =
  number :: nat
  title :: string
  body :: "string option"
  mergeable :: "bool option"
  draft :: bool
  action :: "string option"
  head :: "PrBranch option"
  base :: "PrBranch option"
  user_login :: "string option"
  diff_url :: "string option"

record Payload =
  deleted :: bool
  commits :: "Commit list option"
  head_commit :: "Commit option"
  repository :: "Repository option"
  pull_request :: "PullRequest option"
  sender_login :: "string option"
  pusher_name :: "string option"

record Context =
  eventName :: string
  ref :: string
  sha :: string
  actor :: string
  payload :: "Payload option"

lemma has_failed_simps [simp]:
  "has_failed [] = False"
  "has_failed (setFailed m l)"
  "has_failed (warning m l) = has_failed l"
  "has_failed (l @ l') = (has_failed l \<or> has_failed l')"
  by (simp_all add: has_failed_def setFailed_def warning_def)

end
