(* ===== verification/RepoUrl.thy ===== *)
theory RepoUrl
  imports Runtime
begin

text \<open>
  Repository URLs. \<open>getRepositoryURL\<close> (\<open>options.ts\<close>) picks the SSH clone URL of a
  private repository and the HTTPS clone URL otherwise. \<open>urlsReferTheSameGitHubRepo\<close>
  lives in \<open>src/utils\<close>, which is not part of the sources; it is modelled from
  spec \<section>4.2: two URLs refer to the same repository when their owner/name path
  components agree, ignoring scheme, host, letter case and a trailing \<open>.git\<close>.
  Anything that is not a string (\<open>undefined\<close> in particular) refers to no repository.
\<close>

definition getRepositoryURL :: "Repository option \<Rightarrow> string option" where
  "getRepositoryURL repoInfoModel =
     (case repoInfoModel of
        None \<Rightarrow> None
      | Some r \<Rightarrow> (if repo_private r then ssh_url r else clone_url r))"

subsection \<open>Repository identity (spec-modelled)\<close>

definition lower_char :: "char \<Rightarrow> char" where
  "lower_char c = (if (65::nat) \<le> of_char c \<and> of_char c \<le> (90::nat) then char_of (of_char c + (32::nat)) else c)"

definition strip_git_suffix :: "string \<Rightarrow> string" where
  "strip_git_suffix s =
     (if drop (length s - 4) s = ''.git'' then take (length s - 4) s else s)"

text \<open>The path components of a URL: the pieces between \<open>/\<close> and \<open>:\<close> separators
  (so that \<open>git@host:owner/name\<close> and \<open>https://host/owner/name\<close> split alike),
  empty pieces dropped.\<close>

definition url_segments :: "string \<Rightarrow> string list" where
  "url_segments u =
     filter (\<lambda>w. w \<noteq> []) (split_on CHR ''/'' (map (\<lambda>c. if c = CHR '':'' then CHR ''/'' else c) u))"

definition repo_identity :: "string \<Rightarrow> (string \<times> string) option" where
  "repo_identity u =
     (let segs = url_segments (strip_git_suffix (map lower_char u))
      in if length segs < 3 then None
         else Some (segs ! (length segs - 2), segs ! (length segs - 1)))"

definition urlsReferTheSameGitHubRepo :: "jsval \<Rightarrow> jsval \<Rightarrow> bool" where
  "urlsReferTheSameGitHubRepo a b =
     (case (a, b) of
        (JStr x, JStr y) \<Rightarrow>
          (case (repo_identity x, repo_identity y) of
             (Some p, Some q) \<Rightarrow> p = q
           | _ \<Rightarrow> False)
      | _ \<Rightarrow> False)"

lemma getRepositoryURL_None [simp]: "getRepositoryURL None = None"
  by (simp add: getRepositoryURL_def)

lemma urls_Undef [simp]:
  "\<not> urlsReferTheSameGitHubRepo Undef b"
  "\<not> urlsReferTheSameGitHubRepo a Undef"
  by (simp_all add: urlsReferTheSameGitHubRepo_def split: jsval.splits)

lemma urls_JStr:
  "urlsReferTheSameGitHubRepo (JStr x) (JStr y) \<longleftrightarrow>
     repo_identity x \<noteq> None \<and> repo_identity x = repo_identity y"
  by (auto simp: urlsReferTheSameGitHubRepo_def split: option.splits)


subsection \<open>Properties\<close>

text \<open>Repository identity is symmetric and transitive, so it partitions the URLs
  that name a repository; an SSH and an HTTPS URL of one repository, differing in case
  and in the \<open>.git\<close> suffix, are identified.\<close>

theorem urls_same_repo_per:
  "(urlsReferTheSameGitHubRepo a b \<longrightarrow> urlsReferTheSameGitHubRepo b a) \<and>
   (urlsReferTheSameGitHubRepo a b \<and> urlsReferTheSameGitHubRepo b c \<longrightarrow> urlsReferTheSameGitHubRepo a c)"
  by (auto simp: urlsReferTheSameGitHubRepo_def split: jsval.splits option.splits)

theorem urls_same_repo_per_witness:
  "urlsReferTheSameGitHubRepo (JStr ''git@github.com:Octo/App.git'') (JStr ''https://github.com/octo/app'') \<and>
   urlsReferTheSameGitHubRepo (JStr ''https://github.com/octo/app'') (JStr ''ssh://git@GitHub.com/octo/app.git'') \<and>
   urlsReferTheSameGitHubRepo (JStr ''https://github.com/octo/app'') (JStr ''git@github.com:Octo/App.git'') \<and>
   urlsReferTheSameGitHubRepo (JStr ''git@github.com:Octo/App.git'') (JStr ''ssh://git@GitHub.com/octo/app.git'')"
proof -
  have h1: "urlsReferTheSameGitHubRepo (JStr ''git@github.com:Octo/App.git'') (JStr ''https://github.com/octo/app'')"
    by code_simp
  have h2: "urlsReferTheSameGitHubRepo (JStr ''https://github.com/octo/app'') (JStr ''ssh://git@GitHub.com/octo/app.git'')"
    by code_simp
  from urls_same_repo_per [of "JStr ''git@github.com:Octo/App.git''" "JStr ''https://github.com/octo/app''"
      "JStr ''ssh://git@GitHub.com/octo/app.git''"] h1 h2
  show ?thesis by blast
qed

end
