(* ===== verification/BasicEvent.thy ===== *)
theory BasicEvent
  imports RepoUrl
begin

text \<open>
  \<open>transformBasicEvent\<close> (\<open>options.ts\<close>): the options of a push or tag event.
  A deleted ref fails the run and yields the empty object. Otherwise the ref of
  the context decides: under \<open>refs/heads/\<close> the branch is set and every commit of
  the payload (or its head commit when the list is absent) contributes its message and
  its paths, in order; under \<open>refs/tags/\<close> the tag is set; any other ref sets
  neither. Commit hash, head-commit message, the two lists and the base repository
  URL are always written.
\<close>

text \<open>\<open>payload.commits ?? (payload.head_commit ? [payload.head_commit] : [])\<close>\<close>

definition event_commits :: "Payload \<Rightarrow> Commit list" where
  "event_commits p =
     (case commits p of
        Some cs \<Rightarrow> cs
      | None \<Rightarrow> (case head_commit p of Some c \<Rightarrow> [c] | None \<Rightarrow> []))"

text \<open>The \<open>for (const commit of commits)\<close> loop, pushing onto the two arrays.\<close>

fun collect_commits ::
  "Commit list \<Rightarrow> string list \<Rightarrow> CommitPathsFilter list \<Rightarrow> string list \<times> CommitPathsFilter list"
where
  "collect_commits [] commitMessages commitPaths = (commitMessages, commitPaths)"
| "collect_commits (commit # cs) commitMessages commitPaths =
     collect_commits cs (commitMessages @ [message commit])
       (commitPaths @ [\<lparr>added = added commit, removed = removed commit, modified = modified commit\<rparr>])"

definition transformBasicEvent :: "Context \<Rightarrow> Payload \<Rightarrow> core_log \<Rightarrow> obj \<times> core_log" where
  "transformBasicEvent ctx pl log =
     (if deleted pl
      then (Map.empty, setFailed ''this is a 'Deleted' event, no build can be started'' log)
      else
        (let commits = event_commits pl;
             r = ref ctx;
             (commitMessages, commitPaths, options) =
               (if startsWith r ''refs/heads/'' then
                  (let (ms, ps) = collect_commits commits [] []
                   in (ms, ps, [K_branch \<mapsto> JStr (slice r 11)]))
                else if startsWith r ''refs/tags/'' then
                  ([], [], [K_tag \<mapsto> JStr (slice r 10)])
                else ([], [], Map.empty))
         in (options ++
               [K_commit_hash \<mapsto> JStr (sha ctx),
                K_commit_message \<mapsto> js_of_opt (map_option message (head_commit pl)),
                K_commit_messages \<mapsto> JStrs commitMessages,
                K_commit_paths \<mapsto> JPaths commitPaths,
                K_base_repository_url \<mapsto> js_of_opt (getRepositoryURL (repository pl))],
             log)))"

text \<open>The keys \<open>transformBasicEvent\<close> writes.\<close>

definition event_keys :: "okey set" where
  "event_keys = {K_branch, K_tag, K_commit_hash, K_commit_message, K_commit_messages, K_commit_paths,
                 K_base_repository_url}"

subsection \<open>The commit loop\<close>

text \<open>The paths of one commit, as the loop builds them.\<close>

definition commit_paths_of :: "Commit \<Rightarrow> CommitPathsFilter" where
  "commit_paths_of c = \<lparr>added = added c, removed = removed c, modified = modified c\<rparr>"

lemma collect_commits_eq:
  "collect_commits cs ms ps = (ms @ map message cs, ps @ map commit_paths_of cs)"
  by (induction cs arbitrary: ms ps) (simp_all add: commit_paths_of_def)

lemma collect_commits_Nil: "collect_commits cs [] [] = (map message cs, map commit_paths_of cs)"
  by (simp add: collect_commits_eq)

subsection \<open>Refs\<close>

lemma heads_not_tags: "startsWith r ''refs/heads/'' \<Longrightarrow> \<not> startsWith r ''refs/tags/''"
  using startsWith_both [of r "''refs/heads/''" "''refs/tags/''"] by (auto simp: startsWith_def)

lemma startsWith_heads [simp]: "startsWith (''refs/heads/'' @ b) ''refs/heads/''"
  and startsWith_tags [simp]: "startsWith (''refs/tags/'' @ t) ''refs/tags/''"
  and tags_not_heads [simp]: "\<not> startsWith (''refs/tags/'' @ t) ''refs/heads/''"
  by (simp_all add: startsWith_def)

lemma slice_heads [simp]: "slice (''refs/heads/'' @ b) 11 = b"
  and slice_tags [simp]: "slice (''refs/tags/'' @ t) 10 = t"
  by (simp_all add: slice_def)

text \<open>The result of a non-deleted event, one equation per kind of ref.\<close>

lemma transformBasicEvent_deleted:
  "deleted p \<Longrightarrow> transformBasicEvent ctx p log =
     (Map.empty, setFailed ''this is a 'Deleted' event, no build can be started'' log)"
  by (simp add: transformBasicEvent_def)

lemma transformBasicEvent_log:
  "snd (transformBasicEvent ctx p log) =
     (if deleted p then setFailed ''this is a 'Deleted' event, no build can be started'' log else log)"
  by (simp add: transformBasicEvent_def Let_def split: prod.splits)

lemma transformBasicEvent_get:
  assumes "\<not> deleted p"
  shows "get (fst (transformBasicEvent ctx p log)) k =
    (if k = K_branch then
       (if startsWith (ref ctx) ''refs/heads/'' then JStr (slice (ref ctx) 11) else Undef)
     else if k = K_tag then
       (if \<not> startsWith (ref ctx) ''refs/heads/'' \<and> startsWith (ref ctx) ''refs/tags/''
        then JStr (slice (ref ctx) 10) else Undef)
     else if k = K_commit_hash then JStr (sha ctx)
     else if k = K_commit_message then js_of_opt (map_option message (head_commit p))
     else if k = K_commit_messages then
       JStrs (if startsWith (ref ctx) ''refs/heads/'' then map message (event_commits p) else [])
     else if k = K_commit_paths then
       JPaths (if startsWith (ref ctx) ''refs/heads/'' then map commit_paths_of (event_commits p) else [])
     else if k = K_base_repository_url then js_of_opt (getRepositoryURL (repository p))
     else Undef)"
  using assms
  by (cases k) (simp_all add: transformBasicEvent_def Let_def collect_commits_Nil get_add)

lemma transformBasicEvent_exclusive: "branch_tag_exclusive (fst (transformBasicEvent ctx p log))"
proof (cases "deleted p")
  case True
  then show ?thesis by (simp add: transformBasicEvent_deleted branch_tag_exclusive_def is_set_def)
next
  case False
  then show ?thesis
    by (simp add: branch_tag_exclusive_def is_set_def transformBasicEvent_get)
qed


lemma transformBasicEvent_keys:
  "{k. is_set (fst (transformBasicEvent ctx p log)) k} \<subseteq> event_keys"
proof (cases "deleted p")
  case True
  then show ?thesis by (simp add: transformBasicEvent_deleted is_set_def)
next
  case False
  then show ?thesis
    by (auto simp: is_set_def transformBasicEvent_get event_keys_def split: if_splits)
qed

lemma transformBasicEvent_dom:
  assumes "\<not> deleted p"
  shows "K_base_repository_url \<in> dom (fst (transformBasicEvent ctx p log))"
    and "K_commit_hash \<in> dom (fst (transformBasicEvent ctx p log))"
    and "startsWith (ref ctx) ''refs/heads/'' \<Longrightarrow> K_branch \<in> dom (fst (transformBasicEvent ctx p log))"
  using assms by (auto simp: transformBasicEvent_def Let_def split: prod.splits)

subsection \<open>The commit loop against its specification\<close>

text \<open>C6: The commit loop of \<open>transformBasicEvent\<close> is equivalent to its specification
  (spec \<section>4.1): one message and one path entry per commit, in push order, the two
  lists order-aligned.\<close>

theorem collect_commits_aligned:
  "length (fst (collect_commits cs [] [])) = length cs \<and>
   length (snd (collect_commits cs [] [])) = length cs \<and>
   (\<forall>i < length cs.
      fst (collect_commits cs [] []) ! i = message (cs ! i) \<and>
      snd (collect_commits cs [] []) ! i =
        \<lparr>added = added (cs ! i), removed = removed (cs ! i), modified = modified (cs ! i)\<rparr>)"
  by (simp add: collect_commits_Nil commit_paths_of_def)

theorem collect_commits_aligned_witness:
  "snd (collect_commits
          [\<lparr>added = [''a''], removed = [], modified = [], message = ''first''\<rparr>,
           \<lparr>added = [], removed = [''b''], modified = [''c''], message = ''second''\<rparr>] [] []) ! 1 =
     \<lparr>added = [], removed = [''b''], modified = [''c'']\<rparr> \<and>
   fst (collect_commits
          [\<lparr>added = [''a''], removed = [], modified = [], message = ''first''\<rparr>,
           \<lparr>added = [], removed = [''b''], modified = [''c''], message = ''second''\<rparr>] [] []) ! 1 =
     ''second''"
  using collect_commits_aligned
    [of "[\<lparr>added = [''a''], removed = [], modified = [], message = ''first''\<rparr>,
          \<lparr>added = [], removed = [''b''], modified = [''c''], message = ''second''\<rparr>]"]
  by simp

end
