(* ===== verification/Overrides.thy ===== *)
theory Overrides
  imports BasicEvent
begin

text \<open>
  \<open>processOverrides\<close> (\<open>options.ts\<close>): the options when a branch or commit
  override is given. It starts from the app's repository URL (when the app details
  are known), parses the branch override, falls back to the event's own options when
  the override names the event's branch or tag in the same repository
  (collapse-to-default), and narrows the result to branch, tag, commit hash and base
  repository URL when the commit override differs from the event's commit.
  The three steps are separate definitions, composed as the code sequences them.
\<close>

text \<open>Step 1 and 2: seed with the app's repository URL, then parse the override.\<close>

definition override_branch_options :: "BitriseAppDetails option \<Rightarrow> string \<Rightarrow> obj" where
  "override_branch_options appDetails branchOverride =
     (let appUrl = js_of_opt (Option.bind appDetails repo_url);
          branchOptions = (if truthy appUrl then [K_base_repository_url \<mapsto> appUrl] else Map.empty)
      in if startsWith branchOverride ''refs/heads/'' then
           branchOptions ++ [K_branch \<mapsto> JStr (slice branchOverride 11)]
         else if startsWith branchOverride ''refs/tags/'' then
           branchOptions ++ [K_tag \<mapsto> JStr (slice branchOverride 10)]
         else if branchOverride \<noteq> [] then
           branchOptions ++ [K_branch \<mapsto> JStr branchOverride]
         else branchOptions)"

text \<open>Step 3: collapse to the event's options.\<close>

definition collapse_to_default ::
  "BitriseAppDetails option \<Rightarrow> obj option \<Rightarrow> string \<Rightarrow> obj \<Rightarrow> obj" where
  "collapse_to_default appDetails defaultBranchOptions branchOverride branchOptions =
     (if branchOverride \<noteq> [] \<and>
         ((truthy (get branchOptions K_branch) \<and>
           get branchOptions K_branch = oget defaultBranchOptions K_branch) \<or>
          (truthy (get branchOptions K_tag) \<and>
           get branchOptions K_tag = oget defaultBranchOptions K_tag))
      then
        (let appUrl = js_of_opt (Option.bind appDetails repo_url)
         in if truthy appUrl \<and>
               urlsReferTheSameGitHubRepo appUrl (oget defaultBranchOptions K_base_repository_url)
            then branchOptions ++ (case defaultBranchOptions of None \<Rightarrow> Map.empty | Some d \<Rightarrow> d)
            else branchOptions)
      else branchOptions)"

text \<open>Step 4: narrow to a specific commit.\<close>

definition narrow_to_commit :: "obj option \<Rightarrow> string \<Rightarrow> obj \<Rightarrow> obj" where
  "narrow_to_commit defaultBranchOptions commitOverride branchOptions =
     (if commitOverride \<noteq> [] \<and> JStr commitOverride \<noteq> oget defaultBranchOptions K_commit_hash
      then [K_branch \<mapsto> get branchOptions K_branch,
            K_tag \<mapsto> get branchOptions K_tag,
            K_commit_hash \<mapsto> JStr commitOverride,
            K_base_repository_url \<mapsto> get branchOptions K_base_repository_url]
      else branchOptions)"

definition processOverrides ::
  "BitriseAppDetails option \<Rightarrow> obj option \<Rightarrow> string \<Rightarrow> string \<Rightarrow> core_log \<Rightarrow> obj \<times> core_log"
where
  "processOverrides appDetails defaultBranchOptions branchOverride commitOverride log =
     (let log' = (if appDetails = None
                  then warning (''It is recommended to use '' @ [CHR 0x22] @ ''bitrise-token'' @ [CHR 0x22] @
                                '' with overrides options.'') log
                  else log);
          branchOptions = override_branch_options appDetails branchOverride;
          branchOptions = collapse_to_default appDetails defaultBranchOptions branchOverride branchOptions;
          branchOptions = narrow_to_commit defaultBranchOptions commitOverride branchOptions
      in (branchOptions, log'))"

subsection \<open>Lemmas\<close>

lemma processOverrides_fst:
  "fst (processOverrides app d b c log) =
     narrow_to_commit d c (collapse_to_default app d b (override_branch_options app b))"
  by (simp add: processOverrides_def Let_def)

lemma processOverrides_no_failure:
  "has_failed (snd (processOverrides app d b c log)) = has_failed log"
  by (simp add: processOverrides_def Let_def)

text \<open>At most one of branch and tag is set by the parsed override.\<close>

lemma override_branch_options_exclusive: "branch_tag_exclusive (override_branch_options app b)"
  by (simp add: override_branch_options_def Let_def branch_tag_exclusive_def is_set_def get_add)

lemma collapse_to_default_exclusive:
  assumes bo: "branch_tag_exclusive bo"
    and d: "\<And>d'. d = Some d' \<Longrightarrow> branch_tag_exclusive d'"
  shows "branch_tag_exclusive (collapse_to_default app d b bo)"
proof (cases "collapse_to_default app d b bo = bo")
  case True
  with bo show ?thesis by simp
next
  case False
  then obtain d' where dd: "d = Some d'" and res: "collapse_to_default app d b bo = bo ++ d'"
    and cond: "(truthy (get bo K_branch) \<and> get bo K_branch = get d' K_branch) \<or>
               (truthy (get bo K_tag) \<and> get bo K_tag = get d' K_tag)"
    by (cases d) (auto simp: collapse_to_default_def Let_def split: if_splits)
  from d dd have ex: "branch_tag_exclusive d'" by blast
  have "\<not> (is_set (bo ++ d') K_branch \<and> is_set (bo ++ d') K_tag)"
    using cond bo ex
    by (auto simp: branch_tag_exclusive_def is_set_def get_add_if dest: truthy_is_defined)
  with res show ?thesis by (simp add: branch_tag_exclusive_def)
qed

lemma narrow_to_commit_exclusive:
  "branch_tag_exclusive bo \<Longrightarrow> branch_tag_exclusive (narrow_to_commit d c bo)"
  by (simp add: narrow_to_commit_def branch_tag_exclusive_def is_set_def)

lemma processOverrides_exclusive:
  "(\<And>d'. d = Some d' \<Longrightarrow> branch_tag_exclusive d') \<Longrightarrow>
     branch_tag_exclusive (fst (processOverrides app d b c log))"
  by (simp add: processOverrides_fst narrow_to_commit_exclusive collapse_to_default_exclusive
      override_branch_options_exclusive)

text \<open>Without a known app repository URL, the collapse never happens.\<close>

lemma collapse_no_app_url:
  "\<not> truthy (js_of_opt (Option.bind app repo_url)) \<Longrightarrow> collapse_to_default app d b bo = bo"
  by (auto simp: collapse_to_default_def Let_def)

lemma narrow_same_commit:
  "JStr c = oget d K_commit_hash \<Longrightarrow> narrow_to_commit d c bo = bo"
  by (simp add: narrow_to_commit_def)


lemma override_branch_options_keys:
  "{k. is_set (override_branch_options app b) k} \<subseteq> {K_base_repository_url, K_branch, K_tag}"
  by (auto simp: override_branch_options_def Let_def is_set_def get_add_if split: if_splits)

lemma collapse_to_default_keys:
  assumes "{k. is_set bo k} \<subseteq> K" and "\<And>d'. d = Some d' \<Longrightarrow> {k. is_set d' k} \<subseteq> K"
  shows "{k. is_set (collapse_to_default app d b bo) k} \<subseteq> K"
  using assms
  by (cases d) (auto simp: collapse_to_default_def Let_def dest!: is_set_add)

lemma narrow_to_commit_keys:
  "{k. is_set (narrow_to_commit d c bo) k} \<subseteq> {k. is_set bo k} \<union> {K_commit_hash}"
  by (auto simp: narrow_to_commit_def is_set_def split: if_splits)

lemma processOverrides_keys:
  assumes "\<And>d'. d = Some d' \<Longrightarrow> {k. is_set d' k} \<subseteq> event_keys"
  shows "{k. is_set (fst (processOverrides app d b c log)) k} \<subseteq> event_keys"
proof -
  have "{k. is_set (override_branch_options app b) k} \<subseteq> event_keys"
    using override_branch_options_keys by (fastforce simp: event_keys_def)
  then have "{k. is_set (collapse_to_default app d b (override_branch_options app b)) k} \<subseteq> event_keys"
    using assms by (rule collapse_to_default_keys)
  then show ?thesis
    using narrow_to_commit_keys by (fastforce simp: processOverrides_fst event_keys_def)
qed

text \<open>A branch override naming branch \<open>b\<close>, as a ref or as a plain name.\<close>

lemma override_branch_options_branch:
  assumes "b' = ''refs/heads/'' @ b \<or> (b' = b \<and> \<not> startsWith b ''refs/heads/'' \<and> \<not> startsWith b ''refs/tags/'' \<and> b \<noteq> [])"
  shows "override_branch_options app b' =
    (if truthy (js_of_opt (Option.bind app repo_url))
     then [K_base_repository_url \<mapsto> js_of_opt (Option.bind app repo_url)] else Map.empty) ++ [K_branch \<mapsto> JStr b]"
  using assms
  by (auto simp: override_branch_options_def Let_def startsWith_def slice_def simp del: truthy_js_of_opt)


subsection \<open>Properties\<close>

text \<open>C11: A commit override that differs from the event's commit narrows the result
  to four properties: the branch, the tag and the base repository URL of the options
  built so far (the parsed override, or the collapsed event options), and the
  override as commit hash; every other property is undefined.\<close>

theorem processOverrides_narrow:
  assumes "c \<noteq> []" and "JStr c \<noteq> oget d K_commit_hash"
  shows "get (fst (processOverrides app d b c log)) k =
    (if k = K_commit_hash then JStr c
     else if k = K_branch \<or> k = K_tag \<or> k = K_base_repository_url
     then get (collapse_to_default app d b (override_branch_options app b)) k
     else Undef)"
  using assms by (auto simp: processOverrides_fst narrow_to_commit_def)

theorem processOverrides_narrow_witness:
  "''0123abc'' \<noteq> [] \<and> JStr ''0123abc'' \<noteq> oget None K_commit_hash \<and>
   get (fst (processOverrides (Some \<lparr>repo_url = Some ''https://github.com/octo/app''\<rparr>) None
          ''refs/heads/dev'' ''0123abc'' [])) K_base_repository_url = JStr ''https://github.com/octo/app'' \<and>
   get (fst (processOverrides (Some \<lparr>repo_url = Some ''https://github.com/octo/app''\<rparr>) None
          ''refs/heads/dev'' ''0123abc'' [])) K_branch = JStr ''dev'' \<and>
   get (fst (processOverrides (Some \<lparr>repo_url = Some ''https://github.com/octo/app''\<rparr>) None
          ''refs/heads/dev'' ''0123abc'' [])) K_commit_messages = Undef"
proof -
  have h: "''0123abc'' \<noteq> []" "JStr ''0123abc'' \<noteq> oget None K_commit_hash" by simp_all
  have bo: "get (collapse_to_default (Some \<lparr>repo_url = Some ''https://github.com/octo/app''\<rparr>) None ''refs/heads/dev''
      (override_branch_options (Some \<lparr>repo_url = Some ''https://github.com/octo/app''\<rparr>) ''refs/heads/dev''))
      K_base_repository_url = JStr ''https://github.com/octo/app''"
    "get (collapse_to_default (Some \<lparr>repo_url = Some ''https://github.com/octo/app''\<rparr>) None ''refs/heads/dev''
      (override_branch_options (Some \<lparr>repo_url = Some ''https://github.com/octo/app''\<rparr>) ''refs/heads/dev''))
      K_branch = JStr ''dev''"
    by code_simp+
  show ?thesis
    using processOverrides_narrow [OF h, of "Some \<lparr>repo_url = Some ''https://github.com/octo/app''\<rparr>"
        "''refs/heads/dev''" "[]"] h bo
    by simp
qed

text \<open>C24: Without app details the run is warned, the override is never collapsed
  to the event's options, and no base repository URL is set.\<close>

theorem processOverrides_without_app:
  "fst (processOverrides None d b c log) = narrow_to_commit d c (override_branch_options None b) \<and>
   \<not> is_set (fst (processOverrides None d b c log)) K_base_repository_url \<and>
   snd (processOverrides None d b c log) =
     log @ [Warning (''It is recommended to use '' @ [CHR 0x22] @ ''bitrise-token'' @ [CHR 0x22] @
                     '' with overrides options.'')]"
  by (simp add: processOverrides_def collapse_no_app_url narrow_to_commit_def override_branch_options_def
      Let_def warning_def is_set_def get_add_if)

subsection \<open>The base repository URL of the overrides\<close>

lemma processOverrides_log:
  "snd (processOverrides app d b c l) =
     (if app = None
      then warning (''It is recommended to use '' @ [CHR 0x22] @ ''bitrise-token'' @ [CHR 0x22] @
                    '' with overrides options.'') l
      else l)"
  by (simp add: processOverrides_def Let_def)

lemma narrow_to_commit_base: "get (narrow_to_commit d c bo) K_base_repository_url = get bo K_base_repository_url"
  by (simp add: narrow_to_commit_def)

lemma repo_identity_Nil: "repo_identity [] = None"
  by (simp add: repo_identity_def url_segments_def strip_git_suffix_def)

text \<open>When the app's repository URL names a repository, the overrides' result keeps
  a base repository URL of that same repository: the app's own URL, or the event's
  when the overrides collapse to it, which the collapse has checked.\<close>

lemma processOverrides_base_same_repo:
  assumes u: "Option.bind app repo_url = Some u" and id: "repo_identity u \<noteq> None"
  shows "urlsReferTheSameGitHubRepo (JStr u) (get (fst (processOverrides app d b c l)) K_base_repository_url)"
proof -
  let ?bo = "override_branch_options app b"
  have ne: "u \<noteq> []" using id repo_identity_Nil by auto
  have refl: "urlsReferTheSameGitHubRepo (JStr u) (JStr u)" using id by (simp add: urls_JStr)
  have bo: "get ?bo K_base_repository_url = JStr u"
    using u ne by (simp add: override_branch_options_def Let_def get_add_if)
  have "urlsReferTheSameGitHubRepo (JStr u) (get (collapse_to_default app d b ?bo) K_base_repository_url)"
  proof (cases "collapse_to_default app d b ?bo = ?bo")
    case True
    then show ?thesis using bo refl by simp
  next
    case False
    then obtain d' where d: "d = Some d'"
      and same: "urlsReferTheSameGitHubRepo (JStr u) (get d' K_base_repository_url)"
      and eq: "collapse_to_default app d b ?bo = ?bo ++ d'"
      using u by (cases d) (auto simp: collapse_to_default_def Let_def split: if_splits)
    show ?thesis
      unfolding eq using same bo refl by (simp add: get_add_if)
  qed
  then show ?thesis by (simp add: processOverrides_fst narrow_to_commit_base)
qed

end
