(* ===== verification/PullRequest.thy ===== *)
theory PullRequest
  imports RepoUrl
begin

text \<open>
  \<open>transformPullRequestEvent\<close> and \<open>getPrReadyState\<close> (\<open>options.ts\<close>): the options
  of a pull-request event. The merge ref \<open>pull/<n>/merge\<close> is always offered as
  unverified; it is offered as the merge branch only when GitHub has computed
  mergeability (\<open>mergeable\<close> is not \<open>null\<close>), and a pull request known not to be
  mergeable fails the run with the empty object.
\<close>

definition getPrReadyState :: "PullRequest \<Rightarrow> string" where
  "getPrReadyState pr =
     (if action pr = Some ''ready_for_review'' then ''converted_to_ready_for_review''
      else if draft pr then ''draft''
      else ''ready_for_review'')"

text \<open>\<open>pr.title\<close>, followed by a blank line and \<open>pr.body\<close> when the body is truthy.\<close>

definition pr_commit_message :: "PullRequest \<Rightarrow> string" where
  "pr_commit_message pr =
     (case body pr of
        Some b \<Rightarrow> (if b \<noteq> [] then title pr @ [CHR 0x0A, CHR 0x0A] @ b else title pr)
      | None \<Rightarrow> title pr)"

definition transformPullRequestEvent :: "PullRequest \<Rightarrow> core_log \<Rightarrow> obj \<times> core_log" where
  "transformPullRequestEvent pr log =
     (let prNumber = number pr;
          options0 = [K_pull_request_unverified_merge_branch \<mapsto> JStr (''pull/'' @ show_nat prNumber @ ''/merge'')];
          mergeRefUpToDate = (mergeable pr \<noteq> None);
          options = (if mergeRefUpToDate
                     then options0(K_pull_request_merge_branch \<mapsto>
                            get options0 K_pull_request_unverified_merge_branch)
                     else options0)
      in if mergeRefUpToDate \<and> mergeable pr = Some False
         then (Map.empty, setFailed ''Pull Request is not mergeable'' log)
         else
           (options ++
              [K_commit_hash \<mapsto> js_of_opt (Option.bind (head pr) pr_sha),
               K_commit_message \<mapsto> JStr (pr_commit_message pr),
               K_branch \<mapsto> js_of_opt (Option.bind (head pr) pr_ref),
               K_branch_repo_owner \<mapsto> js_of_opt (Option.bind (Option.bind (head pr) pr_repo) owner_login),
               K_branch_dest \<mapsto> js_of_opt (Option.bind (base pr) pr_ref),
               K_branch_dest_repo_owner \<mapsto> js_of_opt (Option.bind (Option.bind (base pr) pr_repo) owner_login),
               K_pull_request_id \<mapsto> JNum prNumber,
               K_head_repository_url \<mapsto> js_of_opt (getRepositoryURL (Option.bind (head pr) pr_repo)),
               K_pull_request_repository_url \<mapsto> js_of_opt (getRepositoryURL (Option.bind (head pr) pr_repo)),
               K_base_repository_url \<mapsto> js_of_opt (getRepositoryURL (Option.bind (base pr) pr_repo)),
               K_pull_request_head_branch \<mapsto> JStr (''pull/'' @ show_nat prNumber @ ''/head''),
               K_pull_request_author \<mapsto> js_of_opt (user_login pr),
               K_diff_url \<mapsto> js_of_opt (diff_url pr),
               K_pull_request_ready_state \<mapsto> JStr (getPrReadyState pr)],
            log))"

text \<open>The merge ref of pull request \<open>n\<close>.\<close>

abbreviation merge_ref :: "nat \<Rightarrow> string" where
  "merge_ref n \<equiv> ''pull/'' @ show_nat n @ ''/merge''"

lemma transformPullRequestEvent_unmergeable:
  "mergeable pr = Some False \<Longrightarrow>
     transformPullRequestEvent pr log = (Map.empty, setFailed ''Pull Request is not mergeable'' log)"
  by (simp add: transformPullRequestEvent_def Let_def)

lemma transformPullRequestEvent_log:
  "snd (transformPullRequestEvent pr log) =
     (if mergeable pr = Some False then setFailed ''Pull Request is not mergeable'' log else log)"
  by (cases "mergeable pr") (simp_all add: transformPullRequestEvent_def Let_def)

lemma transformPullRequestEvent_get:
  assumes "mergeable pr \<noteq> Some False"
  shows "get (fst (transformPullRequestEvent pr log)) k =
    (if k = K_pull_request_unverified_merge_branch then JStr (merge_ref (number pr))
     else if k = K_pull_request_merge_branch then
       (if mergeable pr \<noteq> None then JStr (merge_ref (number pr)) else Undef)
     else if k = K_commit_hash then js_of_opt (Option.bind (head pr) pr_sha)
     else if k = K_commit_message then JStr (pr_commit_message pr)
     else if k = K_branch then js_of_opt (Option.bind (head pr) pr_ref)
     else if k = K_tag then Undef
     else if k = K_branch_repo_owner then js_of_opt (Option.bind (Option.bind (head pr) pr_repo) owner_login)
     else if k = K_branch_dest then js_of_opt (Option.bind (base pr) pr_ref)
     else if k = K_branch_dest_repo_owner then js_of_opt (Option.bind (Option.bind (base pr) pr_repo) owner_login)
     else if k = K_pull_request_id then JNum (number pr)
     else if k = K_head_repository_url then js_of_opt (getRepositoryURL (Option.bind (head pr) pr_repo))
     else if k = K_pull_request_repository_url then js_of_opt (getRepositoryURL (Option.bind (head pr) pr_repo))
     else if k = K_base_repository_url then js_of_opt (getRepositoryURL (Option.bind (base pr) pr_repo))
     else if k = K_pull_request_head_branch then JStr (''pull/'' @ show_nat (number pr) @ ''/head'')
     else if k = K_pull_request_author then js_of_opt (user_login pr)
     else if k = K_diff_url then js_of_opt (diff_url pr)
     else if k = K_pull_request_ready_state then JStr (getPrReadyState pr)
     else Undef)"
  using assms
  by (cases k) (simp_all add: transformPullRequestEvent_def Let_def get_add)

lemma transformPullRequestEvent_exclusive: "branch_tag_exclusive (fst (transformPullRequestEvent pr log))"
proof (cases "mergeable pr = Some False")
  case True
  then show ?thesis
    by (simp add: transformPullRequestEvent_unmergeable branch_tag_exclusive_def is_set_def)
next
  case False
  then show ?thesis
    by (simp add: branch_tag_exclusive_def is_set_def transformPullRequestEvent_get)
qed


end
