(* ===== verification/EnvVars.thy ===== *)
theory EnvVars
  imports Runtime
begin

text \<open>
  \<open>prepareEnvironmentVariables\<close> (\<open>options.ts\<close>): the input
  \<open>env-vars-for-bitrise\<close> is a comma-separated allow-list (pieces trimmed, empty
  pieces dropped); every entry of \<open>process.env\<close> whose name is on the list is passed
  through, in the order of \<open>process.env\<close>, with its value (\<open>''''\<close> when
  \<open>undefined\<close>) and \<open>is_expand = false\<close>.
\<close>

definition envPassThrough :: "string \<Rightarrow> string list" where
  "envPassThrough input = filter (\<lambda>i. i \<noteq> []) (map trim (split_on CHR '','' input))"

definition env_entry :: "string \<times> string option \<Rightarrow> BitriseEnvironment" where
  "env_entry e = (case e of (k, v) \<Rightarrow>
     \<lparr>mapped_to = k, env_value = (case v of None \<Rightarrow> [] | Some x \<Rightarrow> x), is_expand = False\<rparr>)"

definition prepareEnvironmentVariables :: "string \<Rightarrow> process_env \<Rightarrow> BitriseEnvironment list" where
  "prepareEnvironmentVariables input env =
     (let allow = envPassThrough input
      in map env_entry (filter (\<lambda>(key, _). key \<in> set allow) env))"

lemma env_entry_simps [simp]:
  "mapped_to (env_entry (k, v)) = k"
  "env_value (env_entry (k, v)) = (case v of None \<Rightarrow> [] | Some x \<Rightarrow> x)"
  "is_expand (env_entry (k, v)) = False"
  by (simp_all add: env_entry_def)

lemma map_mapped_to_env_entry: "map (\<lambda>x. mapped_to (env_entry x)) xs = map fst xs"
  by (simp add: env_entry_def split_def)

lemma envPassThrough_nonempty: "i \<in> set (envPassThrough input) \<Longrightarrow> i \<noteq> []"
  by (simp add: envPassThrough_def)


subsection \<open>Properties\<close>

text \<open>C26: The passed-through entries follow the order of \<open>process.env\<close>; the
  allow-list matters only as a set of names.\<close>

theorem prepareEnvironmentVariables_allow_list_order:
  assumes "set (envPassThrough s) = set (envPassThrough s')"
  shows "prepareEnvironmentVariables s env = prepareEnvironmentVariables s' env \<and>
         map mapped_to (prepareEnvironmentVariables s env) =
           filter (\<lambda>k. k \<in> set (envPassThrough s)) (map fst env)"
  using assms by (simp add: prepareEnvironmentVariables_def map_mapped_to_env_entry filter_map comp_def split_def)

theorem prepareEnvironmentVariables_allow_list_order_witness:
  "set (envPassThrough ''A, C'') = set (envPassThrough ''C,A,'') \<and>
   prepareEnvironmentVariables ''A, C'' [(''C'', Some ''3''), (''A'', None)] =
     prepareEnvironmentVariables ''C,A,'' [(''C'', Some ''3''), (''A'', None)] \<and>
   map mapped_to (prepareEnvironmentVariables ''A, C'' [(''C'', Some ''3''), (''A'', None)]) =
     filter (\<lambda>k. k \<in> set (envPassThrough ''A, C'')) (map fst [(''C'', Some ''3''), (''A'', None)])"
proof -
  have h: "set (envPassThrough ''A, C'') = set (envPassThrough ''C,A,'')"
    by (simp add: envPassThrough_def trim_def is_js_space_def insert_commute)
  show ?thesis using prepareEnvironmentVariables_allow_list_order [OF h] h by blast
qed

text \<open>C27: Every allow-list entry is non-empty and carries no surrounding
  whitespace.\<close>

theorem envPassThrough_trimmed:
  assumes "i \<in> set (envPassThrough s)"
  shows "i \<noteq> [] \<and> trim i = i"
  using assms by (auto simp: envPassThrough_def)

theorem envPassThrough_trimmed_witness:
  "''A'' \<in> set (envPassThrough '' A ,, B'') \<and> ''A'' \<noteq> [] \<and> trim ''A'' = ''A''"
proof -
  have h: "''A'' \<in> set (envPassThrough '' A ,, B'')"
    by (simp add: envPassThrough_def trim_def is_js_space_def)
  show ?thesis using envPassThrough_trimmed [OF h] h by simp
qed

end
