(* ===== verification/BuildOptions.thy ===== *)
theory BuildOptions
  imports Overrides PullRequest EnvVars
begin

text \<open>
  \<open>createBuildOptions\<close> (\<open>options.ts\<close>), the entry point, and
  \<open>getActorUsername\<close>. The body is split where the code has its phases:
  \<open>validateInputs\<close> (the workflow/pipeline/listen checks and their early returns),
  \<open>selectOptions\<close> (the event transform, then overrides, pull request or plain
  event, in that precedence) and the final assembly with the repository cross-check
  warning. Every \<open>core.setFailed(...); return {}\<close> of the source is the empty object
  with a \<open>Failed\<close> entry appended to the log.
\<close>

definition validateInputs :: "Inputs \<Rightarrow> string option" where
  "validateInputs inp =
     (let workflow = bitrise_workflow inp; pipeline = bitrise_pipeline inp
      in if workflow = [] \<and> pipeline = [] then
           Some ''Either bitrise-workflow or bitrise-pipeline must be provided''
         else if workflow \<noteq> [] \<and> pipeline \<noteq> [] then
           Some ''Cannot specify both bitrise-workflow and bitrise-pipeline''
         else if pipeline \<noteq> [] \<and> listen inp then
           Some ''Listen option is not supported with bitrise-pipeline''
         else None)"

definition draftEnvironment :: BitriseEnvironment where
  "draftEnvironment = \<lparr>mapped_to = ''GITHUB_PR_IS_DRAFT'', env_value = ''true'', is_expand = False\<rparr>"

text \<open>Lines 40--46: the event's own options, when there is a payload.\<close>

definition eventDefaults :: "Context \<Rightarrow> core_log \<Rightarrow> obj option \<times> core_log" where
  "eventDefaults ctx log =
     (case payload ctx of
        None \<Rightarrow> (None, log)
      | Some pl \<Rightarrow> (case transformBasicEvent ctx pl log of (d, l) \<Rightarrow> (Some d, l)))"

text \<open>Lines 48--72: the options (\<open>None\<close> where the code fails with
  "No payload found"), the environments, and the log.\<close>

definition selectOptions ::
  "BitriseAppDetails option \<Rightarrow> Inputs \<Rightarrow> Context \<Rightarrow> BitriseEnvironment list \<Rightarrow> core_log \<Rightarrow>
     obj option \<times> BitriseEnvironment list \<times> core_log"
where
  "selectOptions appDetails inp ctx environments log =
     (let (defaultBranchOptions, log) = eventDefaults ctx log;
          branchOverride = branch_override inp;
          commitOverride = commit_override inp
      in if branchOverride \<noteq> [] \<or> commitOverride \<noteq> [] then
           (case processOverrides appDetails defaultBranchOptions branchOverride commitOverride log of
              (options, log) \<Rightarrow> (Some options, environments, log))
         else (case Option.bind (payload ctx) pull_request of
                 Some pr \<Rightarrow>
                   (case transformPullRequestEvent pr log of
                      (options, log) \<Rightarrow>
                        (Some options,
                         if draft pr then environments @ [draftEnvironment] else environments,
                         log))
               | None \<Rightarrow> (defaultBranchOptions, environments, log)))"

definition repoMismatchWarning :: "BitriseAppDetails option \<Rightarrow> obj \<Rightarrow> core_log \<Rightarrow> core_log" where
  "repoMismatchWarning appDetails options log =
     (let appUrl = js_of_opt (Option.bind appDetails repo_url)
      in if truthy appUrl \<and> \<not> urlsReferTheSameGitHubRepo appUrl (get options K_base_repository_url)
         then warning (''Bitrise App's repository url '' @ [CHR 0x22] @ js_str appUrl @ [CHR 0x22] @
                       '' doesn't match current repository url '' @ [CHR 0x22] @
                       js_str (get options K_base_repository_url) @ [CHR 0x22]) log
         else log)"

definition createBuildOptions ::
  "BitriseAppDetails option \<Rightarrow> Inputs \<Rightarrow> Context \<Rightarrow> process_env \<Rightarrow> obj \<times> core_log"
where
  "createBuildOptions appDetails inp ctx env =
     (case validateInputs inp of
        Some msg \<Rightarrow> (Map.empty, setFailed msg [])
      | None \<Rightarrow>
          (let environments = prepareEnvironmentVariables (env_vars_for_bitrise inp) env
           in case selectOptions appDetails inp ctx environments [] of
                (None, _, log) \<Rightarrow> (Map.empty, setFailed ''No payload found in the context.'' log)
              | (Some options, environments, log) \<Rightarrow>
                  (options ++
                     [K_workflow_id \<mapsto> (if bitrise_workflow inp \<noteq> [] then JStr (bitrise_workflow inp) else Undef),
                      K_pipeline_id \<mapsto> (if bitrise_pipeline inp \<noteq> [] then JStr (bitrise_pipeline inp) else Undef),
                      K_skip_git_status_report \<mapsto> JBool (skip_git_status_report inp),
                      K_environments \<mapsto> JEnvs environments],
                   repoMismatchWarning appDetails options log)))"

text \<open>\<open>getActorUsername\<close>: the sender of a pull request, the pusher of a push, the
  actor otherwise. \<open>payload.sender\<close> is read without optional chaining, so a
  missing payload throws a \<open>TypeError\<close> there: \<open>None\<close>.\<close>

definition getActorUsername :: "Context \<Rightarrow> string option" where
  "getActorUsername ctx =
     (if eventName ctx = ''pull_request'' then
        map_option (\<lambda>pl. case sender_login pl of Some l \<Rightarrow> l | None \<Rightarrow> actor ctx) (payload ctx)
      else if eventName ctx = ''push'' then
        map_option (\<lambda>pl. case pusher_name pl of Some n \<Rightarrow> n | None \<Rightarrow> actor ctx) (payload ctx)
      else Some (actor ctx))"

subsection \<open>The three paths\<close>

lemma eventDefaults_exclusive:
  assumes "fst (eventDefaults ctx log) = Some d"
  shows "branch_tag_exclusive d"
proof (cases "payload ctx")
  case None
  with assms show ?thesis by (simp add: eventDefaults_def)
next
  case (Some pl)
  with assms have "d = fst (transformBasicEvent ctx pl log)"
    by (simp add: eventDefaults_def split: prod.splits)
  then show ?thesis by (simp add: transformBasicEvent_exclusive)
qed

lemma selectOptions_override:
  "branch_override inp \<noteq> [] \<or> commit_override inp \<noteq> [] \<Longrightarrow>
   selectOptions app inp ctx envs log =
     (let (d, l) = eventDefaults ctx log;
          (options, l') = processOverrides app d (branch_override inp) (commit_override inp) l
      in (Some options, envs, l'))"
  by (simp add: selectOptions_def split: prod.splits)

lemma selectOptions_override_eq:
  "branch_override inp \<noteq> [] \<or> commit_override inp \<noteq> [] \<Longrightarrow> eventDefaults ctx log = (d, l) \<Longrightarrow>
   selectOptions app inp ctx envs log =
     (Some (fst (processOverrides app d (branch_override inp) (commit_override inp) l)), envs,
      snd (processOverrides app d (branch_override inp) (commit_override inp) l))"
  by (simp add: selectOptions_override prod.case_eq_if)

lemma selectOptions_pull_request:
  "branch_override inp = [] \<Longrightarrow> commit_override inp = [] \<Longrightarrow>
   payload ctx = Some pl \<Longrightarrow> pull_request pl = Some pr \<Longrightarrow>
   selectOptions app inp ctx envs log =
     (let (options, l') = transformPullRequestEvent pr (snd (eventDefaults ctx log))
      in (Some options, if draft pr then envs @ [draftEnvironment] else envs, l'))"
  by (simp add: selectOptions_def split: prod.splits)

lemma selectOptions_event:
  "branch_override inp = [] \<Longrightarrow> commit_override inp = [] \<Longrightarrow>
   Option.bind (payload ctx) pull_request = None \<Longrightarrow>
   selectOptions app inp ctx envs log = (fst (eventDefaults ctx log), envs, snd (eventDefaults ctx log))"
  by (simp add: selectOptions_def split: prod.splits)

lemma selectOptions_exclusive:
  assumes sel: "fst (selectOptions app inp ctx envs log) = Some options"
  shows "branch_tag_exclusive options"
proof (cases "branch_override inp \<noteq> [] \<or> commit_override inp \<noteq> []")
  case True
  with sel have "options = fst (processOverrides app (fst (eventDefaults ctx log))
      (branch_override inp) (commit_override inp) (snd (eventDefaults ctx log)))"
    by (simp add: selectOptions_override split: prod.splits)
  then show ?thesis
    by (simp add: processOverrides_exclusive eventDefaults_exclusive)
next
  case False
  show ?thesis
  proof (cases "Option.bind (payload ctx) pull_request")
    case None
    with False sel show ?thesis
      by (simp add: selectOptions_event eventDefaults_exclusive)
  next
    case (Some pr)
    then obtain pl where "payload ctx = Some pl" and "pull_request pl = Some pr"
      by (cases "payload ctx") auto
    with False sel have "options = fst (transformPullRequestEvent pr (snd (eventDefaults ctx log)))"
      by (simp add: selectOptions_pull_request split: prod.splits)
    then show ?thesis by (simp add: transformPullRequestEvent_exclusive)
  qed
qed

lemma createBuildOptions_invalid:
  "validateInputs inp = Some msg \<Longrightarrow> createBuildOptions app inp ctx env = (Map.empty, [Failed msg])"
  by (simp add: createBuildOptions_def setFailed_def)

lemma createBuildOptions_valid:
  "validateInputs inp = None \<Longrightarrow>
   selectOptions app inp ctx (prepareEnvironmentVariables (env_vars_for_bitrise inp) env) [] =
     (Some options, envs, log) \<Longrightarrow>
   createBuildOptions app inp ctx env =
     (options ++
        [K_workflow_id \<mapsto> (if bitrise_workflow inp \<noteq> [] then JStr (bitrise_workflow inp) else Undef),
         K_pipeline_id \<mapsto> (if bitrise_pipeline inp \<noteq> [] then JStr (bitrise_pipeline inp) else Undef),
         K_skip_git_status_report \<mapsto> JBool (skip_git_status_report inp),
         K_environments \<mapsto> JEnvs envs],
      repoMismatchWarning app options log)"
  by (simp add: createBuildOptions_def)

lemma createBuildOptions_no_options:
  "validateInputs inp = None \<Longrightarrow>
   selectOptions app inp ctx (prepareEnvironmentVariables (env_vars_for_bitrise inp) env) [] =
     (None, envs, log) \<Longrightarrow>
   createBuildOptions app inp ctx env = (Map.empty, setFailed ''No payload found in the context.'' log)"
  by (simp add: createBuildOptions_def)

lemma repoMismatchWarning_no_failure:
  "has_failed (repoMismatchWarning app options log) = has_failed log"
  by (simp add: repoMismatchWarning_def Let_def)

lemma eventDefaults_fst:
  "fst (eventDefaults ctx log) = map_option (\<lambda>pl. fst (transformBasicEvent ctx pl log)) (payload ctx)"
  by (simp add: eventDefaults_def split: option.splits prod.splits)

lemma eventDefaults_failed:
  "has_failed (snd (eventDefaults ctx log)) \<longleftrightarrow>
     has_failed log \<or> (\<exists>pl. payload ctx = Some pl \<and> deleted pl)"
proof -
  have "snd (eventDefaults ctx log) =
      (case payload ctx of None \<Rightarrow> log | Some pl \<Rightarrow> snd (transformBasicEvent ctx pl log))"
    by (simp add: eventDefaults_def split: option.splits prod.splits)
  then show ?thesis
    by (simp add: transformBasicEvent_log split: option.splits)
qed

text \<open>A property of the result other than the four written last comes from the
  selected options.\<close>

lemma createBuildOptions_get:
  assumes "validateInputs inp = None"
    and "fst (selectOptions app inp ctx (prepareEnvironmentVariables (env_vars_for_bitrise inp) env) []) =
           Some options"
  shows "get (fst (createBuildOptions app inp ctx env)) k =
    (if k = K_workflow_id then (if bitrise_workflow inp \<noteq> [] then JStr (bitrise_workflow inp) else Undef)
     else if k = K_pipeline_id then (if bitrise_pipeline inp \<noteq> [] then JStr (bitrise_pipeline inp) else Undef)
     else if k = K_skip_git_status_report then JBool (skip_git_status_report inp)
     else if k = K_environments then
       JEnvs (fst (snd (selectOptions app inp ctx (prepareEnvironmentVariables (env_vars_for_bitrise inp) env) [])))
     else get options k)"
  using assms
  by (cases "selectOptions app inp ctx (prepareEnvironmentVariables (env_vars_for_bitrise inp) env) []")
     (simp add: createBuildOptions_valid)

lemma createBuildOptions_log:
  assumes "validateInputs inp = None"
  shows "has_failed (snd (createBuildOptions app inp ctx env)) \<longleftrightarrow>
    has_failed (snd (snd (selectOptions app inp ctx (prepareEnvironmentVariables (env_vars_for_bitrise inp) env) [])))
    \<or> fst (selectOptions app inp ctx (prepareEnvironmentVariables (env_vars_for_bitrise inp) env) []) = None"
  using assms
  by (cases "selectOptions app inp ctx (prepareEnvironmentVariables (env_vars_for_bitrise inp) env) []")
     (auto simp: createBuildOptions_def repoMismatchWarning_no_failure split: option.splits)

lemma selectOptions_pr_fst:
  "branch_override inp = [] \<Longrightarrow> commit_override inp = [] \<Longrightarrow>
   payload ctx = Some pl \<Longrightarrow> pull_request pl = Some pr \<Longrightarrow>
   fst (selectOptions app inp ctx envs log) = Some (fst (transformPullRequestEvent pr (snd (eventDefaults ctx log))))"
  by (simp add: selectOptions_pull_request split: prod.splits)

lemma selectOptions_pr_snd:
  "branch_override inp = [] \<Longrightarrow> commit_override inp = [] \<Longrightarrow>
   payload ctx = Some pl \<Longrightarrow> pull_request pl = Some pr \<Longrightarrow>
   snd (selectOptions app inp ctx envs log) =
     (if draft pr then envs @ [draftEnvironment] else envs,
      snd (transformPullRequestEvent pr (snd (eventDefaults ctx log))))"
  by (simp add: selectOptions_pull_request split: prod.splits)

lemma selectOptions_event_fst:
  "branch_override inp = [] \<Longrightarrow> commit_override inp = [] \<Longrightarrow>
   payload ctx = Some pl \<Longrightarrow> pull_request pl = None \<Longrightarrow>
   fst (selectOptions app inp ctx envs log) = Some (fst (transformBasicEvent ctx pl log))"
  by (simp add: selectOptions_event eventDefaults_fst)

lemma eventDefaults_event:
  "payload ctx = Some pl \<Longrightarrow> \<not> deleted pl \<Longrightarrow>
   eventDefaults ctx log = (Some (fst (transformBasicEvent ctx pl log)), log)"
  using transformBasicEvent_log [of ctx pl log]
  by (cases "transformBasicEvent ctx pl log") (simp add: eventDefaults_def)

lemma selectOptions_Some:
  assumes "payload ctx \<noteq> None"
  shows "fst (selectOptions app inp ctx envs log) \<noteq> None"
proof (cases "branch_override inp \<noteq> [] \<or> commit_override inp \<noteq> []")
  case True
  then show ?thesis by (simp add: selectOptions_override split: prod.splits)
next
  case False
  show ?thesis
  proof (cases "Option.bind (payload ctx) pull_request")
    case None
    with False assms show ?thesis by (simp add: selectOptions_event eventDefaults_fst)
  next
    case (Some pr)
    then obtain pl where "payload ctx = Some pl" and "pull_request pl = Some pr"
      by (cases "payload ctx") auto
    with False show ?thesis by (simp add: selectOptions_pr_fst)
  qed
qed

text \<open>Two runs agree when their inputs agree on everything but the overrides and
  the selected options agree.\<close>

lemma createBuildOptions_cong:
  assumes "bitrise_workflow inp' = bitrise_workflow inp" "bitrise_pipeline inp' = bitrise_pipeline inp"
    "listen inp' = listen inp" "skip_git_status_report inp' = skip_git_status_report inp"
    "env_vars_for_bitrise inp' = env_vars_for_bitrise inp"
    and "selectOptions app inp' ctx (prepareEnvironmentVariables (env_vars_for_bitrise inp) env) [] =
         selectOptions app inp ctx (prepareEnvironmentVariables (env_vars_for_bitrise inp) env) []"
  shows "createBuildOptions app inp' ctx env = createBuildOptions app inp ctx env"
proof -
  have v: "validateInputs inp' = validateInputs inp"
    using assms(1-3) by (simp add: validateInputs_def Let_def)
  show ?thesis
  proof (cases "validateInputs inp")
    case (Some msg)
    with v show ?thesis by (simp add: createBuildOptions_invalid)
  next
    case None
    obtain opt es l where sel:
      "selectOptions app inp ctx (prepareEnvironmentVariables (env_vars_for_bitrise inp) env) [] = (opt, es, l)"
      by (cases "selectOptions app inp ctx (prepareEnvironmentVariables (env_vars_for_bitrise inp) env) []") auto
    with None v assms show ?thesis
      by (cases opt) (simp_all add: createBuildOptions_valid createBuildOptions_no_options)
  qed
qed

lemma validateInputs_None:
  "validateInputs inp = None \<longleftrightarrow>
     (bitrise_workflow inp = []) \<noteq> (bitrise_pipeline inp = []) \<and>
     \<not> (bitrise_pipeline inp \<noteq> [] \<and> listen inp)"
  by (auto simp: validateInputs_def Let_def)

text \<open>The result is the empty object of an early return, or the selected options
  with the four properties written last.\<close>

lemma createBuildOptions_shape:
  "fst (createBuildOptions app inp ctx env) = Map.empty \<or>
   (\<exists>options. fst (selectOptions app inp ctx (prepareEnvironmentVariables (env_vars_for_bitrise inp) env) []) =
                Some options \<and>
      fst (createBuildOptions app inp ctx env) = options ++
        [K_workflow_id \<mapsto> (if bitrise_workflow inp \<noteq> [] then JStr (bitrise_workflow inp) else Undef),
         K_pipeline_id \<mapsto> (if bitrise_pipeline inp \<noteq> [] then JStr (bitrise_pipeline inp) else Undef),
         K_skip_git_status_report \<mapsto> JBool (skip_git_status_report inp),
         K_environments \<mapsto>
           JEnvs (fst (snd (selectOptions app inp ctx (prepareEnvironmentVariables (env_vars_for_bitrise inp) env) [])))])"
  by (simp add: createBuildOptions_def split: option.split prod.split)

end
