(* ===== verification/Fixtures.thy ===== *)
theory Fixtures
  imports BuildOptions
begin

text \<open>Concrete events and inputs, used by the witnesses of the root theory: a public
  repository, a push of one commit to \<open>main\<close>, a tag push, an open pull request,
  and the inputs of a workflow run that passes \<open>A\<close> and \<open>C\<close> through.\<close>

definition fx_repo :: Repository where
  "fx_repo = \<lparr>repo_private = False, ssh_url = Some ''git@github.com:octo/app.git'',
     clone_url = Some ''https://github.com/octo/app.git'', owner_login = Some ''octo''\<rparr>"

definition fx_commit :: Commit where
  "fx_commit = \<lparr>added = [''a.txt''], removed = [], modified = [''b.txt''], message = ''Fix build''\<rparr>"

definition fx_push_payload :: Payload where
  "fx_push_payload = \<lparr>deleted = False, commits = Some [fx_commit], head_commit = Some fx_commit,
     repository = Some fx_repo, pull_request = None, sender_login = None, pusher_name = Some ''dev''\<rparr>"

definition fx_push :: Context where
  "fx_push = \<lparr>eventName = ''push'', ref = ''refs/heads/main'', sha = ''c0ffee'', actor = ''dev'',
     payload = Some fx_push_payload\<rparr>"

definition fx_tag :: Context where
  "fx_tag = \<lparr>eventName = ''push'', ref = ''refs/tags/v1.0'', sha = ''c0ffee'', actor = ''dev'',
     payload = Some fx_push_payload\<rparr>"

definition fx_head :: PrBranch where
  "fx_head = \<lparr>pr_ref = Some ''feature'', pr_sha = Some ''beef'', pr_repo = Some fx_repo\<rparr>"

definition fx_base :: PrBranch where
  "fx_base = \<lparr>pr_ref = Some ''main'', pr_sha = Some ''c0ffee'', pr_repo = Some fx_repo\<rparr>"

definition fx_pr :: PullRequest where
  "fx_pr = \<lparr>number = 42, title = ''Add feature'', body = Some ''Details'', mergeable = None,
     draft = True, action = None, head = Some fx_head, base = Some fx_base,
     user_login = Some ''dev'', diff_url = None\<rparr>"

definition fx_pr_payload :: Payload where
  "fx_pr_payload = \<lparr>deleted = False, commits = None, head_commit = None,
     repository = Some fx_repo, pull_request = Some fx_pr, sender_login = Some ''dev'', pusher_name = None\<rparr>"

definition fx_pr_ctx :: Context where
  "fx_pr_ctx = \<lparr>eventName = ''pull_request'', ref = ''refs/pull/42/merge'', sha = ''m3rge'', actor = ''dev'',
     payload = Some fx_pr_payload\<rparr>"

definition fx_inputs :: Inputs where
  "fx_inputs = \<lparr>bitrise_workflow = ''primary'', bitrise_pipeline = [], listen = False,
     branch_override = [], commit_override = [], skip_git_status_report = False,
     env_vars_for_bitrise = ''A, C''\<rparr>"

definition fx_app :: BitriseAppDetails where
  "fx_app = \<lparr>repo_url = Some ''git@github.com:octo/app.git''\<rparr>"

definition fx_other_app :: BitriseAppDetails where
  "fx_other_app = \<lparr>repo_url = Some ''https://github.com/octo/fork''\<rparr>"

definition fx_deleted :: Context where
  "fx_deleted = fx_push\<lparr>payload := Some (fx_push_payload\<lparr>deleted := True\<rparr>)\<rparr>"

definition fx_branch_override :: Inputs where
  "fx_branch_override = fx_inputs\<lparr>branch_override := ''refs/heads/main''\<rparr>"

definition fx_unmergeable_pr :: PullRequest where
  "fx_unmergeable_pr = fx_pr\<lparr>mergeable := Some False\<rparr>"

definition fx_unmergeable_ctx :: Context where
  "fx_unmergeable_ctx = fx_pr_ctx\<lparr>payload := Some (fx_pr_payload\<lparr>pull_request := Some fx_unmergeable_pr\<rparr>)\<rparr>"

end
