(* ===== verification/Typing.thy ===== *)
theory Typing
  imports BuildOptions
begin

text \<open>
  The result conforms to \<open>BitriseBuildOptions\<close>: every property the resolver writes
  has the type \<open>types.ts\<close> declares for it (\<open>well_typed\<close>, in \<open>Types\<close>). Each
  operation that builds an object preserves this, from the two transforms through
  the three override steps to the final assembly of \<open>createBuildOptions\<close>, so
  typing is checked the way a type system is checked: one preservation lemma per
  construct.
\<close>

lemma well_typed_onI:
  "(\<And>k. has_type (get ob k) (key_type k)) \<Longrightarrow> well_typed ob"
  by (simp add: well_typed_def)

lemma transformBasicEvent_well_typed [wt_intros]: "well_typed (fst (transformBasicEvent ctx pl log))"
proof (cases "deleted pl")
  case True
  then show ?thesis by (simp add: transformBasicEvent_deleted)
next
  case False
  show ?thesis
    by (rule well_typed_onI) (simp add: transformBasicEvent_get [OF False])
qed

lemma transformPullRequestEvent_well_typed [wt_intros]:
  "well_typed (fst (transformPullRequestEvent pr log))"
proof (cases "mergeable pr = Some False")
  case True
  then show ?thesis by (simp add: transformPullRequestEvent_unmergeable)
next
  case False
  show ?thesis
    by (rule well_typed_onI) (simp add: transformPullRequestEvent_get [OF False])
qed

lemma override_branch_options_well_typed [wt_intros]: "well_typed (override_branch_options app b)"
  unfolding override_branch_options_def Let_def
  by (simp add: wt_intros)

lemma collapse_to_default_well_typed [wt_intros]:
  "well_typed bo \<Longrightarrow> pred_option well_typed d \<Longrightarrow> well_typed (collapse_to_default app d b bo)"
  by (cases d) (simp_all add: collapse_to_default_def Let_def wt_intros)

lemma narrow_to_commit_well_typed [wt_intros]:
  assumes "well_typed bo"
  shows "well_typed (narrow_to_commit d c bo)"
  using well_typed_get [OF assms, of K_branch] well_typed_get [OF assms, of K_tag]
    well_typed_get [OF assms, of K_base_repository_url] assms
  by (simp add: narrow_to_commit_def wt_intros)

lemma processOverrides_well_typed [wt_intros]:
  "pred_option well_typed d \<Longrightarrow> well_typed (fst (processOverrides app d b c log))"
  by (simp add: processOverrides_fst wt_intros)

lemma eventDefaults_well_typed: "pred_option well_typed (fst (eventDefaults ctx log))"
  by (cases "payload ctx") (simp_all add: eventDefaults_fst wt_intros)

lemma selectOptions_well_typed: "pred_option well_typed (fst (selectOptions app inp ctx envs log))"
proof (cases "branch_override inp \<noteq> [] \<or> commit_override inp \<noteq> []")
  case True
  then show ?thesis
    using eventDefaults_well_typed [of ctx log]
    by (simp add: selectOptions_override prod.case_eq_if wt_intros)
next
  case False
  show ?thesis
  proof (cases "Option.bind (payload ctx) pull_request")
    case None
    with False show ?thesis by (simp add: selectOptions_event eventDefaults_well_typed)
  next
    case (Some pr)
    then obtain pl where "payload ctx = Some pl" and "pull_request pl = Some pr"
      by (cases "payload ctx") auto
    with False show ?thesis by (simp add: selectOptions_pr_fst wt_intros)
  qed
qed

text \<open>The properties \<open>createBuildOptions\<close> writes last.\<close>

lemma well_typed_finish [wt_intros]:
  "well_typed options \<Longrightarrow>
   well_typed (options ++
     [K_workflow_id \<mapsto> (if bitrise_workflow inp \<noteq> [] then JStr (bitrise_workflow inp) else Undef),
      K_pipeline_id \<mapsto> (if bitrise_pipeline inp \<noteq> [] then JStr (bitrise_pipeline inp) else Undef),
      K_skip_git_status_report \<mapsto> JBool (skip_git_status_report inp),
      K_environments \<mapsto> JEnvs envs])"
  by (simp add: wt_intros)

end
