(* ===== verification/Provenance.thy ===== *)
theory Provenance
  imports BuildOptions
begin

text \<open>
  Where the values of the result come from. The commit hash a run sends is one the
  event or the user named: the pushed commit, the commit override, or the head
  commit of the pull request; the branch and tag likewise come from the pushed ref,
  the branch override or the pull request's head ref; the environment entries it sends are allow-listed
  entries of \<open>process.env\<close> or the draft marker; and the result depends on the event
  context only through its ref, its sha and its payload.
\<close>

subsection \<open>Context independence\<close>

lemma transformBasicEvent_ctx:
  "ref c1 = ref c2 \<Longrightarrow> sha c1 = sha c2 \<Longrightarrow> transformBasicEvent c1 pl l = transformBasicEvent c2 pl l"
  by (simp only: transformBasicEvent_def)

lemma selectOptions_ctx:
  assumes "ref c1 = ref c2" "sha c1 = sha c2" and p: "payload c1 = payload c2"
  shows "selectOptions app inp c1 envs l = selectOptions app inp c2 envs l"
proof -
  have t: "transformBasicEvent c1 = transformBasicEvent c2"
    using assms by (intro ext transformBasicEvent_ctx)
  show ?thesis unfolding selectOptions_def eventDefaults_def t p by (rule refl)
qed

subsection \<open>The commit hash\<close>

lemma override_branch_options_commit: "get (override_branch_options app b) K_commit_hash = Undef"
  by (simp add: override_branch_options_def Let_def get_add_if)

lemma collapse_to_default_cases:
  "collapse_to_default app d b bo = bo \<or> (\<exists>d'. d = Some d' \<and> collapse_to_default app d b bo = bo ++ d')"
  by (cases d) (simp_all add: collapse_to_default_def Let_def)

lemma narrow_to_commit_commit:
  "get (narrow_to_commit d c bo) K_commit_hash \<in> {JStr c, get bo K_commit_hash}"
  by (simp add: narrow_to_commit_def)

lemma transformBasicEvent_commit:
  "get (fst (transformBasicEvent ctx pl l)) K_commit_hash \<in> {Undef, JStr (sha ctx)}"
  by (cases "deleted pl") (simp_all add: transformBasicEvent_deleted transformBasicEvent_get)

lemma transformPullRequestEvent_commit:
  "get (fst (transformPullRequestEvent pr l)) K_commit_hash \<in> {Undef, js_of_opt (Option.bind (head pr) pr_sha)}"
  by (cases "mergeable pr = Some False")
     (simp_all add: transformPullRequestEvent_unmergeable transformPullRequestEvent_get)

lemma processOverrides_commit:
  assumes "\<And>d'. d = Some d' \<Longrightarrow> get d' K_commit_hash \<in> {Undef, JStr s}"
  shows "get (fst (processOverrides app d b c l)) K_commit_hash \<in> {Undef, JStr s, JStr c}"
proof -
  let ?bo = "override_branch_options app b"
  have "get (collapse_to_default app d b ?bo) K_commit_hash \<in> {Undef, JStr s}"
    using collapse_to_default_cases [of app d b ?bo]
  proof (elim disjE exE conjE)
    assume "collapse_to_default app d b ?bo = ?bo"
    then show ?thesis by (simp add: override_branch_options_commit)
  next
    fix d' assume d: "d = Some d'" and eq: "collapse_to_default app d b ?bo = ?bo ++ d'"
    show ?thesis
      using assms [OF d] unfolding eq by (simp add: get_add_if override_branch_options_commit)
  qed
  then show ?thesis
    using narrow_to_commit_commit [of d c "collapse_to_default app d b ?bo"]
    by (auto simp: processOverrides_fst)
qed

lemma eventDefaults_commit:
  assumes "fst (eventDefaults ctx l) = Some d"
  shows "get d K_commit_hash \<in> {Undef, JStr (sha ctx)}"
proof (cases "payload ctx")
  case None
  with assms show ?thesis by (simp add: eventDefaults_fst)
next
  case (Some pl)
  with assms have "d = fst (transformBasicEvent ctx pl l)" by (simp add: eventDefaults_fst)
  then show ?thesis by (simp only: transformBasicEvent_commit)
qed

lemma selectOptions_commit:
  assumes "fst (selectOptions app inp ctx envs l) = Some options"
  shows "get options K_commit_hash \<in> {Undef, JStr (sha ctx), JStr (commit_override inp)} \<union>
           {js_of_opt (Option.bind (head pr) pr_sha) | pr. Option.bind (payload ctx) pull_request = Some pr}"
proof (cases "branch_override inp \<noteq> [] \<or> commit_override inp \<noteq> []")
  case True
  with assms have "options = fst (processOverrides app (fst (eventDefaults ctx l))
      (branch_override inp) (commit_override inp) (snd (eventDefaults ctx l)))"
    by (simp add: selectOptions_override prod.case_eq_if)
  then have "get options K_commit_hash \<in> {Undef, JStr (sha ctx), JStr (commit_override inp)}"
    using processOverrides_commit [OF eventDefaults_commit] by simp
  then show ?thesis by (rule UnI1)
next
  case False
  show ?thesis
  proof (cases "Option.bind (payload ctx) pull_request")
    case None
    with False assms have "fst (eventDefaults ctx l) = Some options" by (simp add: selectOptions_event)
    then have "get options K_commit_hash \<in> {Undef, JStr (sha ctx)}" by (rule eventDefaults_commit)
    then have "get options K_commit_hash \<in> {Undef, JStr (sha ctx), JStr (commit_override inp)}" by auto
    then show ?thesis by (rule UnI1)
  next
    case (Some pr)
    then obtain pl where "payload ctx = Some pl" and "pull_request pl = Some pr"
      by (cases "payload ctx") auto
    with False assms have "options = fst (transformPullRequestEvent pr (snd (eventDefaults ctx l)))"
      by (simp add: selectOptions_pr_fst)
    then have c: "get options K_commit_hash \<in> {Undef, js_of_opt (Option.bind (head pr) pr_sha)}"
      using transformPullRequestEvent_commit by simp
    show ?thesis
    proof (cases "get options K_commit_hash = Undef")
      case True
      then show ?thesis by simp
    next
      case False
      with c have "get options K_commit_hash = js_of_opt (Option.bind (head pr) pr_sha)" by simp
      with Some show ?thesis by blast
    qed
  qed
qed

subsection \<open>The environment entries\<close>

lemma selectOptions_envs:
  "set (fst (snd (selectOptions app inp ctx envs l))) \<subseteq> set envs \<union> {draftEnvironment}"
proof (cases "branch_override inp \<noteq> [] \<or> commit_override inp \<noteq> []")
  case True
  then show ?thesis by (auto simp: selectOptions_override prod.case_eq_if)
next
  case False
  show ?thesis
  proof (cases "Option.bind (payload ctx) pull_request")
    case None
    with False show ?thesis by (auto simp: selectOptions_event)
  next
    case (Some pr)
    then obtain pl where "payload ctx = Some pl" and "pull_request pl = Some pr"
      by (cases "payload ctx") auto
    with False show ?thesis by (auto simp: selectOptions_pr_snd)
  qed
qed

lemma prepareEnvironmentVariables_set:
  "set (prepareEnvironmentVariables input env) =
     env_entry ` {(k, v) \<in> set env. k \<in> set (envPassThrough input)}"
  by (auto simp: prepareEnvironmentVariables_def Let_def)

subsection \<open>The branch and the tag\<close>

text \<open>The names a ref of each kind carries.\<close>

lemma heads_split: "startsWith r ''refs/heads/'' \<Longrightarrow> r = ''refs/heads/'' @ slice r 11"
proof -
  assume "startsWith r ''refs/heads/''"
  from startsWith_slice [OF this] show ?thesis
    unfolding length_heads_tags(1) .
qed

lemma tags_split: "startsWith r ''refs/tags/'' \<Longrightarrow> r = ''refs/tags/'' @ slice r 10"
proof -
  assume "startsWith r ''refs/tags/''"
  from startsWith_slice [OF this] show ?thesis
    unfolding length_heads_tags(2) .
qed

lemma transformBasicEvent_branch:
  "get (fst (transformBasicEvent ctx pl l)) K_branch \<in> {Undef} \<union> {JStr b | b. ref ctx = ''refs/heads/'' @ b}"
proof (cases "\<not> deleted pl \<and> startsWith (ref ctx) ''refs/heads/''")
  case True
  then have "get (fst (transformBasicEvent ctx pl l)) K_branch = JStr (slice (ref ctx) 11)"
    by (simp add: transformBasicEvent_get)
  with heads_split [of "ref ctx"] True show ?thesis by blast
next
  case False
  then have "get (fst (transformBasicEvent ctx pl l)) K_branch = Undef"
    by (cases "deleted pl") (simp_all add: transformBasicEvent_deleted transformBasicEvent_get)
  then show ?thesis by simp
qed

lemma transformBasicEvent_tag:
  "get (fst (transformBasicEvent ctx pl l)) K_tag \<in> {Undef} \<union> {JStr t | t. ref ctx = ''refs/tags/'' @ t}"
proof (cases "\<not> deleted pl \<and> \<not> startsWith (ref ctx) ''refs/heads/'' \<and> startsWith (ref ctx) ''refs/tags/''")
  case True
  then have "get (fst (transformBasicEvent ctx pl l)) K_tag = JStr (slice (ref ctx) 10)"
    by (simp add: transformBasicEvent_get)
  with tags_split [of "ref ctx"] True show ?thesis by blast
next
  case False
  then have "get (fst (transformBasicEvent ctx pl l)) K_tag = Undef"
    by (cases "deleted pl") (simp_all add: transformBasicEvent_deleted transformBasicEvent_get)
  then show ?thesis by simp
qed

lemma override_branch_options_get_branch_tag:
  "get (override_branch_options app b) K_branch =
     (if startsWith b ''refs/heads/'' then JStr (slice b 11)
      else if startsWith b ''refs/tags/'' then Undef else if b \<noteq> [] then JStr b else Undef)"
  "get (override_branch_options app b) K_tag =
     (if \<not> startsWith b ''refs/heads/'' \<and> startsWith b ''refs/tags/'' then JStr (slice b 10) else Undef)"
  by (simp_all add: override_branch_options_def Let_def get_add_if)

lemma override_branch_options_branch_src:
  "get (override_branch_options app b) K_branch \<in> {Undef} \<union> {JStr n | n. b = ''refs/heads/'' @ n \<or> b = n}"
proof (cases "startsWith b ''refs/heads/''")
  case True
  with heads_split [OF True] show ?thesis by (simp add: override_branch_options_get_branch_tag)
next
  case False
  then show ?thesis by (auto simp: override_branch_options_get_branch_tag)
qed

lemma override_branch_options_tag_src:
  "get (override_branch_options app b) K_tag \<in> {Undef} \<union> {JStr t | t. b = ''refs/tags/'' @ t}"
proof (cases "\<not> startsWith b ''refs/heads/'' \<and> startsWith b ''refs/tags/''")
  case True
  with tags_split [of b] show ?thesis by (simp add: override_branch_options_get_branch_tag)
next
  case False
  then show ?thesis by (auto simp: override_branch_options_get_branch_tag)
qed

text \<open>The overrides take branch and tag from the parsed override or from the event.\<close>

lemma processOverrides_branch_tag:
  assumes "k = K_branch \<or> k = K_tag"
  shows "get (fst (processOverrides app d b c l)) k \<in>
           {get (override_branch_options app b) k} \<union> {get d' k | d'. d = Some d'}"
proof -
  let ?bo = "override_branch_options app b"
  have n: "get (narrow_to_commit d c x) k = get x k" for x
    using assms by (auto simp: narrow_to_commit_def)
  have "get (collapse_to_default app d b ?bo) k \<in> {get ?bo k} \<union> {get d' k | d'. d = Some d'}"
    using collapse_to_default_cases [of app d b ?bo]
  proof (elim disjE exE conjE)
    assume "collapse_to_default app d b ?bo = ?bo"
    then show ?thesis by simp
  next
    fix d' assume d: "d = Some d'" and eq: "collapse_to_default app d b ?bo = ?bo ++ d'"
    show ?thesis unfolding eq using d by (auto simp: get_add_if)
  qed
  then show ?thesis by (simp add: processOverrides_fst n)
qed

lemma transformPullRequestEvent_branch_tag:
  "get (fst (transformPullRequestEvent pr l)) K_branch \<in> {Undef, js_of_opt (Option.bind (head pr) pr_ref)}"
  "get (fst (transformPullRequestEvent pr l)) K_tag = Undef"
  by (cases "mergeable pr = Some False";
      simp add: transformPullRequestEvent_unmergeable transformPullRequestEvent_get)+

lemma eventDefaults_Some:
  "fst (eventDefaults ctx l) = Some d \<Longrightarrow> \<exists>pl. d = fst (transformBasicEvent ctx pl l)"
  by (cases "payload ctx") (auto simp: eventDefaults_fst)

lemma selectOptions_branch_tag:
  assumes sel: "fst (selectOptions app inp ctx envs l) = Some options"
  shows "get options K_branch \<in>
           {Undef} \<union> {JStr n | n. ref ctx = ''refs/heads/'' @ n \<or> branch_override inp = ''refs/heads/'' @ n \<or>
                                 branch_override inp = n} \<union>
           {js_of_opt (Option.bind (head pr) pr_ref) | pr. Option.bind (payload ctx) pull_request = Some pr}"
    and "get options K_tag \<in>
           {Undef} \<union> {JStr t | t. ref ctx = ''refs/tags/'' @ t \<or> branch_override inp = ''refs/tags/'' @ t}"
proof -
  have ev_b: "get d' K_branch \<in> {Undef} \<union> {JStr n | n. ref ctx = ''refs/heads/'' @ n}"
    and ev_t: "get d' K_tag \<in> {Undef} \<union> {JStr t | t. ref ctx = ''refs/tags/'' @ t}"
    if "fst (eventDefaults ctx l) = Some d'" for d'
    using eventDefaults_Some [OF that] transformBasicEvent_branch transformBasicEvent_tag by blast+
  have "(get options K_branch \<in>
           {Undef} \<union> {JStr n | n. ref ctx = ''refs/heads/'' @ n \<or> branch_override inp = ''refs/heads/'' @ n \<or>
                                 branch_override inp = n} \<union>
           {js_of_opt (Option.bind (head pr) pr_ref) | pr. Option.bind (payload ctx) pull_request = Some pr}) \<and>
        (get options K_tag \<in>
           {Undef} \<union> {JStr t | t. ref ctx = ''refs/tags/'' @ t \<or> branch_override inp = ''refs/tags/'' @ t})"
  proof (cases "branch_override inp \<noteq> [] \<or> commit_override inp \<noteq> []")
    case True
    let ?d = "fst (eventDefaults ctx l)"
    from True sel have o: "options = fst (processOverrides app ?d
        (branch_override inp) (commit_override inp) (snd (eventDefaults ctx l)))"
      by (simp add: selectOptions_override prod.case_eq_if)
    have pb: "get options K_branch \<in> {get (override_branch_options app (branch_override inp)) K_branch} \<union>
        {get d' K_branch | d'. ?d = Some d'}"
      unfolding o by (rule processOverrides_branch_tag [OF disjI1 [OF refl]])
    have pt: "get options K_tag \<in> {get (override_branch_options app (branch_override inp)) K_tag} \<union>
        {get d' K_tag | d'. ?d = Some d'}"
      unfolding o by (rule processOverrides_branch_tag [OF disjI2 [OF refl]])
    have "get options K_branch \<in>
           {Undef} \<union> {JStr n | n. ref ctx = ''refs/heads/'' @ n \<or> branch_override inp = ''refs/heads/'' @ n \<or>
                                 branch_override inp = n}"
      using pb
    proof (elim UnE)
      assume "get options K_branch \<in> {get (override_branch_options app (branch_override inp)) K_branch}"
      then show ?thesis using override_branch_options_branch_src [of app "branch_override inp"] by auto
    next
      assume "get options K_branch \<in> {get d' K_branch | d'. ?d = Some d'}"
      then obtain d' where "get options K_branch = get d' K_branch" "?d = Some d'" by blast
      then show ?thesis using ev_b [of d'] by auto
    qed
    moreover have "get options K_tag \<in>
           {Undef} \<union> {JStr t | t. ref ctx = ''refs/tags/'' @ t \<or> branch_override inp = ''refs/tags/'' @ t}"
      using pt
    proof (elim UnE)
      assume "get options K_tag \<in> {get (override_branch_options app (branch_override inp)) K_tag}"
      then show ?thesis using override_branch_options_tag_src [of app "branch_override inp"] by auto
    next
      assume "get options K_tag \<in> {get d' K_tag | d'. ?d = Some d'}"
      then obtain d' where "get options K_tag = get d' K_tag" "?d = Some d'" by blast
      then show ?thesis using ev_t [of d'] by auto
    qed
    ultimately show ?thesis by blast
  next
    case False
    show ?thesis
    proof (cases "Option.bind (payload ctx) pull_request")
      case None
      with False sel have "fst (eventDefaults ctx l) = Some options" by (simp add: selectOptions_event)
      with ev_b ev_t show ?thesis by blast
    next
      case (Some pr)
      then obtain pl where "payload ctx = Some pl" and "pull_request pl = Some pr"
        by (cases "payload ctx") auto
      with False sel have "options = fst (transformPullRequestEvent pr (snd (eventDefaults ctx l)))"
        by (simp add: selectOptions_pr_fst)
      with transformPullRequestEvent_branch_tag Some show ?thesis by blast
    qed
  qed
  then show "get options K_branch \<in>
           {Undef} \<union> {JStr n | n. ref ctx = ''refs/heads/'' @ n \<or> branch_override inp = ''refs/heads/'' @ n \<or>
                                 branch_override inp = n} \<union>
           {js_of_opt (Option.bind (head pr) pr_ref) | pr. Option.bind (payload ctx) pull_request = Some pr}"
    and "get options K_tag \<in>
           {Undef} \<union> {JStr t | t. ref ctx = ''refs/tags/'' @ t \<or> branch_override inp = ''refs/tags/'' @ t}"
    by blast+
qed

end
