(* ===== verification/Refinement.thy ===== *)
theory Refinement
  imports BuildOptions
begin

text \<open>
  The resolver's contract as spec \<section>3 and \<section>4 state it, in typed form: the build
  options as a record of optional fields (\<open>BuildOptions\<close>), the fatal errors as a
  datatype (\<open>ConfigError\<close>), and \<open>resolve\<close> returning \<open>ConfigError + BuildOptions\<close>,
  with every fatal error short-circuiting. \<open>abs_options\<close> reads the JavaScript
  object the code builds as such a record (a property that is not a string of the
  expected kind reads as unset). The refinement theorems in the root theory relate
  \<open>createBuildOptions\<close> to \<open>resolve\<close>.
\<close>

datatype ConfigError =
    MissingWorkflowOrPipeline | BothWorkflowAndPipeline | ListenWithPipeline
  | DeletedEvent | NotMergeable | NoPayload

record BuildOptions =
  opt_branch :: "string option"
  opt_tag :: "string option"
  opt_commit_hash :: "string option"
  opt_commit_message :: "string option"
  opt_commit_messages :: "string list option"
  opt_commit_paths :: "CommitPathsFilter list option"
  opt_base_repository_url :: "string option"
  opt_head_repository_url :: "string option"
  opt_pull_request_repository_url :: "string option"
  opt_pull_request_unverified_merge_branch :: "string option"
  opt_pull_request_merge_branch :: "string option"
  opt_pull_request_head_branch :: "string option"
  opt_branch_repo_owner :: "string option"
  opt_branch_dest :: "string option"
  opt_branch_dest_repo_owner :: "string option"
  opt_pull_request_id :: "nat option"
  opt_pull_request_author :: "string option"
  opt_diff_url :: "string option"
  opt_pull_request_ready_state :: "string option"
  opt_workflow_id :: "string option"
  opt_pipeline_id :: "string option"
  opt_skip_git_status_report :: "bool option"
  opt_environments :: "BitriseEnvironment list option"

subsection \<open>Reading the JavaScript object\<close>

fun str_of :: "jsval \<Rightarrow> string option" where
  "str_of (JStr s) = Some s"
| "str_of _ = None"

fun strs_of :: "jsval \<Rightarrow> string list option" where
  "strs_of (JStrs ss) = Some ss"
| "strs_of _ = None"

fun paths_of :: "jsval \<Rightarrow> CommitPathsFilter list option" where
  "paths_of (JPaths ps) = Some ps"
| "paths_of _ = None"

fun num_of :: "jsval \<Rightarrow> nat option" where
  "num_of (JNum n) = Some n"
| "num_of _ = None"

fun bool_of :: "jsval \<Rightarrow> bool option" where
  "bool_of (JBool b) = Some b"
| "bool_of _ = None"

fun envs_of :: "jsval \<Rightarrow> BitriseEnvironment list option" where
  "envs_of (JEnvs es) = Some es"
| "envs_of _ = None"

definition abs_options :: "obj \<Rightarrow> BuildOptions" where
  "abs_options ob =
     \<lparr>opt_branch = str_of (get ob K_branch), opt_tag = str_of (get ob K_tag),
      opt_commit_hash = str_of (get ob K_commit_hash),
      opt_commit_message = str_of (get ob K_commit_message),
      opt_commit_messages = strs_of (get ob K_commit_messages),
      opt_commit_paths = paths_of (get ob K_commit_paths),
      opt_base_repository_url = str_of (get ob K_base_repository_url),
      opt_head_repository_url = str_of (get ob K_head_repository_url),
      opt_pull_request_repository_url = str_of (get ob K_pull_request_repository_url),
      opt_pull_request_unverified_merge_branch = str_of (get ob K_pull_request_unverified_merge_branch),
      opt_pull_request_merge_branch = str_of (get ob K_pull_request_merge_branch),
      opt_pull_request_head_branch = str_of (get ob K_pull_request_head_branch),
      opt_branch_repo_owner = str_of (get ob K_branch_repo_owner),
      opt_branch_dest = str_of (get ob K_branch_dest),
      opt_branch_dest_repo_owner = str_of (get ob K_branch_dest_repo_owner),
      opt_pull_request_id = num_of (get ob K_pull_request_id),
      opt_pull_request_author = str_of (get ob K_pull_request_author),
      opt_diff_url = str_of (get ob K_diff_url),
      opt_pull_request_ready_state = str_of (get ob K_pull_request_ready_state),
      opt_workflow_id = str_of (get ob K_workflow_id),
      opt_pipeline_id = str_of (get ob K_pipeline_id),
      opt_skip_git_status_report = bool_of (get ob K_skip_git_status_report),
      opt_environments = envs_of (get ob K_environments)\<rparr>"

definition no_options :: BuildOptions where
  "no_options =
     \<lparr>opt_branch = None, opt_tag = None, opt_commit_hash = None, opt_commit_message = None,
      opt_commit_messages = None, opt_commit_paths = None, opt_base_repository_url = None,
      opt_head_repository_url = None, opt_pull_request_repository_url = None,
      opt_pull_request_unverified_merge_branch = None, opt_pull_request_merge_branch = None,
      opt_pull_request_head_branch = None, opt_branch_repo_owner = None, opt_branch_dest = None,
      opt_branch_dest_repo_owner = None, opt_pull_request_id = None, opt_pull_request_author = None,
      opt_diff_url = None, opt_pull_request_ready_state = None, opt_workflow_id = None,
      opt_pipeline_id = None, opt_skip_git_status_report = None, opt_environments = None\<rparr>"

subsection \<open>The specification (spec \<section>4)\<close>

text \<open>Repository-URL selection (\<section>4.2) and ref parsing.\<close>

definition spec_repo_url :: "Repository option \<Rightarrow> string option" where
  "spec_repo_url r = Option.bind r (\<lambda>r. if repo_private r then ssh_url r else clone_url r)"

definition strip_ref :: "string \<Rightarrow> string \<Rightarrow> string option" where
  "strip_ref p s = (if take (length p) s = p then Some (drop (length p) s) else None)"

text \<open>Base-event transform (\<section>4.1), for an event that is not a deletion.\<close>

definition spec_base :: "Context \<Rightarrow> Payload \<Rightarrow> BuildOptions" where
  "spec_base ctx pl =
     (let cs = (case commits pl of Some cs \<Rightarrow> cs | None \<Rightarrow> (case head_commit pl of Some c \<Rightarrow> [c] | None \<Rightarrow> []));
          common = no_options\<lparr>opt_commit_hash := Some (sha ctx),
                     opt_commit_message := map_option message (head_commit pl),
                     opt_commit_messages := Some [], opt_commit_paths := Some [],
                     opt_base_repository_url := spec_repo_url (repository pl)\<rparr>
      in case strip_ref ''refs/heads/'' (ref ctx) of
           Some b \<Rightarrow> common\<lparr>opt_branch := Some b, opt_commit_messages := Some (map message cs),
                      opt_commit_paths := Some (map (\<lambda>c. \<lparr>added = added c, removed = removed c, modified = modified c\<rparr>) cs)\<rparr>
         | None \<Rightarrow> (case strip_ref ''refs/tags/'' (ref ctx) of
                     Some t \<Rightarrow> common\<lparr>opt_tag := Some t\<rparr>
                   | None \<Rightarrow> common))"

text \<open>Pull-request transform (\<section>4.1), for a pull request that is not known to be
  unmergeable.\<close>

definition spec_pull_request :: "PullRequest \<Rightarrow> BuildOptions" where
  "spec_pull_request pr =
     (let merge = ''pull/'' @ show_nat (number pr) @ ''/merge'';
          headRepo = Option.bind (head pr) pr_repo; baseRepo = Option.bind (base pr) pr_repo
      in no_options\<lparr>
           opt_pull_request_unverified_merge_branch := Some merge,
           opt_pull_request_merge_branch := (if mergeable pr = None then None else Some merge),
           opt_commit_message := Some (title pr @ (case body pr of
               Some b \<Rightarrow> if b = [] then [] else [CHR 0x0A, CHR 0x0A] @ b | None \<Rightarrow> [])),
           opt_commit_hash := Option.bind (head pr) pr_sha,
           opt_branch := Option.bind (head pr) pr_ref,
           opt_branch_repo_owner := Option.bind headRepo owner_login,
           opt_branch_dest := Option.bind (base pr) pr_ref,
           opt_branch_dest_repo_owner := Option.bind baseRepo owner_login,
           opt_pull_request_id := Some (number pr),
           opt_head_repository_url := spec_repo_url headRepo,
           opt_pull_request_repository_url := spec_repo_url headRepo,
           opt_base_repository_url := spec_repo_url baseRepo,
           opt_pull_request_head_branch := Some (''pull/'' @ show_nat (number pr) @ ''/head''),
           opt_pull_request_author := user_login pr,
           opt_diff_url := diff_url pr,
           opt_pull_request_ready_state := Some
             (if action pr = Some ''ready_for_review'' then ''converted_to_ready_for_review''
              else if draft pr then ''draft'' else ''ready_for_review'')\<rparr>)"

text \<open>Override transform (\<section>4.1 steps 1--5): seed and parse, collapse to the
  event's options, narrow to a commit. A name is a non-empty string; the app metadata
  is available when its repository URL is a non-empty string.\<close>

definition spec_app_url :: "BitriseAppDetails option \<Rightarrow> string option" where
  "spec_app_url app =
     (case Option.bind app repo_url of Some u \<Rightarrow> if u = [] then None else Some u | None \<Rightarrow> None)"

definition spec_parse_override :: "BitriseAppDetails option \<Rightarrow> string \<Rightarrow> BuildOptions" where
  "spec_parse_override app b =
     (let seed = no_options\<lparr>opt_base_repository_url := spec_app_url app\<rparr>
      in case strip_ref ''refs/heads/'' b of
           Some br \<Rightarrow> seed\<lparr>opt_branch := Some br\<rparr>
         | None \<Rightarrow> (case strip_ref ''refs/tags/'' b of
                     Some t \<Rightarrow> seed\<lparr>opt_tag := Some t\<rparr>
                   | None \<Rightarrow> if b = [] then seed else seed\<lparr>opt_branch := Some b\<rparr>))"

definition spec_collapse ::
  "BitriseAppDetails option \<Rightarrow> BuildOptions option \<Rightarrow> string \<Rightarrow> BuildOptions \<Rightarrow> BuildOptions" where
  "spec_collapse app dflt b parsed =
     (case dflt of
        None \<Rightarrow> parsed
      | Some d \<Rightarrow>
          if b \<noteq> [] \<and>
             ((case opt_branch parsed of Some br \<Rightarrow> br \<noteq> [] \<and> opt_branch d = Some br | None \<Rightarrow> False) \<or>
              (case opt_tag parsed of Some t \<Rightarrow> t \<noteq> [] \<and> opt_tag d = Some t | None \<Rightarrow> False)) \<and>
             (case spec_app_url app of
                Some u \<Rightarrow> urlsReferTheSameGitHubRepo (JStr u) (js_of_opt (opt_base_repository_url d))
              | None \<Rightarrow> False)
          then d else parsed)"

definition spec_narrow :: "BuildOptions option \<Rightarrow> string \<Rightarrow> BuildOptions \<Rightarrow> BuildOptions" where
  "spec_narrow dflt c opts =
     (if c \<noteq> [] \<and> (case dflt of Some d \<Rightarrow> opt_commit_hash d \<noteq> Some c | None \<Rightarrow> True)
      then no_options\<lparr>opt_branch := opt_branch opts, opt_tag := opt_tag opts, opt_commit_hash := Some c,
                      opt_base_repository_url := opt_base_repository_url opts\<rparr>
      else opts)"

definition spec_override ::
  "BitriseAppDetails option \<Rightarrow> BuildOptions option \<Rightarrow> string \<Rightarrow> string \<Rightarrow> BuildOptions" where
  "spec_override app dflt b c = spec_narrow dflt c (spec_collapse app dflt b (spec_parse_override app b))"

text \<open>The identifiers and flags every result carries.\<close>

definition spec_finish :: "Inputs \<Rightarrow> BitriseEnvironment list \<Rightarrow> BuildOptions \<Rightarrow> BuildOptions" where
  "spec_finish inp envs opts =
     opts\<lparr>opt_workflow_id := (if bitrise_workflow inp = [] then None else Some (bitrise_workflow inp)),
          opt_pipeline_id := (if bitrise_pipeline inp = [] then None else Some (bitrise_pipeline inp)),
          opt_skip_git_status_report := Some (skip_git_status_report inp),
          opt_environments := Some envs\<rparr>"

text \<open>The resolver: every fatal error of \<section>7 short-circuits.\<close>

definition resolve ::
  "BitriseAppDetails option \<Rightarrow> Inputs \<Rightarrow> Context \<Rightarrow> process_env \<Rightarrow> ConfigError + BuildOptions" where
  "resolve app inp ctx env =
     (let w = bitrise_workflow inp; p = bitrise_pipeline inp;
          envs = prepareEnvironmentVariables (env_vars_for_bitrise inp) env;
          b = branch_override inp; c = commit_override inp
      in if w = [] \<and> p = [] then Inl MissingWorkflowOrPipeline
         else if w \<noteq> [] \<and> p \<noteq> [] then Inl BothWorkflowAndPipeline
         else if p \<noteq> [] \<and> listen inp then Inl ListenWithPipeline
         else case payload ctx of
           None \<Rightarrow>
             if b \<noteq> [] \<or> c \<noteq> [] then Inr (spec_finish inp envs (spec_override app None b c))
             else Inl NoPayload
         | Some pl \<Rightarrow>
             if deleted pl then Inl DeletedEvent
             else if b \<noteq> [] \<or> c \<noteq> [] then
               Inr (spec_finish inp envs (spec_override app (Some (spec_base ctx pl)) b c))
             else case pull_request pl of
               Some pr \<Rightarrow>
                 if mergeable pr = Some False then Inl NotMergeable
                 else Inr (spec_finish inp
                        (envs @ (if draft pr
                                 then [\<lparr>mapped_to = ''GITHUB_PR_IS_DRAFT'', env_value = ''true'', is_expand = False\<rparr>]
                                 else []))
                        (spec_pull_request pr))
             | None \<Rightarrow> Inr (spec_finish inp envs (spec_base ctx pl)))"

text \<open>The message each fatal error is reported with by \<open>core.setFailed\<close>.\<close>

fun error_message :: "ConfigError \<Rightarrow> string" where
  "error_message MissingWorkflowOrPipeline = ''Either bitrise-workflow or bitrise-pipeline must be provided''"
| "error_message BothWorkflowAndPipeline = ''Cannot specify both bitrise-workflow and bitrise-pipeline''"
| "error_message ListenWithPipeline = ''Listen option is not supported with bitrise-pipeline''"
| "error_message DeletedEvent = ''this is a 'Deleted' event, no build can be started''"
| "error_message NotMergeable = ''Pull Request is not mergeable''"
| "error_message NoPayload = ''No payload found in the context.''"

subsection \<open>Refinement of the transforms\<close>

lemma strip_ref_eq: "strip_ref p s = (if startsWith s p then Some (slice s (length p)) else None)"
  by (simp add: strip_ref_def startsWith_def slice_def)

lemma strip_ref_heads: "strip_ref ''refs/heads/'' s = (if startsWith s ''refs/heads/'' then Some (slice s 11) else None)"
  and strip_ref_tags: "strip_ref ''refs/tags/'' s = (if startsWith s ''refs/tags/'' then Some (slice s 10) else None)"
  by (simp_all add: strip_ref_eq eval_nat_numeral)

lemma str_of_js_of_opt [simp]: "str_of (js_of_opt x) = x"
  by (cases x) simp_all

lemma spec_repo_url_eq: "spec_repo_url r = getRepositoryURL r"
  by (simp add: spec_repo_url_def getRepositoryURL_def split: option.splits)

lemma pr_commit_message_eq:
  "pr_commit_message pr =
     title pr @ (case body pr of Some b \<Rightarrow> if b = [] then [] else [CHR 0x0A, CHR 0x0A] @ b | None \<Rightarrow> [])"
  by (simp add: pr_commit_message_def split: option.splits)

lemma abs_transformBasicEvent:
  assumes "\<not> deleted pl"
  shows "abs_options (fst (transformBasicEvent ctx pl log)) = spec_base ctx pl"
proof (cases "startsWith (ref ctx) ''refs/heads/''")
  case True
  with assms show ?thesis
    by (simp add: abs_options_def spec_base_def no_options_def transformBasicEvent_get strip_ref_heads
        Let_def spec_repo_url_eq event_commits_def commit_paths_of_def)
next
  case False
  with assms show ?thesis
    by (simp add: abs_options_def spec_base_def no_options_def transformBasicEvent_get strip_ref_heads
        strip_ref_tags Let_def spec_repo_url_eq event_commits_def)
qed

lemma abs_transformPullRequestEvent:
  "mergeable pr \<noteq> Some False \<Longrightarrow>
   abs_options (fst (transformPullRequestEvent pr log)) = spec_pull_request pr"
  by (simp add: abs_options_def spec_pull_request_def no_options_def transformPullRequestEvent_get Let_def
      spec_repo_url_eq pr_commit_message_eq getPrReadyState_def)


subsection \<open>Refinement of the override steps\<close>

lemma abs_options_cong: "(\<And>k. get a k = get b k) \<Longrightarrow> abs_options a = abs_options b"
  by (simp add: abs_options_def)

lemma get_add_covered:
  assumes "\<And>k. get bo k \<noteq> Undef \<Longrightarrow> get d k \<noteq> Undef"
  shows "get (bo ++ d) k = get d k"
proof (cases "k \<in> dom d")
  case True
  then show ?thesis by (simp add: get_add_if)
next
  case False
  then have "get d k = Undef" by (simp add: get_def domIff)
  with assms [of k] have "get bo k = Undef" by blast
  with False \<open>get d k = Undef\<close> show ?thesis by (simp add: get_add_if)
qed

lemma str_of_Some_iff [simp]: "str_of v = Some s \<longleftrightarrow> v = JStr s"
  by (cases v) auto

lemma truthy_eq_str_of:
  assumes "v = Undef \<or> (\<exists>s. v = JStr s)"
  shows "(truthy v \<and> v = w) \<longleftrightarrow> (case str_of v of Some s \<Rightarrow> s \<noteq> [] \<and> str_of w = Some s | None \<Rightarrow> False)"
  using assms by (cases w) auto

lemma urls_str_of:
  "urlsReferTheSameGitHubRepo (JStr u) v = urlsReferTheSameGitHubRepo (JStr u) (js_of_opt (str_of v))"
  by (cases v) (simp_all add: urlsReferTheSameGitHubRepo_def)

lemma app_url_cases:
  obtains "Option.bind app repo_url = None" "spec_app_url app = None"
  | "Option.bind app repo_url = Some []" "spec_app_url app = None"
  | u where "Option.bind app repo_url = Some u" "u \<noteq> []" "spec_app_url app = Some u"
  by (cases "Option.bind app repo_url") (auto simp: spec_app_url_def)

lemma override_branch_options_values:
  "get (override_branch_options app b) k = Undef \<or> (\<exists>s. get (override_branch_options app b) k = JStr s)"
  by (auto simp: override_branch_options_def Let_def get_add_if)

lemma abs_override_branch_options:
  "abs_options (override_branch_options app b) = spec_parse_override app b"
  by (rule app_url_cases [of app])
     (auto simp: override_branch_options_def spec_parse_override_def abs_options_def no_options_def
        strip_ref_heads strip_ref_tags Let_def get_add_if heads_not_tags)

lemma collapse_covered:
  assumes bo: "bo = override_branch_options app b"
    and cond: "(truthy (get bo K_branch) \<and> get bo K_branch = get d K_branch) \<or>
               (truthy (get bo K_tag) \<and> get bo K_tag = get d K_tag)"
    and url: "urlsReferTheSameGitHubRepo (js_of_opt (Option.bind app repo_url)) (get d K_base_repository_url)"
  shows "get bo k \<noteq> Undef \<Longrightarrow> get d k \<noteq> Undef"
proof -
  assume set: "get bo k \<noteq> Undef"
  have keys: "k \<in> {K_base_repository_url, K_branch, K_tag}"
    using set override_branch_options_keys [of app b] bo by (auto simp: is_set_def)
  have ex: "\<not> (get bo K_branch \<noteq> Undef \<and> get bo K_tag \<noteq> Undef)"
    using override_branch_options_exclusive [of app b] bo by (simp add: branch_tag_exclusive_def is_set_def)
  have base: "get d K_base_repository_url \<noteq> Undef"
    using url by auto
  from keys set cond ex base show "get d k \<noteq> Undef"
    by (auto dest: truthy_is_defined)
qed

lemma collapse_to_default_Some:
  "collapse_to_default app (Some d) b bo =
   (if b \<noteq> [] \<and>
       ((truthy (get bo K_branch) \<and> get bo K_branch = get d K_branch) \<or>
        (truthy (get bo K_tag) \<and> get bo K_tag = get d K_tag)) \<and>
       truthy (js_of_opt (Option.bind app repo_url)) \<and>
       urlsReferTheSameGitHubRepo (js_of_opt (Option.bind app repo_url)) (get d K_base_repository_url)
    then bo ++ d else bo)"
  by (simp only: collapse_to_default_def Let_def oget_simps option.case if_if_eq_conj conj_assoc)

lemma abs_options_branch_tag_base:
  "opt_branch (abs_options d) = str_of (get d K_branch)"
  "opt_tag (abs_options d) = str_of (get d K_tag)"
  "opt_base_repository_url (abs_options d) = str_of (get d K_base_repository_url)"
  by (simp_all add: abs_options_def)

lemma collapse_names:
  "((truthy (get (override_branch_options app b) K_branch) \<and>
     get (override_branch_options app b) K_branch = get d K_branch) \<or>
    (truthy (get (override_branch_options app b) K_tag) \<and>
     get (override_branch_options app b) K_tag = get d K_tag)) \<longleftrightarrow>
   ((case opt_branch (spec_parse_override app b) of
       Some br \<Rightarrow> br \<noteq> [] \<and> opt_branch (abs_options d) = Some br | None \<Rightarrow> False) \<or>
    (case opt_tag (spec_parse_override app b) of
       Some t \<Rightarrow> t \<noteq> [] \<and> opt_tag (abs_options d) = Some t | None \<Rightarrow> False))"
proof -
  have pb: "opt_branch (spec_parse_override app b) = str_of (get (override_branch_options app b) K_branch)"
    and pt: "opt_tag (spec_parse_override app b) = str_of (get (override_branch_options app b) K_tag)"
    by (simp_all only: abs_override_branch_options [symmetric] abs_options_branch_tag_base)
  show ?thesis
    by (simp only: pb pt abs_options_branch_tag_base
        truthy_eq_str_of [OF override_branch_options_values])
qed

lemma collapse_repo:
  "(truthy (js_of_opt (Option.bind app repo_url)) \<and>
    urlsReferTheSameGitHubRepo (js_of_opt (Option.bind app repo_url)) v) \<longleftrightarrow>
   (case spec_app_url app of
      Some u \<Rightarrow> urlsReferTheSameGitHubRepo (JStr u) (js_of_opt (str_of v))
    | None \<Rightarrow> False)"
proof (rule app_url_cases [of app])
  assume "Option.bind app repo_url = None" "spec_app_url app = None"
  then show ?thesis by simp
next
  assume "Option.bind app repo_url = Some []" "spec_app_url app = None"
  then show ?thesis by simp
next
  fix u assume "Option.bind app repo_url = Some u" "u \<noteq> []" "spec_app_url app = Some u"
  then show ?thesis by (simp add: urls_str_of [of u v])
qed

lemma abs_collapse_to_default:
  "abs_options (collapse_to_default app d b (override_branch_options app b)) =
   spec_collapse app (map_option abs_options d) b (spec_parse_override app b)"
proof (cases d)
  case None
  then show ?thesis
    by (simp add: collapse_to_default_def spec_collapse_def abs_override_branch_options Let_def)
next
  case (Some d')
  let ?bo = "override_branch_options app b"
  let ?appUrl = "js_of_opt (Option.bind app repo_url)"
  let ?P = "b \<noteq> [] \<and>
      ((truthy (get ?bo K_branch) \<and> get ?bo K_branch = get d' K_branch) \<or>
       (truthy (get ?bo K_tag) \<and> get ?bo K_tag = get d' K_tag)) \<and>
      truthy ?appUrl \<and> urlsReferTheSameGitHubRepo ?appUrl (get d' K_base_repository_url)"
  have spec: "spec_collapse app (map_option abs_options d) b (spec_parse_override app b) =
              (if ?P then abs_options d' else spec_parse_override app b)"
    using Some by (simp only: spec_collapse_def collapse_names [of app b d'] collapse_repo
        abs_options_branch_tag_base option.map option.case)
  show ?thesis
  proof (cases ?P)
    case True
    then have c: "(truthy (get ?bo K_branch) \<and> get ?bo K_branch = get d' K_branch) \<or>
        (truthy (get ?bo K_tag) \<and> get ?bo K_tag = get d' K_tag)"
      and u: "urlsReferTheSameGitHubRepo ?appUrl (get d' K_base_repository_url)"
      by (rule conjunct1 [OF conjunct2], rule conjunct2 [OF conjunct2 [OF conjunct2]])
    have eq: "abs_options (?bo ++ d') = abs_options d'"
      by (rule abs_options_cong, rule get_add_covered, rule collapse_covered [OF refl c u])
    show ?thesis
      unfolding spec unfolding Some collapse_to_default_Some if_P [OF True] by (rule eq)
  next
    case False
    show ?thesis
      unfolding spec unfolding Some collapse_to_default_Some if_not_P [OF False]
      by (rule abs_override_branch_options)
  qed
qed

lemma abs_narrow_to_commit:
  "abs_options (narrow_to_commit d c bo) = spec_narrow (map_option abs_options d) c (abs_options bo)"
proof -
  have "(JStr c \<noteq> oget d K_commit_hash) \<longleftrightarrow>
        (case map_option abs_options d of Some d' \<Rightarrow> opt_commit_hash d' \<noteq> Some c | None \<Rightarrow> True)"
    by (cases d) (auto simp: abs_options_def)
  then show ?thesis
    by (simp add: narrow_to_commit_def spec_narrow_def abs_options_def no_options_def)
qed

lemma abs_processOverrides:
  "abs_options (fst (processOverrides app d b c log)) = spec_override app (map_option abs_options d) b c"
  by (simp add: processOverrides_fst abs_narrow_to_commit abs_collapse_to_default spec_override_def)

lemma abs_finish:
  "abs_options (options ++
     [K_workflow_id \<mapsto> (if bitrise_workflow inp \<noteq> [] then JStr (bitrise_workflow inp) else Undef),
      K_pipeline_id \<mapsto> (if bitrise_pipeline inp \<noteq> [] then JStr (bitrise_pipeline inp) else Undef),
      K_skip_git_status_report \<mapsto> JBool (skip_git_status_report inp),
      K_environments \<mapsto> JEnvs envs]) = spec_finish inp envs (abs_options options)"
  by (simp add: abs_options_def spec_finish_def)

subsection \<open>The resolver against the code\<close>

lemma resolve_valid:
  "validateInputs inp = None \<Longrightarrow>
   resolve app inp ctx env =
     (let envs = prepareEnvironmentVariables (env_vars_for_bitrise inp) env;
          b = branch_override inp; c = commit_override inp
      in case payload ctx of
           None \<Rightarrow>
             if b \<noteq> [] \<or> c \<noteq> [] then Inr (spec_finish inp envs (spec_override app None b c))
             else Inl NoPayload
         | Some pl \<Rightarrow>
             if deleted pl then Inl DeletedEvent
             else if b \<noteq> [] \<or> c \<noteq> [] then
               Inr (spec_finish inp envs (spec_override app (Some (spec_base ctx pl)) b c))
             else case pull_request pl of
               Some pr \<Rightarrow>
                 if mergeable pr = Some False then Inl NotMergeable
                 else Inr (spec_finish inp (envs @ (if draft pr then [draftEnvironment] else []))
                        (spec_pull_request pr))
             | None \<Rightarrow> Inr (spec_finish inp envs (spec_base ctx pl)))"
proof -
  assume "validateInputs inp = None"
  then have "\<not> (bitrise_workflow inp = [] \<and> bitrise_pipeline inp = [])"
    "\<not> (bitrise_workflow inp \<noteq> [] \<and> bitrise_pipeline inp \<noteq> [])"
    "\<not> (bitrise_pipeline inp \<noteq> [] \<and> listen inp)"
    by (simp_all add: validateInputs_def Let_def split: if_splits)
  then show ?thesis
    unfolding resolve_def Let_def draftEnvironment_def by (simp only: if_False)
qed

lemma createBuildOptions_success:
  assumes v: "validateInputs inp = None"
    and sel: "selectOptions app inp ctx (prepareEnvironmentVariables (env_vars_for_bitrise inp) env) [] =
              (Some opts, es, l)"
    and ok: "\<not> has_failed l"
  shows "\<not> has_failed (snd (createBuildOptions app inp ctx env)) \<and>
         abs_options (fst (createBuildOptions app inp ctx env)) = spec_finish inp es (abs_options opts)"
  using ok by (simp only: createBuildOptions_valid [OF v sel] fst_conv snd_conv abs_finish
      repoMismatchWarning_no_failure simp_thms)

lemma resolve_invalid_message:
  "validateInputs inp = Some msg \<Longrightarrow> \<exists>e. resolve app inp ctx env = Inl e \<and> error_message e = msg"
  by (simp add: resolve_def validateInputs_def Let_def split: if_splits)

lemma step_logs_grow:
  "set l \<subseteq> set (snd (transformBasicEvent ctx p l))"
  "set l \<subseteq> set (snd (transformPullRequestEvent pr l))"
  "set l \<subseteq> set (snd (processOverrides app d b c l))"
  by (auto simp: transformBasicEvent_log transformPullRequestEvent_log processOverrides_def Let_def
      setFailed_def warning_def)

lemma eventDefaults_log: "set l \<subseteq> set (snd (eventDefaults ctx l))"
  by (cases "payload ctx") (simp_all add: eventDefaults_def prod.case_eq_if step_logs_grow)

lemma selectOptions_log:
  "set (snd (eventDefaults ctx l)) \<subseteq> set (snd (snd (selectOptions app inp ctx envs l)))"
  by (cases "Option.bind (payload ctx) pull_request")
     (simp_all add: selectOptions_def Let_def prod.case_eq_if step_logs_grow)

lemma createBuildOptions_log_grows:
  assumes v: "validateInputs inp = None"
  shows "set (snd (snd (selectOptions app inp ctx (prepareEnvironmentVariables (env_vars_for_bitrise inp) env) [])))
         \<subseteq> set (snd (createBuildOptions app inp ctx env))"
  using v by (auto simp: createBuildOptions_def repoMismatchWarning_def Let_def setFailed_def warning_def
      split: prod.splits option.splits)

lemma cbo_override_case:
  assumes v: "validateInputs inp = None"
    and o: "branch_override inp \<noteq> [] \<or> commit_override inp \<noteq> []"
    and ev: "eventDefaults ctx [] = (d, [])"
  shows "\<not> has_failed (snd (createBuildOptions app inp ctx env)) \<and>
         abs_options (fst (createBuildOptions app inp ctx env)) =
           spec_finish inp (prepareEnvironmentVariables (env_vars_for_bitrise inp) env)
             (spec_override app (map_option abs_options d) (branch_override inp) (commit_override inp))"
proof -
  let ?po = "processOverrides app d (branch_override inp) (commit_override inp) []"
  have sel: "selectOptions app inp ctx (prepareEnvironmentVariables (env_vars_for_bitrise inp) env) [] =
      (Some (fst ?po), prepareEnvironmentVariables (env_vars_for_bitrise inp) env, snd ?po)"
    by (rule selectOptions_override_eq [OF o ev])
  show ?thesis
    using createBuildOptions_success [OF v sel]
    by (simp add: processOverrides_no_failure abs_processOverrides)
qed

lemma cbo_failure_logged:
  assumes v: "validateInputs inp = None"
    and m: "Failed m \<in> set (snd (eventDefaults ctx []))"
  shows "Failed m \<in> set (snd (createBuildOptions app inp ctx env))"
  using m selectOptions_log createBuildOptions_log_grows [OF v] by blast

lemma cbo_no_override_pr_case:
  assumes v: "validateInputs inp = None"
    and o: "branch_override inp = []" "commit_override inp = []"
    and pl: "payload ctx = Some pl" "\<not> deleted pl" "pull_request pl = Some pr"
  shows "if mergeable pr = Some False
         then Failed ''Pull Request is not mergeable'' \<in> set (snd (createBuildOptions app inp ctx env))
         else \<not> has_failed (snd (createBuildOptions app inp ctx env)) \<and>
              abs_options (fst (createBuildOptions app inp ctx env)) =
                spec_finish inp (prepareEnvironmentVariables (env_vars_for_bitrise inp) env @
                                 (if draft pr then [draftEnvironment] else []))
                  (spec_pull_request pr)"
proof -
  let ?envs = "prepareEnvironmentVariables (env_vars_for_bitrise inp) env"
  have ev: "snd (eventDefaults ctx []) = []"
    using eventDefaults_event [OF pl(1,2)] by simp
  have sel: "selectOptions app inp ctx ?envs [] =
      (Some (fst (transformPullRequestEvent pr [])),
       if draft pr then ?envs @ [draftEnvironment] else ?envs,
       snd (transformPullRequestEvent pr []))"
    using selectOptions_pull_request [OF o pl(1,3)] ev by (simp add: prod.case_eq_if)
  show ?thesis
  proof (cases "mergeable pr = Some False")
    case True
    then have "Failed ''Pull Request is not mergeable'' \<in> set (snd (snd (selectOptions app inp ctx ?envs [])))"
      by (simp add: sel transformPullRequestEvent_log setFailed_def)
    with True show ?thesis using createBuildOptions_log_grows [OF v] by auto
  next
    case False
    have "snd (transformPullRequestEvent pr []) = []"
      using False by (simp add: transformPullRequestEvent_log)
    then show ?thesis
      using False createBuildOptions_success [OF v sel] abs_transformPullRequestEvent [OF False]
      by simp
  qed
qed

lemma cbo_no_override_event_case:
  assumes v: "validateInputs inp = None"
    and o: "branch_override inp = []" "commit_override inp = []"
    and pl: "payload ctx = Some pl" "\<not> deleted pl" "pull_request pl = None"
  shows "\<not> has_failed (snd (createBuildOptions app inp ctx env)) \<and>
         abs_options (fst (createBuildOptions app inp ctx env)) =
           spec_finish inp (prepareEnvironmentVariables (env_vars_for_bitrise inp) env) (spec_base ctx pl)"
proof -
  let ?envs = "prepareEnvironmentVariables (env_vars_for_bitrise inp) env"
  have sel: "selectOptions app inp ctx ?envs [] = (Some (fst (transformBasicEvent ctx pl [])), ?envs, [])"
    using selectOptions_event [OF o] pl eventDefaults_event [OF pl(1,2)] by simp
  show ?thesis
    using createBuildOptions_success [OF v sel] abs_transformBasicEvent [OF pl(2)] by simp
qed

lemma cbo_no_payload_case:
  assumes v: "validateInputs inp = None"
    and o: "branch_override inp = []" "commit_override inp = []"
    and pl: "payload ctx = None"
  shows "Failed ''No payload found in the context.'' \<in> set (snd (createBuildOptions app inp ctx env))"
proof -
  have "selectOptions app inp ctx (prepareEnvironmentVariables (env_vars_for_bitrise inp) env) [] =
        (None, prepareEnvironmentVariables (env_vars_for_bitrise inp) env, [])"
    using selectOptions_event [OF o] pl by (simp add: eventDefaults_def)
  then show ?thesis by (simp add: createBuildOptions_no_options [OF v] setFailed_def)
qed

lemma cbo_deleted_case:
  assumes v: "validateInputs inp = None" and pl: "payload ctx = Some pl" "deleted pl"
  shows "Failed ''this is a 'Deleted' event, no build can be started'' \<in> set (snd (createBuildOptions app inp ctx env))"
  using pl by (intro cbo_failure_logged [OF v])
     (simp add: eventDefaults_def transformBasicEvent_deleted setFailed_def)

end
