(* ===== verification/Spec2Isabelle.thy ===== *)
theory Spec2Isabelle
  imports Fixtures Typing Provenance Refinement
begin

text \<open>
  \<^bold>\<open>A verified model of the build-option resolver of bitrise-run-build.\<close>

  \<^bold>\<open>The program.\<close> \<open>src/src/bitrise/options.ts\<close> turns the GitHub Actions event
  that triggered a run into the source options of a Bitrise build request. Its entry
  point \<open>createBuildOptions\<close> validates the workflow/pipeline/listen inputs, computes
  the event's own options with \<open>transformBasicEvent\<close> (push and tag events), and then
  picks, in this precedence, \<open>processOverrides\<close> (a branch or commit override is given),
  \<open>transformPullRequestEvent\<close> (a pull-request event) or the event's own options; it
  finally cross-checks the app's repository URL (\<open>urlsReferTheSameGitHubRepo\<close>, from
  \<open>src/utils\<close>) and adds the workflow or pipeline id, the status-report flag and the
  environment variables passed through by \<open>prepareEnvironmentVariables\<close>.
  \<open>getRepositoryURL\<close> and \<open>getPrReadyState\<close> are helpers; \<open>getActorUsername\<close> is a
  separate export. The components talk only through values: JavaScript objects built
  by object literals and spread, and the \<open>@actions/core\<close> log.

  \<^bold>\<open>How the model corresponds to the code.\<close>
  \<^item> \<open>Prelude\<close>: the JavaScript string builtins the code calls (\<open>startsWith\<close>,
    \<open>slice\<close>, \<open>trim\<close>, \<open>split\<close>, \<open>join\<close>), decimal printing of numbers in
    template literals (\<open>show_nat\<close>), the
    \<open>js_simps\<close> collection.
  \<^item> \<open>Types\<close>: the records of \<open>types.ts\<close> (not among the sources; modelled from their
    use) and the value model of a \<open>Record<string, any>\<close>: an object is a map
    \<open>okey \<rightharpoonup> jsval\<close>, a key present with \<open>undefined\<close> is \<open>Some Undef\<close>, spread
    \<open>{...a, ...b}\<close> is \<open>a ++ b\<close>, property access is \<open>get\<close>, \<open>if (x)\<close> is
    \<open>truthy\<close>. The invariant \<open>branch_tag_exclusive\<close> is spec \<section>3's "branch and tag
    never both set". The keys are an \<open>enum\<close> instance, so a property of every key is
    executable; \<open>well_typed\<close> says that every property of an object has the type
    \<open>BitriseBuildOptions\<close> declares for it (\<open>key_type\<close>, \<open>has_type\<close>).
  \<^item> \<open>Runtime\<close>: the collaborators: the inputs as \<open>core.getInput\<close> returns them, the
    event context and payload as records, and the log. \<open>core.setFailed\<close> does not
    throw, so a failure is a \<open>Failed\<close> entry appended to the log and the code goes
    on exactly as the source does; \<open>has_failed\<close> reads the exit status.
  \<^item> \<open>RepoUrl\<close>: \<open>getRepositoryURL\<close>, and \<open>urlsReferTheSameGitHubRepo\<close> modelled
    from spec \<section>4.2 (owner/name comparison ignoring scheme, host, case and
    \<open>.git\<close>), since \<open>src/utils\<close> is not among the sources.
  \<^item> \<open>BasicEvent\<close>: \<open>transformBasicEvent\<close>, its commit list (\<open>event_commits\<close>) and
    its loop (\<open>collect_commits\<close>, proved equal to two \<open>map\<close>s).
  \<^item> \<open>PullRequest\<close>: \<open>transformPullRequestEvent\<close>, \<open>pr_commit_message\<close>,
    \<open>getPrReadyState\<close>.
  \<^item> \<open>Overrides\<close>: \<open>processOverrides\<close> as the composition of its three steps
    \<open>override_branch_options\<close>, \<open>collapse_to_default\<close> and \<open>narrow_to_commit\<close>.
  \<^item> \<open>EnvVars\<close>: \<open>prepareEnvironmentVariables\<close> with \<open>envPassThrough\<close>.
  \<^item> \<open>BuildOptions\<close>: \<open>createBuildOptions\<close> split at its phases
    (\<open>validateInputs\<close>, \<open>eventDefaults\<close>, \<open>selectOptions\<close>,
    \<open>repoMismatchWarning\<close>), and \<open>getActorUsername\<close>.
  \<^item> \<open>Typing\<close>: one preservation lemma of \<open>well_typed\<close> per operation that builds an
    object, collected in \<open>wt_intros\<close>.
  \<^item> \<open>Provenance\<close>: what the result depends on: the context only through its ref,
    sha and payload (\<open>selectOptions_ctx\<close>), where its commit hash, its branch and
    its tag come from, one lemma per operation (\<open>selectOptions_commit\<close>,
    \<open>selectOptions_branch_tag\<close>), and where its environment entries come from
    (\<open>selectOptions_envs\<close>).
  \<^item> \<open>Refinement\<close>: the contract of spec \<section>3--\<section>4 and \<section>7 in typed form. The
    build options are a record \<open>BuildOptions\<close> of optional fields, the fatal errors
    a datatype \<open>ConfigError\<close> with the message each is reported with
    (\<open>error_message\<close>), and \<open>resolve\<close> is the resolver the spec describes,
    returning \<open>ConfigError + BuildOptions\<close> with every fatal error
    short-circuiting. \<open>abs_options\<close> reads the code's JavaScript object as such a
    record, an absent list or flag being distinguished from an empty one. The theory proves one functional refinement lemma per transform and per
    override step (\<open>abs_transformBasicEvent\<close>, \<open>abs_transformPullRequestEvent\<close>,
    \<open>abs_override_branch_options\<close>, \<open>abs_collapse_to_default\<close>,
    \<open>abs_narrow_to_commit\<close>) and one lemma per path of \<open>createBuildOptions\<close>.
  \<^item> \<open>Fixtures\<close>: concrete events the witnesses run on.
  Every definition is executable; witnesses evaluate the model on the fixtures with
  \<open>code_simp\<close>. There are no unbounded loops: the only iterations are over finite
  lists (the commits, the environment), so no fuel or \<open>partial_function\<close> is needed,
  and \<open>show_nat\<close> terminates by \<open>fun\<close>'s own measure.

  \<^bold>\<open>What is proved.\<close> The main theorem, \<open>cbo_refines_resolve\<close>, is a refinement
  of the whole resolver. On every input, where \<open>resolve\<close> gives an error,
  \<open>createBuildOptions\<close> logs exactly that error's \<open>setFailed\<close> message. Where
  \<open>resolve\<close> gives build options, the run does not fail and the object it returns
  reads as those options. Every result is also well typed (\<open>cbo_well_typed\<close>):
  each property has the type \<open>BitriseBuildOptions\<close> declares for it. The result
  does not depend on the event name or actor (\<open>cbo_context_independent\<close>, in the
  noninterference form of two runs on contexts that agree on what is read), and its
  commit hash, branch and tag are always ones the event or the user named
  (\<open>cbo_commit_provenance\<close>, \<open>cbo_branch_tag_provenance\<close>);
  no environment variable beyond the allow-list is ever sent
  (\<open>cbo_environments_allow_listed\<close>).
  The component theories prove the per-key behaviour of each
  transform (\<open>transformBasicEvent_get\<close>, \<open>transformPullRequestEvent_get\<close>), that each
  transform keeps \<open>branch_tag_exclusive\<close>, which keys each may set, and the path
  lemmas of \<open>selectOptions\<close>. The claims below, and those in \<open>Overrides\<close>,
  \<open>EnvVars\<close> and \<open>PullRequest\<close>, state the spec's testable properties
  (\<section>8.1--8.7) of the whole resolver: merge refs and tri-state mergeability, branch
  and tag extraction, collapse-to-default as an equality of two runs, the commit
  override with and without narrowing, the configuration errors, the invariants
  (exactly one of workflow and pipeline, never branch and tag together), precedence of
  overrides over pull requests, the environment pass-through, the equivalence of the commit loop with its specification, the
  exact log of push, pull-request and override runs (the repository cross-check warning
  and its text, the \<open>bitrise-token\<close> recommendation), and the sources and the error path of \<open>getActorUsername\<close>. Three
  claims record where the code and the spec part: a deleted
  ref and an unmergeable pull request fail the run but still return options, and a
  commit override alone drops the event's branch. A fourth shows that after a
  deleted ref, as after an unmergeable pull request, the cross-check warns against
  the URL \<open>undefined\<close>. Two more settle what the spec leaves open: the pull-request
  path is chosen by the payload, not by the event kind, and an override naming the
  pushed branch of another repository silently drops the event's metadata
  (spec \<section>9's open question); an empty commit list is kept apart from an absent one.

  \<^bold>\<open>Not modelled.\<close> The imports and the \<open>core.info\<close> calls of \<open>options.ts\<close>
  (lines 1--13, 38, 90--92), which only print; \<open>core.getInput\<close>'s trimming and
  \<open>core.getBooleanInput\<close>'s parsing and throwing, which belong to \<open>@actions/core\<close>
  (the inputs enter already read); \<open>urlsReferTheSameGitHubRepo\<close> from
  \<open>src/utils\<close> and the interfaces of \<open>types.ts\<close>, which are not among the
  sources and are modelled from the spec and from their use, so those two
  components stay partly modelled; the Bitrise API client and the action entry
  point, which are not among the sources. Characters are bytes: \<open>trim\<close> removes
  ASCII whitespace only.

  \<^bold>\<open>Plan.\<close> Done: all of \<open>options.ts\<close> is modelled; the whole resolver is
  proved to refine the typed specification \<open>resolve\<close>, every result is well typed
  and read without loss, the log of every path is known exactly, and the context
  dependence and the provenance of commit, branch, tag and environments are proved.
  What remains lies outside the sources: \<open>src/utils\<close> (repository identity, here
  from spec \<section>4.2), \<open>types.ts\<close>, and the runtime libraries. The kinds
  \<open>termination\<close> and \<open>liveness\<close> have no counterpart in the code: its only loops run
  over finite lists (so every definition is total by \<open>fun\<close> or structural
  recursion), and it serves no requests.
\<close>

section \<open>The resolver refines its specification\<close>

text \<open>C1: On every input, \<open>createBuildOptions\<close> implements the typed resolver of the
  spec. Where the spec's resolver reports a fatal error, the code's log contains that
  error's \<open>setFailed\<close> message. Where it yields build options, the run does not fail,
  and the object the code returns, read as a \<open>BuildOptions\<close> record, is those options.\<close>

theorem cbo_refines_resolve:
  "(case resolve app inp ctx env of
      Inl e \<Rightarrow> Failed (error_message e) \<in> set (snd (createBuildOptions app inp ctx env))
    | Inr opts \<Rightarrow> \<not> has_failed (snd (createBuildOptions app inp ctx env)) \<and>
                  abs_options (fst (createBuildOptions app inp ctx env)) = opts)"
proof (cases "validateInputs inp")
  case (Some msg)
  then obtain e where "resolve app inp ctx env = Inl e" "error_message e = msg"
    using resolve_invalid_message by blast
  with Some show ?thesis by (simp add: createBuildOptions_invalid)
next
  case None
  note r = resolve_valid [OF None, of app ctx env]
  show ?thesis
  proof (cases "payload ctx")
    case pn: None
    show ?thesis
    proof (cases "branch_override inp \<noteq> [] \<or> commit_override inp \<noteq> []")
      case True
      have "eventDefaults ctx [] = (None, [])" using pn by (simp add: eventDefaults_def)
      from cbo_override_case [OF None True this] True pn show ?thesis by (simp add: r)
    next
      case False
      with cbo_no_payload_case [OF None _ _ pn] pn show ?thesis by (simp add: r)
    qed
  next
    case (Some pl)
    show ?thesis
    proof (cases "deleted pl")
      case True
      with cbo_deleted_case [OF None Some True] Some show ?thesis by (simp add: r)
    next
      case nd: False
      show ?thesis
      proof (cases "branch_override inp \<noteq> [] \<or> commit_override inp \<noteq> []")
        case True
        from cbo_override_case [OF None True eventDefaults_event [OF Some nd]]
          abs_transformBasicEvent [OF nd] True Some nd
        show ?thesis by (simp add: r)
      next
        case False
        then have o: "branch_override inp = []" "commit_override inp = []" by simp_all
        show ?thesis
        proof (cases "pull_request pl")
          case pr0: None
          from cbo_no_override_event_case [OF None o Some nd pr0] o Some nd pr0
          show ?thesis by (simp add: r)
        next
          case (Some pr)
          from cbo_no_override_pr_case [OF None o \<open>payload ctx = Some pl\<close> nd Some] o
            \<open>payload ctx = Some pl\<close> nd Some
          show ?thesis by (simp add: r split: if_splits)
        qed
      qed
    qed
  qed
qed

section \<open>The result conforms to its type\<close>

text \<open>C2: On every input, the object \<open>createBuildOptions\<close> returns conforms to
  \<open>BitriseBuildOptions\<close>: every property has its declared type (strings, the
  commit-message and commit-path lists, a numeric pull-request id, a boolean
  status-report flag, the environment entries) or is undefined.\<close>

theorem cbo_well_typed: "well_typed (fst (createBuildOptions app inp ctx env))"
  using createBuildOptions_shape [of app inp ctx env]
    selectOptions_well_typed [of app inp ctx "prepareEnvironmentVariables (env_vars_for_bitrise inp) env" "[]"]
  by (auto intro!: wt_intros)

section \<open>Pull-request events\<close>

text \<open>C3: For a pull-request event with no override and a configuration that passes
  validation, the result offers \<open>pull/<number>/merge\<close> as the unverified merge
  branch, and it sets the merge branch exactly when GitHub has computed mergeability
  (\<open>mergeable\<close> is not \<open>null\<close>); spec \<section>8.1.\<close>

theorem cbo_pull_request_merge_branch:
  assumes valid: "validateInputs inp = None"
    and no_override: "branch_override inp = []" "commit_override inp = []"
    and pr: "payload ctx = Some pl" "pull_request pl = Some pr"
    and ok: "mergeable pr \<noteq> Some False"
  shows "get (fst (createBuildOptions app inp ctx env)) K_pull_request_unverified_merge_branch =
           JStr (''pull/'' @ show_nat (number pr) @ ''/merge'') \<and>
         (is_set (fst (createBuildOptions app inp ctx env)) K_pull_request_merge_branch \<longleftrightarrow>
           mergeable pr \<noteq> None)"
  using createBuildOptions_get [OF valid selectOptions_pr_fst [OF no_override pr]] ok
  by (simp add: is_set_def transformPullRequestEvent_get)

theorem cbo_pull_request_merge_branch_witness:
  "validateInputs fx_inputs = None \<and> branch_override fx_inputs = [] \<and> commit_override fx_inputs = [] \<and>
   payload fx_pr_ctx = Some fx_pr_payload \<and> pull_request fx_pr_payload = Some fx_pr \<and>
   mergeable fx_pr \<noteq> Some False \<and>
   get (fst (createBuildOptions None fx_inputs fx_pr_ctx [])) K_pull_request_unverified_merge_branch =
     JStr (''pull/'' @ show_nat (number fx_pr) @ ''/merge'') \<and>
   (is_set (fst (createBuildOptions None fx_inputs fx_pr_ctx [])) K_pull_request_merge_branch \<longleftrightarrow>
     mergeable fx_pr \<noteq> None)"
proof -
  have h: "validateInputs fx_inputs = None" "branch_override fx_inputs = []" "commit_override fx_inputs = []"
    "payload fx_pr_ctx = Some fx_pr_payload" "pull_request fx_pr_payload = Some fx_pr"
    "mergeable fx_pr \<noteq> Some False"
    by code_simp+
  show ?thesis using cbo_pull_request_merge_branch [OF h] h by simp
qed

text \<open>C4: A pull request that GitHub reports as not mergeable fails the run; the
  options it contributes are empty, so the result carries only the workflow or
  pipeline, the status-report flag and the environments.\<close>

theorem cbo_pull_request_unmergeable:
  assumes valid: "validateInputs inp = None"
    and no_override: "branch_override inp = []" "commit_override inp = []"
    and pr: "payload ctx = Some pl" "pull_request pl = Some pr"
    and unmergeable: "mergeable pr = Some False"
  shows "has_failed (snd (createBuildOptions app inp ctx env)) \<and>
         {k. is_set (fst (createBuildOptions app inp ctx env)) k} \<subseteq>
           {K_workflow_id, K_pipeline_id, K_skip_git_status_report, K_environments}"
proof -
  let ?envs = "prepareEnvironmentVariables (env_vars_for_bitrise inp) env"
  have sel: "fst (selectOptions app inp ctx ?envs []) = Some Map.empty"
    using selectOptions_pr_fst [OF no_override pr] unmergeable
    by (simp add: transformPullRequestEvent_unmergeable)
  have "has_failed (snd (snd (selectOptions app inp ctx ?envs [])))"
    using selectOptions_pr_snd [OF no_override pr] unmergeable
    by (simp add: transformPullRequestEvent_unmergeable)
  then have "has_failed (snd (createBuildOptions app inp ctx env))"
    using createBuildOptions_log [OF valid] by blast
  moreover have "{k. is_set (fst (createBuildOptions app inp ctx env)) k} \<subseteq>
      {K_workflow_id, K_pipeline_id, K_skip_git_status_report, K_environments}"
    using createBuildOptions_get [OF valid sel] by (auto simp: is_set_def)
  ultimately show ?thesis by blast
qed

theorem cbo_pull_request_unmergeable_witness:
  "validateInputs fx_inputs = None \<and> branch_override fx_inputs = [] \<and> commit_override fx_inputs = [] \<and>
   payload (fx_pr_ctx\<lparr>payload := Some (fx_pr_payload\<lparr>pull_request := Some (fx_pr\<lparr>mergeable := Some False\<rparr>)\<rparr>)\<rparr>) =
     Some (fx_pr_payload\<lparr>pull_request := Some (fx_pr\<lparr>mergeable := Some False\<rparr>)\<rparr>) \<and>
   pull_request (fx_pr_payload\<lparr>pull_request := Some (fx_pr\<lparr>mergeable := Some False\<rparr>)\<rparr>) =
     Some (fx_pr\<lparr>mergeable := Some False\<rparr>) \<and>
   mergeable (fx_pr\<lparr>mergeable := Some False\<rparr>) = Some False \<and>
   has_failed (snd (createBuildOptions None fx_inputs
     (fx_pr_ctx\<lparr>payload := Some (fx_pr_payload\<lparr>pull_request := Some (fx_pr\<lparr>mergeable := Some False\<rparr>)\<rparr>)\<rparr>) [])) \<and>
   {k. is_set (fst (createBuildOptions None fx_inputs
      (fx_pr_ctx\<lparr>payload := Some (fx_pr_payload\<lparr>pull_request := Some (fx_pr\<lparr>mergeable := Some False\<rparr>)\<rparr>)\<rparr>) [])) k} \<subseteq>
      {K_workflow_id, K_pipeline_id, K_skip_git_status_report, K_environments}"
proof -
  have h: "validateInputs fx_inputs = None" "branch_override fx_inputs = []" "commit_override fx_inputs = []"
    "payload (fx_pr_ctx\<lparr>payload := Some (fx_pr_payload\<lparr>pull_request := Some (fx_pr\<lparr>mergeable := Some False\<rparr>)\<rparr>)\<rparr>) =
       Some (fx_pr_payload\<lparr>pull_request := Some (fx_pr\<lparr>mergeable := Some False\<rparr>)\<rparr>)"
    "pull_request (fx_pr_payload\<lparr>pull_request := Some (fx_pr\<lparr>mergeable := Some False\<rparr>)\<rparr>) =
       Some (fx_pr\<lparr>mergeable := Some False\<rparr>)"
    "mergeable (fx_pr\<lparr>mergeable := Some False\<rparr>) = Some False"
    by code_simp+
  show ?thesis using cbo_pull_request_unmergeable [OF h] h by simp
qed

text \<open>C19: The ready state of a pull request is \<open>converted_to_ready_for_review\<close>
  when the pull request's \<open>action\<close> is \<open>ready_for_review\<close>, else \<open>draft\<close> for a
  draft, else \<open>ready_for_review\<close>; a draft also appends the environment entry
  \<open>GITHUB_PR_IS_DRAFT=true\<close> (not expanded) after the passed-through ones
  (spec \<section>8.5).\<close>

theorem cbo_pull_request_ready_state:
  assumes valid: "validateInputs inp = None"
    and no_override: "branch_override inp = []" "commit_override inp = []"
    and pr: "payload ctx = Some pl" "pull_request pl = Some pr"
    and ok: "mergeable pr \<noteq> Some False"
  shows "get (fst (createBuildOptions app inp ctx env)) K_pull_request_ready_state =
           JStr (if action pr = Some ''ready_for_review'' then ''converted_to_ready_for_review''
                 else if draft pr then ''draft'' else ''ready_for_review'') \<and>
         get (fst (createBuildOptions app inp ctx env)) K_environments =
           JEnvs (prepareEnvironmentVariables (env_vars_for_bitrise inp) env @
                  (if draft pr then [\<lparr>mapped_to = ''GITHUB_PR_IS_DRAFT'', env_value = ''true'', is_expand = False\<rparr>]
                   else []))"
  using createBuildOptions_get [OF valid selectOptions_pr_fst [OF no_override pr]]
    selectOptions_pr_snd [OF no_override pr] ok
  by (simp add: transformPullRequestEvent_get getPrReadyState_def draftEnvironment_def)

theorem cbo_pull_request_ready_state_witness:
  "validateInputs fx_inputs = None \<and> branch_override fx_inputs = [] \<and> commit_override fx_inputs = [] \<and>
   payload fx_pr_ctx = Some fx_pr_payload \<and> pull_request fx_pr_payload = Some fx_pr \<and>
   mergeable fx_pr \<noteq> Some False \<and>
   get (fst (createBuildOptions None fx_inputs fx_pr_ctx [(''A'', Some ''1'')])) K_pull_request_ready_state =
     JStr (if action fx_pr = Some ''ready_for_review'' then ''converted_to_ready_for_review''
           else if draft fx_pr then ''draft'' else ''ready_for_review'') \<and>
   get (fst (createBuildOptions None fx_inputs fx_pr_ctx [(''A'', Some ''1'')])) K_environments =
     JEnvs (prepareEnvironmentVariables (env_vars_for_bitrise fx_inputs) [(''A'', Some ''1'')] @
            (if draft fx_pr then [\<lparr>mapped_to = ''GITHUB_PR_IS_DRAFT'', env_value = ''true'', is_expand = False\<rparr>]
             else []))"
proof -
  have h: "validateInputs fx_inputs = None" "branch_override fx_inputs = []" "commit_override fx_inputs = []"
    "payload fx_pr_ctx = Some fx_pr_payload" "pull_request fx_pr_payload = Some fx_pr"
    "mergeable fx_pr \<noteq> Some False"
    by code_simp+
  show ?thesis using cbo_pull_request_ready_state [OF h] h by simp
qed

text \<open>C20: On a pull-request event the commit is the head commit, the branch the head
  ref (no tag), the destination the base ref, the commit message the title followed by
  a blank line and the body when the body is not empty, the pull-request id its
  number, and the head and base repository URLs those of the head and base
  repositories.\<close>

theorem cbo_pull_request_fields:
  assumes valid: "validateInputs inp = None"
    and no_override: "branch_override inp = []" "commit_override inp = []"
    and pr: "payload ctx = Some pl" "pull_request pl = Some pr"
    and ok: "mergeable pr \<noteq> Some False"
    and hd: "head pr = Some h" and bs: "base pr = Some b"
  shows "get (fst (createBuildOptions app inp ctx env)) K_commit_hash = js_of_opt (pr_sha h) \<and>
         get (fst (createBuildOptions app inp ctx env)) K_branch = js_of_opt (pr_ref h) \<and>
         \<not> is_set (fst (createBuildOptions app inp ctx env)) K_tag \<and>
         get (fst (createBuildOptions app inp ctx env)) K_branch_dest = js_of_opt (pr_ref b) \<and>
         get (fst (createBuildOptions app inp ctx env)) K_commit_message =
           JStr (title pr @ (case body pr of Some bd \<Rightarrow> if bd \<noteq> [] then [CHR 0x0A, CHR 0x0A] @ bd else []
                                        | None \<Rightarrow> [])) \<and>
         get (fst (createBuildOptions app inp ctx env)) K_pull_request_id = JNum (number pr) \<and>
         get (fst (createBuildOptions app inp ctx env)) K_head_repository_url =
           js_of_opt (getRepositoryURL (pr_repo h)) \<and>
         get (fst (createBuildOptions app inp ctx env)) K_base_repository_url =
           js_of_opt (getRepositoryURL (pr_repo b))"
  using createBuildOptions_get [OF valid selectOptions_pr_fst [OF no_override pr]] ok hd bs
  by (simp add: is_set_def transformPullRequestEvent_get pr_commit_message_def split: option.splits)

theorem cbo_pull_request_fields_witness:
  "validateInputs fx_inputs = None \<and> branch_override fx_inputs = [] \<and> commit_override fx_inputs = [] \<and>
   payload fx_pr_ctx = Some fx_pr_payload \<and> pull_request fx_pr_payload = Some fx_pr \<and>
   mergeable fx_pr \<noteq> Some False \<and> head fx_pr = Some fx_head \<and> base fx_pr = Some fx_base \<and>
   get (fst (createBuildOptions None fx_inputs fx_pr_ctx [])) K_commit_hash = js_of_opt (pr_sha fx_head) \<and>
   get (fst (createBuildOptions None fx_inputs fx_pr_ctx [])) K_branch = js_of_opt (pr_ref fx_head) \<and>
   \<not> is_set (fst (createBuildOptions None fx_inputs fx_pr_ctx [])) K_tag \<and>
   get (fst (createBuildOptions None fx_inputs fx_pr_ctx [])) K_branch_dest = js_of_opt (pr_ref fx_base) \<and>
   get (fst (createBuildOptions None fx_inputs fx_pr_ctx [])) K_commit_message =
     JStr (title fx_pr @ (case body fx_pr of Some bd \<Rightarrow> if bd \<noteq> [] then [CHR 0x0A, CHR 0x0A] @ bd else []
                                        | None \<Rightarrow> [])) \<and>
   get (fst (createBuildOptions None fx_inputs fx_pr_ctx [])) K_pull_request_id = JNum (number fx_pr) \<and>
   get (fst (createBuildOptions None fx_inputs fx_pr_ctx [])) K_head_repository_url =
     js_of_opt (getRepositoryURL (pr_repo fx_head)) \<and>
   get (fst (createBuildOptions None fx_inputs fx_pr_ctx [])) K_base_repository_url =
     js_of_opt (getRepositoryURL (pr_repo fx_base))"
proof -
  have h: "validateInputs fx_inputs = None" "branch_override fx_inputs = []" "commit_override fx_inputs = []"
    "payload fx_pr_ctx = Some fx_pr_payload" "pull_request fx_pr_payload = Some fx_pr"
    "mergeable fx_pr \<noteq> Some False" "head fx_pr = Some fx_head" "base fx_pr = Some fx_base"
    by code_simp+
  show ?thesis using cbo_pull_request_fields [OF h] h by simp
qed

section \<open>Push and tag events\<close>

text \<open>C5: A push to \<open>refs/heads/<b>\<close> (not deleted, no pull request, no override)
  yields branch \<open>b\<close> and no tag, the pushed commit as commit hash, and the messages
  and paths of the pushed commits, one entry per commit in push order (spec \<section>8.2).\<close>

theorem cbo_push_branch:
  assumes valid: "validateInputs inp = None"
    and no_override: "branch_override inp = []" "commit_override inp = []"
    and push: "payload ctx = Some pl" "pull_request pl = None" "\<not> deleted pl"
    and r: "ref ctx = ''refs/heads/'' @ b"
  shows "get (fst (createBuildOptions app inp ctx env)) K_branch = JStr b \<and>
         \<not> is_set (fst (createBuildOptions app inp ctx env)) K_tag \<and>
         get (fst (createBuildOptions app inp ctx env)) K_commit_hash = JStr (sha ctx) \<and>
         get (fst (createBuildOptions app inp ctx env)) K_commit_messages =
           JStrs (map message (event_commits pl)) \<and>
         get (fst (createBuildOptions app inp ctx env)) K_commit_paths =
           JPaths (map commit_paths_of (event_commits pl))"
proof -
  from r have "startsWith (ref ctx) ''refs/heads/''" and "slice (ref ctx) 11 = b"
    by (simp_all add: startsWith_def slice_def)
  with createBuildOptions_get [OF valid selectOptions_event_fst [OF no_override push(1,2)]] push(3)
  show ?thesis by (simp add: is_set_def transformBasicEvent_get)
qed

theorem cbo_push_branch_witness:
  "validateInputs fx_inputs = None \<and> branch_override fx_inputs = [] \<and> commit_override fx_inputs = [] \<and>
   payload fx_push = Some fx_push_payload \<and> pull_request fx_push_payload = None \<and>
   \<not> deleted fx_push_payload \<and> ref fx_push = ''refs/heads/'' @ ''main'' \<and>
   get (fst (createBuildOptions None fx_inputs fx_push [])) K_branch = JStr ''main'' \<and>
   \<not> is_set (fst (createBuildOptions None fx_inputs fx_push [])) K_tag \<and>
   get (fst (createBuildOptions None fx_inputs fx_push [])) K_commit_hash = JStr (sha fx_push) \<and>
   get (fst (createBuildOptions None fx_inputs fx_push [])) K_commit_messages =
     JStrs (map message (event_commits fx_push_payload)) \<and>
   get (fst (createBuildOptions None fx_inputs fx_push [])) K_commit_paths =
     JPaths (map commit_paths_of (event_commits fx_push_payload))"
proof -
  have h: "validateInputs fx_inputs = None" "branch_override fx_inputs = []" "commit_override fx_inputs = []"
    "payload fx_push = Some fx_push_payload" "pull_request fx_push_payload = None"
    "\<not> deleted fx_push_payload" "ref fx_push = ''refs/heads/'' @ ''main''"
    by code_simp+
  show ?thesis using cbo_push_branch [OF h] h by simp
qed

text \<open>C7: A push of \<open>refs/tags/<t>\<close> yields tag \<open>t\<close>, no branch, and no commit
  messages or paths (spec \<section>8.2).\<close>

theorem cbo_push_tag:
  assumes valid: "validateInputs inp = None"
    and no_override: "branch_override inp = []" "commit_override inp = []"
    and push: "payload ctx = Some pl" "pull_request pl = None" "\<not> deleted pl"
    and r: "ref ctx = ''refs/tags/'' @ t"
  shows "get (fst (createBuildOptions app inp ctx env)) K_tag = JStr t \<and>
         \<not> is_set (fst (createBuildOptions app inp ctx env)) K_branch \<and>
         get (fst (createBuildOptions app inp ctx env)) K_commit_messages = JStrs [] \<and>
         get (fst (createBuildOptions app inp ctx env)) K_commit_paths = JPaths []"
proof -
  from r have "startsWith (ref ctx) ''refs/tags/''" and "\<not> startsWith (ref ctx) ''refs/heads/''"
    and "slice (ref ctx) 10 = t"
    by (simp_all add: startsWith_def slice_def)
  with createBuildOptions_get [OF valid selectOptions_event_fst [OF no_override push(1,2)]] push(3)
  show ?thesis by (simp add: is_set_def transformBasicEvent_get)
qed

theorem cbo_push_tag_witness:
  "validateInputs fx_inputs = None \<and> branch_override fx_inputs = [] \<and> commit_override fx_inputs = [] \<and>
   payload fx_tag = Some fx_push_payload \<and> pull_request fx_push_payload = None \<and>
   \<not> deleted fx_push_payload \<and> ref fx_tag = ''refs/tags/'' @ ''v1.0'' \<and>
   get (fst (createBuildOptions None fx_inputs fx_tag [])) K_tag = JStr ''v1.0'' \<and>
   \<not> is_set (fst (createBuildOptions None fx_inputs fx_tag [])) K_branch \<and>
   get (fst (createBuildOptions None fx_inputs fx_tag [])) K_commit_messages = JStrs [] \<and>
   get (fst (createBuildOptions None fx_inputs fx_tag [])) K_commit_paths = JPaths []"
proof -
  have h: "validateInputs fx_inputs = None" "branch_override fx_inputs = []" "commit_override fx_inputs = []"
    "payload fx_tag = Some fx_push_payload" "pull_request fx_push_payload = None"
    "\<not> deleted fx_push_payload" "ref fx_tag = ''refs/tags/'' @ ''v1.0''"
    by code_simp+
  show ?thesis using cbo_push_tag [OF h] h by simp
qed

section \<open>Overrides\<close>

text \<open>C9: Collapse-to-default (spec \<section>4.1 step 3, \<section>8.4): on a push to
  branch \<open>b\<close>, a branch override naming \<open>b\<close> (as
  \<open>refs/heads/b\<close> or as a plain name), with the app's repository URL
  referring to the event's repository, gives exactly the result of the same run without
  the override, full commit metadata included.\<close>

theorem cbo_collapse_to_default:
  assumes ev: "payload ctx = Some pl" "\<not> deleted pl" "pull_request pl = None"
    and r: "ref ctx = ''refs/heads/'' @ b" "b \<noteq> []"
    and bo: "branch_override inp = ''refs/heads/'' @ b \<or>
             (branch_override inp = b \<and> \<not> startsWith b ''refs/heads/'' \<and> \<not> startsWith b ''refs/tags/'')"
    and co: "commit_override inp = []"
    and app: "repo_url app = Some u" "u \<noteq> []"
      "urlsReferTheSameGitHubRepo (JStr u) (js_of_opt (getRepositoryURL (repository pl)))"
  shows "createBuildOptions (Some app) inp ctx env =
         createBuildOptions (Some app) (inp\<lparr>branch_override := []\<rparr>) ctx env"
proof -
  let ?d = "fst (transformBasicEvent ctx pl [])"
  have heads: "startsWith (ref ctx) ''refs/heads/''" and slc: "slice (ref ctx) 11 = b"
    using r by (simp_all add: startsWith_def slice_def)
  have defaults: "eventDefaults ctx [] = (Some ?d, [])"
    using ev by (simp add: eventDefaults_event)
  have bne: "branch_override inp \<noteq> []"
    using bo r(2) by auto
  have ob: "override_branch_options (Some app) (branch_override inp) =
      [K_base_repository_url \<mapsto> JStr u] ++ [K_branch \<mapsto> JStr b]"
    using override_branch_options_branch [of "branch_override inp" b "Some app"] bo r(2) app(1,2)
    by simp
  have dom_d: "dom ([K_base_repository_url \<mapsto> JStr u] ++ [K_branch \<mapsto> JStr b]) \<subseteq> dom ?d"
    using transformBasicEvent_dom [OF ev(2)] heads by auto
  have get_d: "get ?d K_branch = JStr b"
    "get ?d K_base_repository_url = js_of_opt (getRepositoryURL (repository pl))"
    using ev(2) heads slc by (simp_all add: transformBasicEvent_get)
  have "collapse_to_default (Some app) (Some ?d) (branch_override inp)
          ([K_base_repository_url \<mapsto> JStr u] ++ [K_branch \<mapsto> JStr b]) = ?d"
    using bne get_d app r(2) map_add_subsumed_dom [OF dom_d]
    by (simp add: collapse_to_default_def Let_def)
  then have po: "processOverrides (Some app) (Some ?d) (branch_override inp) [] [] = (?d, [])"
    using ob by (simp add: processOverrides_def narrow_to_commit_def)
  have "\<And>envs. selectOptions (Some app) inp ctx envs [] =
                selectOptions (Some app) (inp\<lparr>branch_override := []\<rparr>) ctx envs []"
    using bne co ev(1,3) defaults po
    by (simp add: selectOptions_override selectOptions_event)
  then show ?thesis
    by (intro createBuildOptions_cong [symmetric]) simp_all
qed

theorem cbo_collapse_to_default_witness:
  "payload fx_push = Some fx_push_payload \<and> \<not> deleted fx_push_payload \<and> pull_request fx_push_payload = None \<and>
   ref fx_push = ''refs/heads/'' @ ''main'' \<and> ''main'' \<noteq> [] \<and>
   (branch_override (fx_inputs\<lparr>branch_override := ''main''\<rparr>) = ''refs/heads/'' @ ''main'' \<or>
    (branch_override (fx_inputs\<lparr>branch_override := ''main''\<rparr>) = ''main'' \<and>
     \<not> startsWith ''main'' ''refs/heads/'' \<and> \<not> startsWith ''main'' ''refs/tags/'')) \<and>
   commit_override (fx_inputs\<lparr>branch_override := ''main''\<rparr>) = [] \<and>
   repo_url fx_app = Some ''git@github.com:octo/app.git'' \<and> ''git@github.com:octo/app.git'' \<noteq> [] \<and>
   urlsReferTheSameGitHubRepo (JStr ''git@github.com:octo/app.git'')
     (js_of_opt (getRepositoryURL (repository fx_push_payload))) \<and>
   createBuildOptions (Some fx_app) (fx_inputs\<lparr>branch_override := ''main''\<rparr>) fx_push [] =
   createBuildOptions (Some fx_app) (fx_inputs\<lparr>branch_override := ''main''\<rparr>\<lparr>branch_override := []\<rparr>) fx_push []"
proof -
  have h: "payload fx_push = Some fx_push_payload" "\<not> deleted fx_push_payload"
    "pull_request fx_push_payload = None" "ref fx_push = ''refs/heads/'' @ ''main''" "''main'' \<noteq> []"
    "branch_override (fx_inputs\<lparr>branch_override := ''main''\<rparr>) = ''refs/heads/'' @ ''main'' \<or>
     (branch_override (fx_inputs\<lparr>branch_override := ''main''\<rparr>) = ''main'' \<and>
      \<not> startsWith ''main'' ''refs/heads/'' \<and> \<not> startsWith ''main'' ''refs/tags/'')"
    "commit_override (fx_inputs\<lparr>branch_override := ''main''\<rparr>) = []"
    "repo_url fx_app = Some ''git@github.com:octo/app.git''" "''git@github.com:octo/app.git'' \<noteq> []"
    "urlsReferTheSameGitHubRepo (JStr ''git@github.com:octo/app.git'')
       (js_of_opt (getRepositoryURL (repository fx_push_payload)))"
    by code_simp+
  show ?thesis using cbo_collapse_to_default [OF h] h by simp
qed


text \<open>C10: With a branch override, a commit override equal to the event's own commit is not
  narrowed: the run gives exactly the result it gives without the commit override (spec
  \<section>8.3).\<close>

theorem cbo_commit_override_same_sha:
  assumes bo: "branch_override inp \<noteq> []"
    and ev: "payload ctx = Some pl" "\<not> deleted pl"
  shows "createBuildOptions app (inp\<lparr>commit_override := sha ctx\<rparr>) ctx env =
         createBuildOptions app (inp\<lparr>commit_override := []\<rparr>) ctx env"
proof -
  let ?d = "fst (eventDefaults ctx [])"
  have d: "oget ?d K_commit_hash = JStr (sha ctx)"
    using ev by (simp add: eventDefaults_fst transformBasicEvent_get)
  have "\<And>l. processOverrides app ?d (branch_override inp) (sha ctx) l =
             processOverrides app ?d (branch_override inp) [] l"
    using d by (simp add: processOverrides_def narrow_to_commit_def)
  then have "\<And>envs. selectOptions app (inp\<lparr>commit_override := sha ctx\<rparr>) ctx envs [] =
                     selectOptions app (inp\<lparr>commit_override := []\<rparr>) ctx envs []"
    using bo by (simp add: selectOptions_override split_def Let_def)
  then show ?thesis
    by (intro createBuildOptions_cong) simp_all
qed

theorem cbo_commit_override_same_sha_witness:
  "branch_override (fx_inputs\<lparr>branch_override := ''main''\<rparr>) \<noteq> [] \<and>
   payload fx_push = Some fx_push_payload \<and> \<not> deleted fx_push_payload \<and>
   createBuildOptions (Some fx_app) (fx_inputs\<lparr>branch_override := ''main''\<rparr>\<lparr>commit_override := sha fx_push\<rparr>) fx_push [] =
   createBuildOptions (Some fx_app) (fx_inputs\<lparr>branch_override := ''main''\<rparr>\<lparr>commit_override := []\<rparr>) fx_push []"
proof -
  have h: "branch_override (fx_inputs\<lparr>branch_override := ''main''\<rparr>) \<noteq> []"
    "payload fx_push = Some fx_push_payload" "\<not> deleted fx_push_payload"
    by code_simp+
  show ?thesis using cbo_commit_override_same_sha [OF h] h by simp
qed


text \<open>C21: Overrides take precedence over pull-request detection: when an override is given,
  no pull-request property is set, even on a pull-request event.\<close>

theorem cbo_overrides_drop_pull_request:
  assumes "branch_override inp \<noteq> [] \<or> commit_override inp \<noteq> []"
  shows "{k. is_set (fst (createBuildOptions app inp ctx env)) k} \<inter>
           {K_pull_request_id, K_pull_request_merge_branch, K_pull_request_unverified_merge_branch,
            K_pull_request_head_branch, K_pull_request_author, K_pull_request_ready_state,
            K_pull_request_repository_url, K_head_repository_url, K_branch_dest,
            K_branch_dest_repo_owner, K_branch_repo_owner, K_diff_url} = {}"
proof (cases "validateInputs inp")
  case (Some msg)
  then show ?thesis by (simp add: createBuildOptions_invalid is_set_def)
next
  case None
  let ?envs = "prepareEnvironmentVariables (env_vars_for_bitrise inp) env"
  let ?o = "fst (processOverrides app (fst (eventDefaults ctx [])) (branch_override inp) (commit_override inp)
                  (snd (eventDefaults ctx [])))"
  have sel: "fst (selectOptions app inp ctx ?envs []) = Some ?o"
    using assms by (simp add: selectOptions_override split_def Let_def)
  have "\<And>d'. fst (eventDefaults ctx []) = Some d' \<Longrightarrow> {k. is_set d' k} \<subseteq> event_keys"
    using transformBasicEvent_keys by (fastforce simp: eventDefaults_fst)
  then have "{k. is_set ?o k} \<subseteq> event_keys" by (rule processOverrides_keys)
  with createBuildOptions_get [OF None sel] show ?thesis
    by (auto simp: is_set_def event_keys_def)
qed

theorem cbo_overrides_drop_pull_request_witness:
  "branch_override (fx_inputs\<lparr>branch_override := ''main''\<rparr>) = ''main'' \<and>
   {k. is_set (fst (createBuildOptions None (fx_inputs\<lparr>branch_override := ''main''\<rparr>) fx_pr_ctx [])) k} \<inter>
     {K_pull_request_id, K_pull_request_merge_branch, K_pull_request_unverified_merge_branch,
      K_pull_request_head_branch, K_pull_request_author, K_pull_request_ready_state,
      K_pull_request_repository_url, K_head_repository_url, K_branch_dest,
      K_branch_dest_repo_owner, K_branch_repo_owner, K_diff_url} = {}"
proof -
  have h: "branch_override (fx_inputs\<lparr>branch_override := ''main''\<rparr>) \<noteq> [] \<or>
    commit_override (fx_inputs\<lparr>branch_override := ''main''\<rparr>) \<noteq> []" by code_simp
  show ?thesis using cbo_overrides_drop_pull_request [OF h] by simp
qed


text \<open>C23: A commit override equal to the pushed commit, given without a branch override,
  still takes the override path: the result has no branch, no commit hash and no commit
  messages.\<close>

theorem cbo_commit_override_only_drops_branch:
  assumes valid: "validateInputs inp = None"
    and bo: "branch_override inp = []" and co: "commit_override inp = sha ctx" "sha ctx \<noteq> []"
    and ev: "payload ctx = Some pl" "\<not> deleted pl"
  shows "\<not> is_set (fst (createBuildOptions app inp ctx env)) K_branch \<and>
         \<not> is_set (fst (createBuildOptions app inp ctx env)) K_commit_hash \<and>
         \<not> is_set (fst (createBuildOptions app inp ctx env)) K_commit_messages"
proof -
  let ?envs = "prepareEnvironmentVariables (env_vars_for_bitrise inp) env"
  let ?d = "fst (transformBasicEvent ctx pl [])"
  have defaults: "eventDefaults ctx [] = (Some ?d, [])"
    using ev by (simp add: eventDefaults_event)
  have d: "oget (Some ?d) K_commit_hash = JStr (sha ctx)"
    using ev by (simp add: transformBasicEvent_get)
  have "fst (processOverrides app (Some ?d) [] (sha ctx) []) = override_branch_options app []"
    using d by (simp add: processOverrides_fst narrow_to_commit_def collapse_to_default_def)
  then have sel: "fst (selectOptions app inp ctx ?envs []) = Some (override_branch_options app [])"
    using bo co defaults by (simp add: selectOptions_override split_def Let_def)
  show ?thesis
    using createBuildOptions_get [OF valid sel]
    by (simp add: is_set_def override_branch_options_def Let_def startsWith_def)
qed

theorem cbo_commit_override_only_drops_branch_witness:
  "validateInputs (fx_inputs\<lparr>commit_override := ''c0ffee''\<rparr>) = None \<and>
   branch_override (fx_inputs\<lparr>commit_override := ''c0ffee''\<rparr>) = [] \<and>
   commit_override (fx_inputs\<lparr>commit_override := ''c0ffee''\<rparr>) = sha fx_push \<and> sha fx_push \<noteq> [] \<and>
   payload fx_push = Some fx_push_payload \<and> \<not> deleted fx_push_payload \<and>
   \<not> is_set (fst (createBuildOptions None (fx_inputs\<lparr>commit_override := ''c0ffee''\<rparr>) fx_push [])) K_branch \<and>
   \<not> is_set (fst (createBuildOptions None (fx_inputs\<lparr>commit_override := ''c0ffee''\<rparr>) fx_push [])) K_commit_hash \<and>
   \<not> is_set (fst (createBuildOptions None (fx_inputs\<lparr>commit_override := ''c0ffee''\<rparr>) fx_push [])) K_commit_messages"
proof -
  have h: "validateInputs (fx_inputs\<lparr>commit_override := ''c0ffee''\<rparr>) = None"
    "branch_override (fx_inputs\<lparr>commit_override := ''c0ffee''\<rparr>) = []"
    "commit_override (fx_inputs\<lparr>commit_override := ''c0ffee''\<rparr>) = sha fx_push" "sha fx_push \<noteq> []"
    "payload fx_push = Some fx_push_payload" "\<not> deleted fx_push_payload"
    by code_simp+
  show ?thesis using cbo_commit_override_only_drops_branch [OF h] h by simp
qed


section \<open>Configuration and invariants\<close>

text \<open>C12: Giving both or neither of workflow and pipeline, or a pipeline together with
  \<open>listen\<close>, fails the run with the matching message and the empty result
  (spec \<section>8.6).\<close>

theorem cbo_config_error:
  assumes "(bitrise_workflow inp = []) = (bitrise_pipeline inp = []) \<or> (bitrise_pipeline inp \<noteq> [] \<and> listen inp)"
  shows "createBuildOptions app inp ctx env =
    (Map.empty,
     [Failed (if bitrise_workflow inp = [] \<and> bitrise_pipeline inp = []
              then ''Either bitrise-workflow or bitrise-pipeline must be provided''
              else if bitrise_workflow inp \<noteq> [] \<and> bitrise_pipeline inp \<noteq> []
              then ''Cannot specify both bitrise-workflow and bitrise-pipeline''
              else ''Listen option is not supported with bitrise-pipeline'')])"
proof -
  from assms have "validateInputs inp =
      Some (if bitrise_workflow inp = [] \<and> bitrise_pipeline inp = []
            then ''Either bitrise-workflow or bitrise-pipeline must be provided''
            else if bitrise_workflow inp \<noteq> [] \<and> bitrise_pipeline inp \<noteq> []
            then ''Cannot specify both bitrise-workflow and bitrise-pipeline''
            else ''Listen option is not supported with bitrise-pipeline'')"
    by (auto simp: validateInputs_def Let_def)
  then show ?thesis by (rule createBuildOptions_invalid)
qed

theorem cbo_config_error_witness:
  "((bitrise_workflow (fx_inputs\<lparr>bitrise_pipeline := ''deploy''\<rparr>) = []) =
      (bitrise_pipeline (fx_inputs\<lparr>bitrise_pipeline := ''deploy''\<rparr>) = []) \<or>
    (bitrise_pipeline (fx_inputs\<lparr>bitrise_pipeline := ''deploy''\<rparr>) \<noteq> [] \<and>
     listen (fx_inputs\<lparr>bitrise_pipeline := ''deploy''\<rparr>))) \<and>
   createBuildOptions None (fx_inputs\<lparr>bitrise_pipeline := ''deploy''\<rparr>) fx_push [] =
     (Map.empty, [Failed ''Cannot specify both bitrise-workflow and bitrise-pipeline''])"
proof -
  have h: "(bitrise_workflow (fx_inputs\<lparr>bitrise_pipeline := ''deploy''\<rparr>) = []) =
      (bitrise_pipeline (fx_inputs\<lparr>bitrise_pipeline := ''deploy''\<rparr>) = []) \<or>
    (bitrise_pipeline (fx_inputs\<lparr>bitrise_pipeline := ''deploy''\<rparr>) \<noteq> [] \<and>
     listen (fx_inputs\<lparr>bitrise_pipeline := ''deploy''\<rparr>))"
    by code_simp
  have "bitrise_workflow (fx_inputs\<lparr>bitrise_pipeline := ''deploy''\<rparr>) = ''primary''"
    "bitrise_pipeline (fx_inputs\<lparr>bitrise_pipeline := ''deploy''\<rparr>) = ''deploy''"
    by (simp_all add: fx_inputs_def)
  with cbo_config_error [OF h, of None fx_push "[]"] h show ?thesis by simp
qed


text \<open>C13: When validation passes and the event has a payload, exactly one of
  \<open>workflow_id\<close> and \<open>pipeline_id\<close> is set in the result (spec
  \<section>3).\<close>

theorem cbo_workflow_xor_pipeline:
  assumes valid: "validateInputs inp = None" and pl: "payload ctx \<noteq> None"
  shows "is_set (fst (createBuildOptions app inp ctx env)) K_workflow_id \<longleftrightarrow>
         \<not> is_set (fst (createBuildOptions app inp ctx env)) K_pipeline_id"
proof -
  obtain options where sel:
    "fst (selectOptions app inp ctx (prepareEnvironmentVariables (env_vars_for_bitrise inp) env) []) = Some options"
    using selectOptions_Some [OF pl] by blast
  from valid have "(bitrise_workflow inp = []) \<noteq> (bitrise_pipeline inp = [])"
    by (simp add: validateInputs_None)
  with createBuildOptions_get [OF valid sel] show ?thesis
    by (auto simp: is_set_def)
qed

theorem cbo_workflow_xor_pipeline_witness:
  "validateInputs fx_inputs = None \<and> payload fx_push \<noteq> None \<and>
   (is_set (fst (createBuildOptions None fx_inputs fx_push [])) K_workflow_id \<longleftrightarrow>
    \<not> is_set (fst (createBuildOptions None fx_inputs fx_push [])) K_pipeline_id)"
proof -
  have h: "validateInputs fx_inputs = None" "payload fx_push \<noteq> None" by code_simp+
  show ?thesis using cbo_workflow_xor_pipeline [OF h] h by simp
qed


text \<open>C14: On every input, branch and tag are never both set in the result (spec
  \<section>3).\<close>

theorem cbo_branch_tag_exclusive:
  "\<not> (is_set (fst (createBuildOptions app inp ctx env)) K_branch \<and>
      is_set (fst (createBuildOptions app inp ctx env)) K_tag)"
proof (cases "validateInputs inp")
  case (Some msg)
  then show ?thesis by (simp add: createBuildOptions_invalid is_set_def)
next
  case None
  show ?thesis
  proof (cases "fst (selectOptions app inp ctx (prepareEnvironmentVariables (env_vars_for_bitrise inp) env) [])")
    case None
    with \<open>validateInputs inp = None\<close> show ?thesis
      by (cases "selectOptions app inp ctx (prepareEnvironmentVariables (env_vars_for_bitrise inp) env) []")
         (simp add: createBuildOptions_no_options is_set_def)
  next
    case (Some options)
    then have "branch_tag_exclusive options" by (rule selectOptions_exclusive)
    with createBuildOptions_get [OF \<open>validateInputs inp = None\<close> Some] show ?thesis
      by (simp add: branch_tag_exclusive_def is_set_def)
  qed
qed


section \<open>Error paths\<close>

text \<open>C22: A deleted-ref event fails the run, yet the code does not stop: the result carries
  the workflow or pipeline id, the status-report flag and the environments, and no
  source options.\<close>

theorem cbo_deleted_event:
  assumes valid: "validateInputs inp = None"
    and no_override: "branch_override inp = []" "commit_override inp = []"
    and ev: "payload ctx = Some pl" "pull_request pl = None" and del: "deleted pl"
  shows "has_failed (snd (createBuildOptions app inp ctx env)) \<and>
         {k. is_set (fst (createBuildOptions app inp ctx env)) k} =
           {K_skip_git_status_report, K_environments} \<union>
           (if bitrise_workflow inp \<noteq> [] then {K_workflow_id} else {K_pipeline_id})"
proof -
  let ?envs = "prepareEnvironmentVariables (env_vars_for_bitrise inp) env"
  have sel: "fst (selectOptions app inp ctx ?envs []) = Some Map.empty"
    using selectOptions_event_fst [OF no_override ev] del by (simp add: transformBasicEvent_deleted)
  have "has_failed (snd (snd (selectOptions app inp ctx ?envs [])))"
    using no_override ev del by (simp add: selectOptions_event eventDefaults_failed)
  then have "has_failed (snd (createBuildOptions app inp ctx env))"
    using createBuildOptions_log [OF valid] by blast
  moreover from valid have "(bitrise_workflow inp = []) \<noteq> (bitrise_pipeline inp = [])"
    by (simp add: validateInputs_None)
  then have "{k. is_set (fst (createBuildOptions app inp ctx env)) k} =
      {K_skip_git_status_report, K_environments} \<union>
      (if bitrise_workflow inp \<noteq> [] then {K_workflow_id} else {K_pipeline_id})"
    using createBuildOptions_get [OF valid sel] by (auto simp: is_set_def)
  ultimately show ?thesis by blast
qed

theorem cbo_deleted_event_witness:
  "validateInputs fx_inputs = None \<and> branch_override fx_inputs = [] \<and> commit_override fx_inputs = [] \<and>
   payload (fx_push\<lparr>payload := Some (fx_push_payload\<lparr>deleted := True\<rparr>)\<rparr>) =
     Some (fx_push_payload\<lparr>deleted := True\<rparr>) \<and>
   pull_request (fx_push_payload\<lparr>deleted := True\<rparr>) = None \<and> deleted (fx_push_payload\<lparr>deleted := True\<rparr>) \<and>
   has_failed (snd (createBuildOptions None fx_inputs
     (fx_push\<lparr>payload := Some (fx_push_payload\<lparr>deleted := True\<rparr>)\<rparr>) [])) \<and>
   {k. is_set (fst (createBuildOptions None fx_inputs
      (fx_push\<lparr>payload := Some (fx_push_payload\<lparr>deleted := True\<rparr>)\<rparr>) [])) k} =
     {K_skip_git_status_report, K_environments} \<union>
     (if bitrise_workflow fx_inputs \<noteq> [] then {K_workflow_id} else {K_pipeline_id})"
proof -
  have h: "validateInputs fx_inputs = None" "branch_override fx_inputs = []" "commit_override fx_inputs = []"
    "payload (fx_push\<lparr>payload := Some (fx_push_payload\<lparr>deleted := True\<rparr>)\<rparr>) =
       Some (fx_push_payload\<lparr>deleted := True\<rparr>)"
    "pull_request (fx_push_payload\<lparr>deleted := True\<rparr>) = None" "deleted (fx_push_payload\<lparr>deleted := True\<rparr>)"
    by code_simp+
  show ?thesis using cbo_deleted_event [OF h] h by simp
qed


text \<open>C28: Without an event payload and without overrides, the run fails with \<open>No
  payload found in the context.\<close> and the empty result.\<close>

theorem cbo_no_payload:
  assumes valid: "validateInputs inp = None"
    and no_override: "branch_override inp = []" "commit_override inp = []"
    and none: "payload ctx = None"
  shows "createBuildOptions app inp ctx env = (Map.empty, [Failed ''No payload found in the context.''])"
proof -
  have "selectOptions app inp ctx (prepareEnvironmentVariables (env_vars_for_bitrise inp) env) [] =
      (None, prepareEnvironmentVariables (env_vars_for_bitrise inp) env, [])"
    using no_override none by (simp add: selectOptions_event eventDefaults_def)
  from createBuildOptions_no_options [OF valid this] show ?thesis by (simp add: setFailed_def)
qed

theorem cbo_no_payload_witness:
  "validateInputs fx_inputs = None \<and> branch_override fx_inputs = [] \<and> commit_override fx_inputs = [] \<and>
   payload (fx_push\<lparr>payload := None\<rparr>) = None \<and>
   createBuildOptions None fx_inputs (fx_push\<lparr>payload := None\<rparr>) [] =
     (Map.empty, [Failed ''No payload found in the context.''])"
proof -
  have h: "validateInputs fx_inputs = None" "branch_override fx_inputs = []" "commit_override fx_inputs = []"
    "payload (fx_push\<lparr>payload := None\<rparr>) = None"
    by code_simp+
  show ?thesis using cbo_no_payload [OF h] h by simp
qed


section \<open>Repository URLs\<close>

text \<open>C29: For a push or tag event, the base repository URL is the repository's SSH URL when
  it is private and its clone URL otherwise (spec \<section>4.2).\<close>

theorem cbo_event_repository_url:
  assumes valid: "validateInputs inp = None"
    and no_override: "branch_override inp = []" "commit_override inp = []"
    and ev: "payload ctx = Some pl" "pull_request pl = None" "\<not> deleted pl"
    and repo: "repository pl = Some r"
  shows "get (fst (createBuildOptions app inp ctx env)) K_base_repository_url =
           js_of_opt (if repo_private r then ssh_url r else clone_url r)"
  using createBuildOptions_get [OF valid selectOptions_event_fst [OF no_override ev(1,2)]] ev(3) repo
  by (simp add: transformBasicEvent_get getRepositoryURL_def)

theorem cbo_event_repository_url_witness:
  "validateInputs fx_inputs = None \<and> branch_override fx_inputs = [] \<and> commit_override fx_inputs = [] \<and>
   payload fx_push = Some fx_push_payload \<and> pull_request fx_push_payload = None \<and>
   \<not> deleted fx_push_payload \<and> repository fx_push_payload = Some fx_repo \<and>
   get (fst (createBuildOptions None fx_inputs fx_push [])) K_base_repository_url =
     js_of_opt (if repo_private fx_repo then ssh_url fx_repo else clone_url fx_repo)"
proof -
  have h: "validateInputs fx_inputs = None" "branch_override fx_inputs = []" "commit_override fx_inputs = []"
    "payload fx_push = Some fx_push_payload" "pull_request fx_push_payload = None"
    "\<not> deleted fx_push_payload" "repository fx_push_payload = Some fx_repo"
    by code_simp+
  show ?thesis using cbo_event_repository_url [OF h] h by simp
qed

section \<open>The log of a run\<close>

text \<open>C30: A push or tag run with no override and no pull request logs nothing but the
  repository cross-check: exactly one warning, with the code's message text, when the
  app's repository URL is set and does not refer to the event's repository, and an
  empty log otherwise. In particular it never fails.\<close>

theorem cbo_event_log:
  assumes "validateInputs inp = None" "branch_override inp = []" "commit_override inp = []"
    and "payload ctx = Some pl" "\<not> deleted pl" "pull_request pl = None"
  shows "snd (createBuildOptions app inp ctx env) =
    (case Option.bind app repo_url of
       Some u \<Rightarrow>
         if u \<noteq> [] \<and> \<not> urlsReferTheSameGitHubRepo (JStr u) (js_of_opt (getRepositoryURL (repository pl)))
         then [Warning (''Bitrise App's repository url '' @ [CHR 0x22] @ u @ [CHR 0x22] @
                        '' doesn't match current repository url '' @ [CHR 0x22] @
                        js_str (js_of_opt (getRepositoryURL (repository pl))) @ [CHR 0x22])]
         else []
     | None \<Rightarrow> [])"
proof -
  let ?envs = "prepareEnvironmentVariables (env_vars_for_bitrise inp) env"
  have sel: "selectOptions app inp ctx ?envs [] = (Some (fst (transformBasicEvent ctx pl [])), ?envs, [])"
    using selectOptions_event [OF assms(2,3)] assms(4,6) eventDefaults_event [OF assms(4,5)] by simp
  have base: "get (fst (transformBasicEvent ctx pl [])) K_base_repository_url =
      js_of_opt (getRepositoryURL (repository pl))"
    using transformBasicEvent_get [OF assms(5)] by simp
  show ?thesis
    by (simp add: createBuildOptions_valid [OF assms(1) sel] repoMismatchWarning_def Let_def base
        warning_def split: option.split del: truthy_js_of_opt)
qed

theorem cbo_event_log_witness:
  "validateInputs fx_inputs = None \<and> branch_override fx_inputs = [] \<and> commit_override fx_inputs = [] \<and>
   payload fx_push = Some fx_push_payload \<and> \<not> deleted fx_push_payload \<and> pull_request fx_push_payload = None \<and>
   snd (createBuildOptions (Some fx_other_app) fx_inputs fx_push []) =
     [Warning (''Bitrise App's repository url '' @ [CHR 0x22] @ ''https://github.com/octo/fork'' @ [CHR 0x22] @
               '' doesn't match current repository url '' @ [CHR 0x22] @ ''https://github.com/octo/app.git'' @ [CHR 0x22])] \<and>
   snd (createBuildOptions (Some fx_app) fx_inputs fx_push []) = []"
proof -
  have h: "validateInputs fx_inputs = None" "branch_override fx_inputs = []" "commit_override fx_inputs = []"
    "payload fx_push = Some fx_push_payload" "\<not> deleted fx_push_payload" "pull_request fx_push_payload = None"
    by code_simp+
  have u1: "\<not> urlsReferTheSameGitHubRepo (JStr ''https://github.com/octo/fork'')
              (js_of_opt (getRepositoryURL (repository fx_push_payload)))"
    and u2: "urlsReferTheSameGitHubRepo (JStr ''git@github.com:octo/app.git'')
              (js_of_opt (getRepositoryURL (repository fx_push_payload)))"
    and r: "getRepositoryURL (repository fx_push_payload) = Some ''https://github.com/octo/app.git''"
    by code_simp+
  show ?thesis
    using cbo_event_log [OF h, of "Some fx_other_app" "[]"] cbo_event_log [OF h, of "Some fx_app" "[]"] h u1 u2 r
    by (simp add: fx_other_app_def fx_app_def)
qed

text \<open>C31: A pull-request run with no override logs the unmergeable failure when
  GitHub reports the pull request as not mergeable, and then the repository
  cross-check: a warning exactly when the app's repository URL is set and does not
  refer to the base repository of the pull request. For an unmergeable pull
  request that URL is \<open>undefined\<close>, as the transform returned no options.\<close>

theorem cbo_pull_request_log:
  assumes v: "validateInputs inp = None"
    and o: "branch_override inp = []" "commit_override inp = []"
    and pl: "payload ctx = Some pl" "\<not> deleted pl" "pull_request pl = Some pr"
  shows "snd (createBuildOptions app inp ctx env) =
    (let bad = (mergeable pr = Some False);
         url = (if bad then Undef else js_of_opt (getRepositoryURL (Option.bind (base pr) pr_repo)))
     in (if bad then [Failed ''Pull Request is not mergeable''] else []) @
        (case Option.bind app repo_url of
           Some u \<Rightarrow>
             if u \<noteq> [] \<and> \<not> urlsReferTheSameGitHubRepo (JStr u) url
             then [Warning (''Bitrise App's repository url '' @ [CHR 0x22] @ u @ [CHR 0x22] @
                            '' doesn't match current repository url '' @ [CHR 0x22] @
                            js_str url @ [CHR 0x22])]
             else []
         | None \<Rightarrow> []))"
proof -
  let ?envs = "prepareEnvironmentVariables (env_vars_for_bitrise inp) env"
  have ev: "snd (eventDefaults ctx []) = []"
    using eventDefaults_event [OF pl(1,2)] by simp
  have sel: "selectOptions app inp ctx ?envs [] =
      (Some (fst (transformPullRequestEvent pr [])),
       if draft pr then ?envs @ [draftEnvironment] else ?envs,
       snd (transformPullRequestEvent pr []))"
    using selectOptions_pull_request [OF o pl(1,3)] ev by (simp add: prod.case_eq_if)
  have base: "get (fst (transformPullRequestEvent pr [])) K_base_repository_url =
      (if mergeable pr = Some False then Undef
       else js_of_opt (getRepositoryURL (Option.bind (base pr) pr_repo)))"
    by (cases "mergeable pr = Some False")
       (simp_all add: transformPullRequestEvent_unmergeable transformPullRequestEvent_get)
  show ?thesis
    by (simp add: createBuildOptions_valid [OF v sel] repoMismatchWarning_def Let_def base
        transformPullRequestEvent_log setFailed_def warning_def split: option.split del: truthy_js_of_opt)
qed

theorem cbo_pull_request_log_witness:
  "validateInputs fx_inputs = None \<and> branch_override fx_inputs = [] \<and> commit_override fx_inputs = [] \<and>
   payload fx_pr_ctx = Some fx_pr_payload \<and> \<not> deleted fx_pr_payload \<and> pull_request fx_pr_payload = Some fx_pr \<and>
   payload fx_unmergeable_ctx = Some (fx_pr_payload\<lparr>pull_request := Some fx_unmergeable_pr\<rparr>) \<and>
   snd (createBuildOptions (Some fx_other_app) fx_inputs fx_pr_ctx []) =
     [Warning (''Bitrise App's repository url '' @ [CHR 0x22] @ ''https://github.com/octo/fork'' @ [CHR 0x22] @
               '' doesn't match current repository url '' @ [CHR 0x22] @ ''https://github.com/octo/app.git'' @
               [CHR 0x22])] \<and>
   snd (createBuildOptions (Some fx_app) fx_inputs fx_unmergeable_ctx []) =
     [Failed ''Pull Request is not mergeable'',
      Warning (''Bitrise App's repository url '' @ [CHR 0x22] @ ''git@github.com:octo/app.git'' @ [CHR 0x22] @
               '' doesn't match current repository url '' @ [CHR 0x22] @ ''undefined'' @ [CHR 0x22])]"
proof -
  have h: "validateInputs fx_inputs = None" "branch_override fx_inputs = []" "commit_override fx_inputs = []"
    "payload fx_pr_ctx = Some fx_pr_payload" "\<not> deleted fx_pr_payload" "pull_request fx_pr_payload = Some fx_pr"
    by code_simp+
  have h2: "payload fx_unmergeable_ctx = Some (fx_pr_payload\<lparr>pull_request := Some fx_unmergeable_pr\<rparr>)"
    "\<not> deleted (fx_pr_payload\<lparr>pull_request := Some fx_unmergeable_pr\<rparr>)"
    "pull_request (fx_pr_payload\<lparr>pull_request := Some fx_unmergeable_pr\<rparr>) = Some fx_unmergeable_pr"
    by code_simp+
  have f: "mergeable fx_pr = None" "mergeable fx_unmergeable_pr = Some False"
    "getRepositoryURL (Option.bind (base fx_pr) pr_repo) = Some ''https://github.com/octo/app.git''"
    "\<not> urlsReferTheSameGitHubRepo (JStr ''https://github.com/octo/fork'') (JStr ''https://github.com/octo/app.git'')"
    by code_simp+
  show ?thesis
    using cbo_pull_request_log [OF h, of "Some fx_other_app" "[]"]
      cbo_pull_request_log [OF h(1-3) h2, of "Some fx_app" "[]"] h h2 f
    by (simp add: fx_other_app_def fx_app_def)
qed

section \<open>The actor's username\<close>

text \<open>C34: \<open>getActorUsername\<close> has no result (the code throws on
  \<open>payload.sender\<close>/\<open>payload.pusher\<close>) exactly for a pull-request or push event
  without a payload.\<close>

theorem getActorUsername_None:
  "getActorUsername ctx = None \<longleftrightarrow>
   (eventName ctx = ''pull_request'' \<or> eventName ctx = ''push'') \<and> payload ctx = None"
  by (simp add: getActorUsername_def)

text \<open>C35: The username is the actor, or the payload's sender for a pull-request event,
  or the payload's pusher for a push event, never any other field; and the sender,
  respectively the pusher, wins over the actor whenever the payload names one.\<close>

theorem getActorUsername_source:
  "(getActorUsername ctx = Some u \<longrightarrow>
      u = actor ctx \<or>
      (\<exists>pl. payload ctx = Some pl \<and>
         (eventName ctx = ''pull_request'' \<and> sender_login pl = Some u \<or>
          eventName ctx = ''push'' \<and> pusher_name pl = Some u))) \<and>
   (payload ctx = Some pl \<and> eventName ctx = ''pull_request'' \<and> sender_login pl = Some s \<longrightarrow>
      getActorUsername ctx = Some s) \<and>
   (payload ctx = Some pl \<and> eventName ctx = ''push'' \<and> pusher_name pl = Some s \<longrightarrow>
      getActorUsername ctx = Some s)"
  by (auto simp: getActorUsername_def split: if_splits option.splits)

theorem getActorUsername_source_witness:
  "payload (fx_pr_ctx\<lparr>actor := ''bot''\<rparr>) = Some fx_pr_payload \<and>
   eventName (fx_pr_ctx\<lparr>actor := ''bot''\<rparr>) = ''pull_request'' \<and> sender_login fx_pr_payload = Some ''dev'' \<and>
   getActorUsername (fx_pr_ctx\<lparr>actor := ''bot''\<rparr>) = Some ''dev''"
proof -
  have h: "payload (fx_pr_ctx\<lparr>actor := ''bot''\<rparr>) = Some fx_pr_payload"
    "eventName (fx_pr_ctx\<lparr>actor := ''bot''\<rparr>) = ''pull_request''" "sender_login fx_pr_payload = Some ''dev''"
    by code_simp+
  show ?thesis
    using getActorUsername_source [of "fx_pr_ctx\<lparr>actor := ''bot''\<rparr>" _ fx_pr_payload "''dev''"] h by blast
qed

section \<open>The log of override and failing runs\<close>

text \<open>C32: A run with an override logs exactly one warning, recommending
  \<open>bitrise-token\<close>, when there are no app details, and nothing otherwise, provided the
  app's repository URL, when given, names a repository. The repository cross-check
  never fires on such a run, because the overrides keep a base repository URL of
  the app's repository.\<close>

theorem cbo_override_log:
  assumes v: "validateInputs inp = None"
    and o: "branch_override inp \<noteq> [] \<or> commit_override inp \<noteq> []"
    and nd: "(case payload ctx of None \<Rightarrow> True | Some pl \<Rightarrow> \<not> deleted pl)"
    and url: "(case Option.bind app repo_url of None \<Rightarrow> True | Some u \<Rightarrow> u = [] \<or> repo_identity u \<noteq> None)"
  shows "snd (createBuildOptions app inp ctx env) =
    (if app = None
     then [Warning (''It is recommended to use '' @ [CHR 0x22] @ ''bitrise-token'' @ [CHR 0x22] @
                    '' with overrides options.'')]
     else [])"
proof -
  obtain d where ev: "eventDefaults ctx [] = (d, [])"
    using nd eventDefaults_event by (cases "payload ctx") (auto simp: eventDefaults_def)
  let ?po = "processOverrides app d (branch_override inp) (commit_override inp) []"
  have cbo: "snd (createBuildOptions app inp ctx env) = repoMismatchWarning app (fst ?po) (snd ?po)"
    by (simp add: createBuildOptions_valid [OF v selectOptions_override_eq [OF o ev]])
  have quiet: "repoMismatchWarning app (fst ?po) l = l" for l
  proof (cases "Option.bind app repo_url")
    case None
    then show ?thesis by (simp add: repoMismatchWarning_def)
  next
    case (Some u)
    then show ?thesis
      using url processOverrides_base_same_repo [OF Some]
      by (auto simp: repoMismatchWarning_def Let_def)
  qed
  show ?thesis
    by (simp add: cbo quiet processOverrides_log warning_def)
qed

theorem cbo_override_log_witness:
  "validateInputs fx_branch_override = None \<and>
   branch_override fx_branch_override = ''refs/heads/main'' \<and>
   (case payload fx_push of None \<Rightarrow> True | Some pl \<Rightarrow> \<not> deleted pl) \<and>
   (case Option.bind (Some fx_app) repo_url of None \<Rightarrow> True | Some u \<Rightarrow> u = [] \<or> repo_identity u \<noteq> None) \<and>
   (case Option.bind None repo_url of None \<Rightarrow> True | Some u \<Rightarrow> u = [] \<or> repo_identity u \<noteq> None) \<and>
   snd (createBuildOptions (Some fx_app) fx_branch_override fx_push []) = [] \<and>
   snd (createBuildOptions None fx_branch_override fx_push []) =
     [Warning (''It is recommended to use '' @ [CHR 0x22] @ ''bitrise-token'' @ [CHR 0x22] @
               '' with overrides options.'')]"
proof -
  have h: "validateInputs fx_branch_override = None"
    "branch_override fx_branch_override \<noteq> [] \<or> commit_override fx_branch_override \<noteq> []"
    "(case payload fx_push of None \<Rightarrow> True | Some pl \<Rightarrow> \<not> deleted pl)"
    "(case Option.bind (Some fx_app) repo_url of None \<Rightarrow> True | Some u \<Rightarrow> u = [] \<or> repo_identity u \<noteq> None)"
    "(case Option.bind None repo_url of None \<Rightarrow> True | Some u \<Rightarrow> u = [] \<or> repo_identity u \<noteq> None)"
    by code_simp+
  have b: "branch_override fx_branch_override = ''refs/heads/main''" by code_simp
  show ?thesis
    using cbo_override_log [OF h(1-4), of "[]"] cbo_override_log [OF h(1-3,5), of "[]"] h b
    by simp
qed

text \<open>C33: A deleted-ref push with the app's repository URL known logs the deletion
  failure and then a repository-mismatch warning against the URL \<open>undefined\<close>: the
  cross-check reads the base repository URL of the empty options the failed
  transform returned, not the event's repository.\<close>

theorem cbo_deleted_event_log:
  assumes v: "validateInputs inp = None"
    and o: "branch_override inp = []" "commit_override inp = []"
    and pl: "payload ctx = Some pl" "deleted pl" "pull_request pl = None"
    and u: "Option.bind app repo_url = Some u" "u \<noteq> []"
  shows "snd (createBuildOptions app inp ctx env) =
    [Failed ''this is a 'Deleted' event, no build can be started'',
     Warning (''Bitrise App's repository url '' @ [CHR 0x22] @ u @ [CHR 0x22] @
              '' doesn't match current repository url '' @ [CHR 0x22] @ ''undefined'' @ [CHR 0x22])]"
proof -
  let ?envs = "prepareEnvironmentVariables (env_vars_for_bitrise inp) env"
  have ev: "eventDefaults ctx [] = (Some Map.empty, [Failed ''this is a 'Deleted' event, no build can be started''])"
    using pl by (simp add: eventDefaults_def transformBasicEvent_deleted setFailed_def)
  have sel: "selectOptions app inp ctx ?envs [] =
      (Some Map.empty, ?envs, [Failed ''this is a 'Deleted' event, no build can be started''])"
    using selectOptions_event [OF o] pl ev by simp
  show ?thesis
    using u by (simp add: createBuildOptions_valid [OF v sel] repoMismatchWarning_def Let_def warning_def)
qed

theorem cbo_deleted_event_log_witness:
  "validateInputs fx_inputs = None \<and> branch_override fx_inputs = [] \<and> commit_override fx_inputs = [] \<and>
   payload fx_deleted = Some (fx_push_payload\<lparr>deleted := True\<rparr>) \<and> deleted (fx_push_payload\<lparr>deleted := True\<rparr>) \<and>
   pull_request (fx_push_payload\<lparr>deleted := True\<rparr>) = None \<and>
   snd (createBuildOptions (Some fx_app) fx_inputs fx_deleted []) =
    [Failed ''this is a 'Deleted' event, no build can be started'',
     Warning (''Bitrise App's repository url '' @ [CHR 0x22] @ ''git@github.com:octo/app.git'' @ [CHR 0x22] @
              '' doesn't match current repository url '' @ [CHR 0x22] @ ''undefined'' @ [CHR 0x22])]"
proof -
  have h: "validateInputs fx_inputs = None" "branch_override fx_inputs = []" "commit_override fx_inputs = []"
    "payload fx_deleted = Some (fx_push_payload\<lparr>deleted := True\<rparr>)" "deleted (fx_push_payload\<lparr>deleted := True\<rparr>)"
    "pull_request (fx_push_payload\<lparr>deleted := True\<rparr>) = None"
    "Option.bind (Some fx_app) repo_url = Some ''git@github.com:octo/app.git''"
    "''git@github.com:octo/app.git'' \<noteq> []"
    by code_simp+
  show ?thesis using cbo_deleted_event_log [OF h, of "[]"] h(1-6) by simp
qed

section \<open>What the result depends on\<close>

text \<open>C15: The result depends on the event context only through its ref, its sha and
  its payload: two contexts that agree on these give the same result and the same
  log, whatever their event name and actor. In particular the pull-request path is
  chosen by the presence of \<open>payload.pull_request\<close>, not by the kind of event.\<close>

theorem cbo_context_independent:
  "ref c1 = ref c2 \<Longrightarrow> sha c1 = sha c2 \<Longrightarrow> payload c1 = payload c2 \<Longrightarrow>
   createBuildOptions app inp c1 env = createBuildOptions app inp c2 env"
proof -
  assume "ref c1 = ref c2" "sha c1 = sha c2" "payload c1 = payload c2"
  then have s: "selectOptions app inp c1 = selectOptions app inp c2"
    by (intro ext selectOptions_ctx)
  show ?thesis unfolding createBuildOptions_def s by (rule refl)
qed

theorem cbo_context_independent_witness:
  "createBuildOptions (Some fx_app) fx_inputs (fx_pr_ctx\<lparr>eventName := ''pull_request_review'', actor := ''bot''\<rparr>) [] =
   createBuildOptions (Some fx_app) fx_inputs fx_pr_ctx []"
  by (rule cbo_context_independent) simp_all

text \<open>C16: The commit hash a run sends is one the event or the user named: the pushed
  commit, the commit override, or the head commit of the pull request in the
  payload; or it is unset.\<close>

theorem cbo_commit_provenance:
  "get (fst (createBuildOptions app inp ctx env)) K_commit_hash \<in>
     {Undef, JStr (sha ctx), JStr (commit_override inp)} \<union>
     {js_of_opt (Option.bind (head pr) pr_sha) | pr. Option.bind (payload ctx) pull_request = Some pr}"
  using createBuildOptions_shape [of app inp ctx env]
proof (elim disjE exE conjE)
  assume "fst (createBuildOptions app inp ctx env) = Map.empty"
  then show ?thesis by simp
next
  fix options
  assume sel: "fst (selectOptions app inp ctx (prepareEnvironmentVariables (env_vars_for_bitrise inp) env) []) =
    Some options"
  assume "fst (createBuildOptions app inp ctx env) = options ++
        [K_workflow_id \<mapsto> (if bitrise_workflow inp \<noteq> [] then JStr (bitrise_workflow inp) else Undef),
         K_pipeline_id \<mapsto> (if bitrise_pipeline inp \<noteq> [] then JStr (bitrise_pipeline inp) else Undef),
         K_skip_git_status_report \<mapsto> JBool (skip_git_status_report inp),
         K_environments \<mapsto>
           JEnvs (fst (snd (selectOptions app inp ctx (prepareEnvironmentVariables (env_vars_for_bitrise inp) env) [])))]"
  then have "get (fst (createBuildOptions app inp ctx env)) K_commit_hash = get options K_commit_hash"
    by (simp add: get_add_if)
  then show ?thesis using selectOptions_commit [OF sel] by (simp only:)
qed

text \<open>C17: The branch a run sends is the pushed branch, the branch override (without
  its \<open>refs/heads/\<close> prefix, or as given), or the head ref of the payload's pull
  request; the tag is the pushed tag or a \<open>refs/tags/\<close> override, never a bare
  string; either may be unset.\<close>

theorem cbo_branch_tag_provenance:
  "get (fst (createBuildOptions app inp ctx env)) K_branch \<in>
     {Undef} \<union> {JStr n | n. ref ctx = ''refs/heads/'' @ n \<or> branch_override inp = ''refs/heads/'' @ n \<or>
                           branch_override inp = n} \<union>
     {js_of_opt (Option.bind (head pr) pr_ref) | pr. Option.bind (payload ctx) pull_request = Some pr} \<and>
   get (fst (createBuildOptions app inp ctx env)) K_tag \<in>
     {Undef} \<union> {JStr t | t. ref ctx = ''refs/tags/'' @ t \<or> branch_override inp = ''refs/tags/'' @ t}"
  using createBuildOptions_shape [of app inp ctx env]
proof (elim disjE exE conjE)
  assume "fst (createBuildOptions app inp ctx env) = Map.empty"
  then show ?thesis by simp
next
  fix options
  assume sel: "fst (selectOptions app inp ctx (prepareEnvironmentVariables (env_vars_for_bitrise inp) env) []) =
    Some options"
  assume "fst (createBuildOptions app inp ctx env) = options ++
        [K_workflow_id \<mapsto> (if bitrise_workflow inp \<noteq> [] then JStr (bitrise_workflow inp) else Undef),
         K_pipeline_id \<mapsto> (if bitrise_pipeline inp \<noteq> [] then JStr (bitrise_pipeline inp) else Undef),
         K_skip_git_status_report \<mapsto> JBool (skip_git_status_report inp),
         K_environments \<mapsto>
           JEnvs (fst (snd (selectOptions app inp ctx (prepareEnvironmentVariables (env_vars_for_bitrise inp) env) [])))]"
  then have "get (fst (createBuildOptions app inp ctx env)) K_branch = get options K_branch"
    and "get (fst (createBuildOptions app inp ctx env)) K_tag = get options K_tag"
    by (simp_all add: get_add_if)
  then show ?thesis using selectOptions_branch_tag [OF sel] by (simp only:)
qed

text \<open>C18: No environment variable leaks: every environment entry a run sends is an
  entry of \<open>process.env\<close> whose name is on the allow-list \<open>env-vars-for-bitrise\<close>,
  with its own value, or the \<open>GITHUB_PR_IS_DRAFT\<close> marker.\<close>

theorem cbo_environments_allow_listed:
  "set (case get (fst (createBuildOptions app inp ctx env)) K_environments of JEnvs es \<Rightarrow> es | _ \<Rightarrow> []) \<subseteq>
     env_entry ` {(k, v) \<in> set env. k \<in> set (envPassThrough (env_vars_for_bitrise inp))} \<union> {draftEnvironment}"
  using createBuildOptions_shape [of app inp ctx env]
proof (elim disjE exE conjE)
  assume "fst (createBuildOptions app inp ctx env) = Map.empty"
  then show ?thesis by simp
next
  fix options
  let ?sel = "selectOptions app inp ctx (prepareEnvironmentVariables (env_vars_for_bitrise inp) env) []"
  assume "fst (createBuildOptions app inp ctx env) = options ++
        [K_workflow_id \<mapsto> (if bitrise_workflow inp \<noteq> [] then JStr (bitrise_workflow inp) else Undef),
         K_pipeline_id \<mapsto> (if bitrise_pipeline inp \<noteq> [] then JStr (bitrise_pipeline inp) else Undef),
         K_skip_git_status_report \<mapsto> JBool (skip_git_status_report inp),
         K_environments \<mapsto>
           JEnvs (fst (snd (selectOptions app inp ctx (prepareEnvironmentVariables (env_vars_for_bitrise inp) env) [])))]"
  then have "get (fst (createBuildOptions app inp ctx env)) K_environments = JEnvs (fst (snd ?sel))"
    by (simp add: get_add_if)
  then show ?thesis
    using selectOptions_envs [of app inp ctx "prepareEnvironmentVariables (env_vars_for_bitrise inp) env" "[]"]
    by (simp add: prepareEnvironmentVariables_set)
qed

section \<open>Boundary cases of the overrides and the commit list\<close>

text \<open>C25: Spec \<section>9's open question. When the branch override names the pushed branch
  but the app's repository is another one, the run keeps only the override-derived
  options (branch and the app's URL, no commit hash, no commit messages) and logs
  nothing: the mismatch goes unreported.\<close>

theorem cbo_override_foreign_repo:
  assumes v: "validateInputs inp = None"
    and rh: "ref ctx = ''refs/heads/'' @ br" and br: "br \<noteq> []"
    and ov: "branch_override inp = ref ctx" "commit_override inp = []"
    and pl: "payload ctx = Some pl" "\<not> deleted pl"
    and app: "Option.bind app repo_url = Some u" "repo_identity u \<noteq> None"
    and foreign: "\<not> urlsReferTheSameGitHubRepo (JStr u) (js_of_opt (getRepositoryURL (repository pl)))"
  shows "get (fst (createBuildOptions app inp ctx env)) K_branch = JStr br \<and>
         get (fst (createBuildOptions app inp ctx env)) K_base_repository_url = JStr u \<and>
         get (fst (createBuildOptions app inp ctx env)) K_commit_hash = Undef \<and>
         get (fst (createBuildOptions app inp ctx env)) K_commit_messages = Undef \<and>
         snd (createBuildOptions app inp ctx env) = []"
proof -
  let ?envs = "prepareEnvironmentVariables (env_vars_for_bitrise inp) env"
  let ?bo = "override_branch_options app (branch_override inp)"
  let ?d = "fst (transformBasicEvent ctx pl [])"
  have sw: "startsWith (ref ctx) ''refs/heads/''" and sl: "slice (ref ctx) 11 = br"
    by (simp_all only: rh startsWith_heads slice_heads)
  have ne: "u \<noteq> []" using app(2) repo_identity_Nil by auto
  have o: "branch_override inp \<noteq> [] \<or> commit_override inp \<noteq> []"
    using ov(1) sw by (auto simp: startsWith_def)
  have ev: "eventDefaults ctx [] = (Some ?d, [])" by (rule eventDefaults_event [OF pl])
  have bo_branch: "get ?bo K_branch = JStr br" and bo_base: "get ?bo K_base_repository_url = JStr u"
    and bo_commit: "get ?bo K_commit_hash = Undef" and bo_msgs: "get ?bo K_commit_messages = Undef"
    using app(1) ne sw sl ov(1) by (simp_all add: override_branch_options_def Let_def get_add_if)
  have d_base: "get ?d K_base_repository_url = js_of_opt (getRepositoryURL (repository pl))"
    using transformBasicEvent_get [OF pl(2)] by simp
  have col: "collapse_to_default app (Some ?d) (branch_override inp) ?bo = ?bo"
    using app(1) foreign by (simp add: collapse_to_default_def Let_def d_base)
  have po: "processOverrides app (Some ?d) (branch_override inp) (commit_override inp) [] = (?bo, [])"
    using app(1) ov(2) col
    by (auto simp: processOverrides_def Let_def narrow_to_commit_def)
  have sel: "selectOptions app inp ctx ?envs [] = (Some ?bo, ?envs, [])"
    using selectOptions_override_eq [OF o ev] po by simp
  have same: "urlsReferTheSameGitHubRepo (JStr u) (JStr u)" using app(2) by (simp add: urls_JStr)
  have log: "snd (createBuildOptions app inp ctx env) = []"
    using app(1) ne same bo_base
    by (simp add: createBuildOptions_valid [OF v sel] repoMismatchWarning_def Let_def)
  show ?thesis
    using createBuildOptions_get [OF v, of app ctx env ?bo] sel bo_branch bo_base bo_commit bo_msgs log
    by simp
qed

theorem cbo_override_foreign_repo_witness:
  "validateInputs fx_branch_override = None \<and> ref fx_push = ''refs/heads/'' @ ''main'' \<and>
   branch_override fx_branch_override = ref fx_push \<and> commit_override fx_branch_override = [] \<and>
   payload fx_push = Some fx_push_payload \<and> \<not> deleted fx_push_payload \<and>
   Option.bind (Some fx_other_app) repo_url = Some ''https://github.com/octo/fork'' \<and>
   repo_identity ''https://github.com/octo/fork'' \<noteq> None \<and>
   \<not> urlsReferTheSameGitHubRepo (JStr ''https://github.com/octo/fork'')
       (js_of_opt (getRepositoryURL (repository fx_push_payload))) \<and>
   get (fst (createBuildOptions (Some fx_other_app) fx_branch_override fx_push [])) K_commit_hash = Undef \<and>
   snd (createBuildOptions (Some fx_other_app) fx_branch_override fx_push []) = []"
proof -
  have h: "validateInputs fx_branch_override = None" "ref fx_push = ''refs/heads/'' @ ''main''"
    "''main'' \<noteq> []"
    "branch_override fx_branch_override = ref fx_push" "commit_override fx_branch_override = []"
    "payload fx_push = Some fx_push_payload" "\<not> deleted fx_push_payload"
    "Option.bind (Some fx_other_app) repo_url = Some ''https://github.com/octo/fork''"
    "repo_identity ''https://github.com/octo/fork'' \<noteq> None"
    "\<not> urlsReferTheSameGitHubRepo (JStr ''https://github.com/octo/fork'')
       (js_of_opt (getRepositoryURL (repository fx_push_payload)))"
    by code_simp+
  show ?thesis using cbo_override_foreign_repo [OF h, of "[]"] h by simp
qed

text \<open>C8: An empty commit list in the payload is not an absent one: a push whose
  \<open>commits\<close> is \<open>[]\<close> sends empty commit-message and commit-path lists, while
  \<open>commit_message\<close> is still the head commit's message.\<close>

theorem cbo_push_empty_commit_list:
  assumes v: "validateInputs inp = None"
    and o: "branch_override inp = []" "commit_override inp = []"
    and pl: "payload ctx = Some pl" "\<not> deleted pl" "pull_request pl = None"
    and c: "commits pl = Some []"
  shows "get (fst (createBuildOptions app inp ctx env)) K_commit_messages = JStrs [] \<and>
         get (fst (createBuildOptions app inp ctx env)) K_commit_paths = JPaths [] \<and>
         get (fst (createBuildOptions app inp ctx env)) K_commit_message =
           js_of_opt (map_option message (head_commit pl))"
  using createBuildOptions_get [OF v selectOptions_event_fst [OF o pl(1,3)]]
    transformBasicEvent_get [OF pl(2)] c
  by (simp add: event_commits_def)

theorem cbo_push_empty_commit_list_witness:
  "validateInputs fx_inputs = None \<and> branch_override fx_inputs = [] \<and> commit_override fx_inputs = [] \<and>
   payload (fx_push\<lparr>payload := Some (fx_push_payload\<lparr>commits := Some []\<rparr>)\<rparr>) =
     Some (fx_push_payload\<lparr>commits := Some []\<rparr>) \<and>
   \<not> deleted (fx_push_payload\<lparr>commits := Some []\<rparr>) \<and> pull_request (fx_push_payload\<lparr>commits := Some []\<rparr>) = None \<and>
   get (fst (createBuildOptions None fx_inputs (fx_push\<lparr>payload := Some (fx_push_payload\<lparr>commits := Some []\<rparr>)\<rparr>) []))
     K_commit_messages = JStrs [] \<and>
   get (fst (createBuildOptions None fx_inputs (fx_push\<lparr>payload := Some (fx_push_payload\<lparr>commits := Some []\<rparr>)\<rparr>) []))
     K_commit_message = JStr ''Fix build''"
proof -
  have h: "validateInputs fx_inputs = None" "branch_override fx_inputs = []" "commit_override fx_inputs = []"
    "payload (fx_push\<lparr>payload := Some (fx_push_payload\<lparr>commits := Some []\<rparr>)\<rparr>) =
       Some (fx_push_payload\<lparr>commits := Some []\<rparr>)"
    "\<not> deleted (fx_push_payload\<lparr>commits := Some []\<rparr>)" "pull_request (fx_push_payload\<lparr>commits := Some []\<rparr>) = None"
    "commits (fx_push_payload\<lparr>commits := Some []\<rparr>) = Some []"
    by code_simp+
  have hc: "head_commit fx_push_payload = Some fx_commit" "message fx_commit = ''Fix build''"
    by (simp_all add: fx_push_payload_def fx_commit_def)
  show ?thesis using cbo_push_empty_commit_list [OF h(1-7), of None "[]"] h hc by simp
qed

end
